theory Spec2Isabelle
  imports Complex_Main "HOL-Library.Word" "HOL-Library.Sublist" "HOL-Library.Multiset"
    "HOL-Library.Product_Lexorder"
begin

unbundle bit_operations_syntax

chapter \<open>The model\<close>

section \<open>JavaScript strings\<close>

text \<open>
  A JavaScript string is a sequence of 16-bit code units, and \<open>s.length\<close> counts code
  units. Strings are therefore lists of 16-bit words; \<open>js\<close> turns an ASCII literal into
  such a list.
\<close>

type_synonym jsstring = "16 word list"

definition js :: "string \<Rightarrow> jsstring" where
  "js s = map of_char s"

section \<open>JavaScript values and built-ins\<close>

text \<open>
  Exceptions are values: a function that can throw returns \<open>js_error + 'a\<close>, with \<open>Inl\<close> the
  exception.
\<close>

datatype js_error =
    SyntaxError
  | TypeError
  | InvalidCharacterError
  | Error jsstring

text \<open>
  Truthiness of the values the code tests: a string is falsy when empty, an optional
  (possibly \<open>undefined\<close>) value is falsy when absent.
\<close>

definition truthy_str :: "jsstring \<Rightarrow> bool" where
  "truthy_str s = (s \<noteq> [])"

definition truthy_ostr :: "jsstring option \<Rightarrow> bool" where
  "truthy_ostr s = (case s of None \<Rightarrow> False | Some t \<Rightarrow> t \<noteq> [])"

definition truthy_obool :: "bool option \<Rightarrow> bool" where
  "truthy_obool b = (b = Some True)"

text \<open>\<open>String.prototype.includes\<close>: the argument occurs as a contiguous substring.\<close>

definition includes_str :: "jsstring \<Rightarrow> jsstring \<Rightarrow> bool" where
  "includes_str s k = sublist k s"

text \<open>
  \<open>String.prototype.trim\<close> removes the white space and line terminators of ECMAScript at
  both ends.
\<close>

definition is_js_space :: "16 word \<Rightarrow> bool" where
  "is_js_space c =
     (c \<in> {0x09, 0x0A, 0x0B, 0x0C, 0x0D, 0x20, 0xA0, 0x1680, 0x2028, 0x2029, 0x202F, 0x205F,
            0x3000, 0xFEFF} \<or> (0x2000 \<le> c \<and> c \<le> 0x200A))"

definition trim :: "jsstring \<Rightarrow> jsstring" where
  "trim s = rev (dropWhile is_js_space (rev (dropWhile is_js_space s)))"

text \<open>\<open>s.split(d)\<close> for a one-character separator and \<open>parts.join(sep)\<close>.\<close>

fun split_on :: "16 word \<Rightarrow> jsstring \<Rightarrow> jsstring list" where
  "split_on d [] = [[]]"
| "split_on d (c # cs) =
     (if c = d then [] # split_on d cs
      else (case split_on d cs of [] \<Rightarrow> [[c]] | l # ls \<Rightarrow> (c # l) # ls))"

fun join :: "jsstring \<Rightarrow> jsstring list \<Rightarrow> jsstring" where
  "join sep [] = []"
| "join sep [x] = x"
| "join sep (x # y # ys) = x @ sep @ join sep (y # ys)"

text \<open>\<open>s.replace(pat, '')\<close> with a string pattern: the first occurrence is removed.\<close>

fun remove_first :: "jsstring \<Rightarrow> jsstring \<Rightarrow> jsstring" where
  "remove_first pat [] = []"
| "remove_first pat (c # cs) =
     (if prefix pat (c # cs) then drop (length pat) (c # cs) else c # remove_first pat cs)"

text \<open>
  \<open>xs.slice(start)\<close>: a negative start counts from the end (and \<open>-0\<close> is \<open>0\<close>, so
  \<open>slice(-0)\<close> is the whole array).
\<close>

definition slice_from :: "int \<Rightarrow> 'a list \<Rightarrow> 'a list" where
  "slice_from start xs =
     (if start < 0 then drop (nat (int (length xs) + start)) xs else drop (nat start) xs)"

text \<open>
  \<open>xs.some(f)\<close> where \<open>f\<close> may throw: the elements are tried in order, the first \<open>true\<close>
  or the first exception ends the search.
\<close>

fun Array_some :: "('a \<Rightarrow> js_error + bool) \<Rightarrow> 'a list \<Rightarrow> js_error + bool" where
  "Array_some f [] = Inr False"
| "Array_some f (x # xs) =
     (case f x of Inl e \<Rightarrow> Inl e | Inr True \<Rightarrow> Inr True | Inr False \<Rightarrow> Array_some f xs)"

text \<open>
  \<open>Array.prototype.sort(compareFn)\<close> is a stable sort (ECMAScript 2019). For a comparator
  that is a consistent total preorder its result is determined; it is modelled as the
  stable insertion sort: going from the right, an element is placed before the first
  element it does not compare greater than.
\<close>

fun insort_cmp :: "('a \<Rightarrow> 'a \<Rightarrow> int) \<Rightarrow> 'a \<Rightarrow> 'a list \<Rightarrow> 'a list" where
  "insort_cmp cmp x [] = [x]"
| "insort_cmp cmp x (y # ys) =
     (if cmp x y \<le> 0 then x # y # ys else y # insort_cmp cmp x ys)"

definition Array_sort :: "('a \<Rightarrow> 'a \<Rightarrow> int) \<Rightarrow> 'a list \<Rightarrow> 'a list" where
  "Array_sort cmp xs = foldr (insort_cmp cmp) xs []"

text \<open>
  What the platform supplies and this development does not fix: the regular expression
  engine and Unicode case mapping. \<open>RegExp_new pattern flags\<close> is \<open>new RegExp(pattern, flags)\<close>:
  \<open>None\<close> when the constructor throws a SyntaxError, otherwise the matcher of the fresh
  regular expression, which gives for a subject the text of its first match (\<open>match[0]\<close>),
  or \<open>None\<close> when there is none; \<open>regex.test(s)\<close> on a fresh regular expression is
  \<open>matcher s \<noteq> None\<close>.
\<close>

record platform =
  RegExp_new :: "jsstring \<Rightarrow> jsstring \<Rightarrow> (jsstring \<Rightarrow> jsstring option) option"
  toLowerCase :: "jsstring \<Rightarrow> jsstring"

definition RegExp_test :: "platform \<Rightarrow> jsstring \<Rightarrow> jsstring \<Rightarrow> jsstring \<Rightarrow> js_error + bool" where
  "RegExp_test P pattern flags subject =
     (case RegExp_new P pattern flags of
        None \<Rightarrow> Inl SyntaxError
      | Some matcher \<Rightarrow> Inr (matcher subject \<noteq> None))"

definition String_match ::
  "platform \<Rightarrow> jsstring \<Rightarrow> jsstring \<Rightarrow> jsstring \<Rightarrow> js_error + jsstring option" where
  "String_match P subject pattern flags =
     (case RegExp_new P pattern flags of
        None \<Rightarrow> Inl SyntaxError
      | Some matcher \<Rightarrow> Inr (matcher subject))"

text \<open>
  JSON values. Numbers are integers here (doubles are outside this model); an object is
  the list of its properties in order.
\<close>

datatype json =
    JNull
  | JBool bool
  | JNumber int
  | JString jsstring
  | JArray "json list"
  | JObject "(jsstring \<times> json) list"

section \<open>JSON text (the built-ins JSON.stringify and JSON.parse)\<close>

text \<open>Decimal numerals.\<close>

definition digit_char :: "nat \<Rightarrow> 16 word" where
  "digit_char d = 0x30 + of_nat d"

function decimal_nat :: "nat \<Rightarrow> jsstring" where
  "decimal_nat n = (if n < 10 then [digit_char n] else decimal_nat (n div 10) @ [digit_char (n mod 10)])"
  by pat_completeness auto
termination
  by (relation "measure id") auto

declare decimal_nat.simps [simp del]

definition decimal_int :: "int \<Rightarrow> jsstring" where
  "decimal_int n = (if n < 0 then 0x2D # decimal_nat (nat (- n)) else decimal_nat (nat n))"

definition is_digit :: "16 word \<Rightarrow> bool" where
  "is_digit c = (0x30 \<le> c \<and> c \<le> 0x39)"

definition digits_value :: "jsstring \<Rightarrow> nat" where
  "digits_value ds = foldl (\<lambda>a c. 10 * a + (unat c - 48)) 0 ds"

text \<open>Hexadecimal digits of \<open>\uXXXX\<close> escapes.\<close>

definition hex_char :: "nat \<Rightarrow> 16 word" where
  "hex_char d = (if d < 10 then 0x30 + of_nat d else 0x61 + of_nat (d - 10))"

definition hex_value :: "16 word \<Rightarrow> nat option" where
  "hex_value c =
     (if 0x30 \<le> c \<and> c \<le> 0x39 then Some (unat c - 48)
      else if 0x61 \<le> c \<and> c \<le> 0x66 then Some (unat c - 87)
      else if 0x41 \<le> c \<and> c \<le> 0x46 then Some (unat c - 55)
      else None)"

definition unicode_escape :: "16 word \<Rightarrow> jsstring" where
  "unicode_escape c =
     [0x5C, 0x75, hex_char (unat c div 4096), hex_char (unat c div 256 mod 16),
      hex_char (unat c div 16 mod 16), hex_char (unat c mod 16)]"

definition hex4 :: "16 word \<Rightarrow> 16 word \<Rightarrow> 16 word \<Rightarrow> 16 word \<Rightarrow> 16 word option" where
  "hex4 a b c d =
     (case (hex_value a, hex_value b, hex_value c, hex_value d) of
        (Some x, Some y, Some z, Some u) \<Rightarrow> Some (of_nat (x * 4096 + y * 256 + z * 16 + u))
      | _ \<Rightarrow> None)"

text \<open>
  \<open>QuoteJSONString\<close> without the enclosing quotes: the short escapes, \<open>\u00xx\<close> for the
  other control characters, \<open>\udxxx\<close> for a surrogate that is not part of a pair, every
  other code unit as it is.
\<close>

definition is_high_surrogate :: "16 word \<Rightarrow> bool" where
  "is_high_surrogate c = (0xD800 \<le> c \<and> c \<le> 0xDBFF)"

definition is_low_surrogate :: "16 word \<Rightarrow> bool" where
  "is_low_surrogate c = (0xDC00 \<le> c \<and> c \<le> 0xDFFF)"

definition quote_unit :: "16 word \<Rightarrow> jsstring" where
  "quote_unit c =
     (if c = 0x08 then [0x5C, 0x62]
      else if c = 0x09 then [0x5C, 0x74]
      else if c = 0x0A then [0x5C, 0x6E]
      else if c = 0x0C then [0x5C, 0x66]
      else if c = 0x0D then [0x5C, 0x72]
      else if c = 0x22 then [0x5C, 0x22]
      else if c = 0x5C then [0x5C, 0x5C]
      else if c < 0x20 \<or> is_high_surrogate c \<or> is_low_surrogate c then unicode_escape c
      else [c])"

fun quote_chars :: "jsstring \<Rightarrow> jsstring" where
  "quote_chars [] = []"
| "quote_chars [c] = quote_unit c"
| "quote_chars (c # d # cs) =
     (if is_high_surrogate c \<and> is_low_surrogate d then c # d # quote_chars cs
      else quote_unit c @ quote_chars (d # cs))"

definition quote_json :: "jsstring \<Rightarrow> jsstring" where
  "quote_json s = 0x22 # quote_chars s @ [0x22]"

text \<open>
  \<open>JSON.stringify(v)\<close> and \<open>JSON.stringify(v, null, 2)\<close>: \<open>pretty\<close> chooses the second,
  \<open>ind\<close> is the current indentation.
\<close>

definition newline_indent :: "bool \<Rightarrow> nat \<Rightarrow> jsstring" where
  "newline_indent pretty ind = (if pretty then 0x0A # replicate ind 0x20 else [])"

fun stringify_at :: "bool \<Rightarrow> nat \<Rightarrow> json \<Rightarrow> jsstring" where
  "stringify_at pretty ind JNull = js ''null''"
| "stringify_at pretty ind (JBool b) = (if b then js ''true'' else js ''false'')"
| "stringify_at pretty ind (JNumber n) = decimal_int n"
| "stringify_at pretty ind (JString s) = quote_json s"
| "stringify_at pretty ind (JArray vs) =
     (if vs = [] then js ''[]''
      else [0x5B] @ newline_indent pretty (ind + 2) @
           join (0x2C # newline_indent pretty (ind + 2)) (map (stringify_at pretty (ind + 2)) vs) @
           newline_indent pretty ind @ [0x5D])"
| "stringify_at pretty ind (JObject kvs) =
     (if kvs = [] then js ''{}''
      else [0x7B] @ newline_indent pretty (ind + 2) @
           join (0x2C # newline_indent pretty (ind + 2))
             (map (\<lambda>kv. quote_json (fst kv) @ [0x3A] @ (if pretty then [0x20] else []) @
                         stringify_at pretty (ind + 2) (snd kv)) kvs) @
           newline_indent pretty ind @ [0x7D])"

definition JSON_stringify :: "bool \<Rightarrow> json \<Rightarrow> jsstring" where
  "JSON_stringify pretty v = stringify_at pretty 0 v"

text \<open>
  \<open>JSON.parse\<close>. White space is space, tab, line feed and carriage return. A numeral
  with a fraction or an exponent is outside this model (numbers are integers here): the
  parser gives no result for a text that contains one.
\<close>

definition is_json_ws :: "16 word \<Rightarrow> bool" where
  "is_json_ws c = (c = 0x20 \<or> c = 0x09 \<or> c = 0x0A \<or> c = 0x0D)"

definition skip_ws :: "jsstring \<Rightarrow> jsstring" where
  "skip_ws s = dropWhile is_json_ws s"

definition unescape :: "16 word \<Rightarrow> 16 word option" where
  "unescape e =
     (if e = 0x22 then Some 0x22
      else if e = 0x5C then Some 0x5C
      else if e = 0x2F then Some 0x2F
      else if e = 0x62 then Some 0x08
      else if e = 0x66 then Some 0x0C
      else if e = 0x6E then Some 0x0A
      else if e = 0x72 then Some 0x0D
      else if e = 0x74 then Some 0x09
      else None)"

text \<open>The characters of a string after its opening quote, up to the closing quote.\<close>

fun parse_string_chars :: "jsstring \<Rightarrow> (jsstring \<times> jsstring) option" where
  "parse_string_chars [] = None"
| "parse_string_chars (c # cs) =
     (if c = 0x22 then Some ([], cs)
      else if c = 0x5C then
        (case cs of
           [] \<Rightarrow> None
         | e # es \<Rightarrow>
             if e = 0x75 then
               (case es of
                  a # b # c' # d # rest \<Rightarrow>
                    (case hex4 a b c' d of
                       None \<Rightarrow> None
                     | Some u \<Rightarrow>
                         (case parse_string_chars rest of
                            None \<Rightarrow> None
                          | Some (str, r) \<Rightarrow> Some (u # str, r)))
                | _ \<Rightarrow> None)
             else
               (case unescape e of
                  None \<Rightarrow> None
                | Some u \<Rightarrow>
                    (case parse_string_chars es of
                       None \<Rightarrow> None
                     | Some (str, r) \<Rightarrow> Some (u # str, r))))
      else if c < 0x20 then None
      else (case parse_string_chars cs of
              None \<Rightarrow> None
            | Some (str, r) \<Rightarrow> Some (c # str, r)))"

definition parse_number :: "jsstring \<Rightarrow> (json \<times> jsstring) option" where
  "parse_number s =
     (let negative = (s \<noteq> [] \<and> hd s = 0x2D);
          s1 = (if negative then tl s else s);
          ds = takeWhile is_digit s1;
          rest = dropWhile is_digit s1
      in if ds = [] then None
         else if length ds > 1 \<and> hd ds = 0x30 then None
         else if rest \<noteq> [] \<and> hd rest \<in> {0x2E, 0x65, 0x45} then None
         else Some (JNumber (if negative then - int (digits_value ds) else int (digits_value ds)),
                    rest))"

text \<open>
  Setting a property while an object is built: a repeated key keeps its place and takes
  the new value.
\<close>

fun set_property :: "jsstring \<Rightarrow> json \<Rightarrow> (jsstring \<times> json) list \<Rightarrow> (jsstring \<times> json) list" where
  "set_property k v [] = [(k, v)]"
| "set_property k v ((k', v') # kvs) =
     (if k = k' then (k, v) # kvs else (k', v') # set_property k v kvs)"

text \<open>
  JavaScript enumerates the properties of an object with the array indices first, in
  ascending order, and then the other keys in the order of their creation. An array index
  is the canonical decimal numeral of an integer below \<open>2^32 - 1\<close>. A \<open>JObject\<close> lists the
  properties in the order of enumeration.
\<close>

definition array_index :: "jsstring \<Rightarrow> nat option" where
  "array_index k =
     (if k \<noteq> [] \<and> list_all is_digit k \<and> decimal_nat (digits_value k) = k \<and>
         digits_value k < 2 ^ 32 - 1
      then Some (digits_value k) else None)"

definition own_property_order :: "(jsstring \<times> json) list \<Rightarrow> (jsstring \<times> json) list" where
  "own_property_order kvs =
     sort_key (\<lambda>kv. the (array_index (fst kv))) (filter (\<lambda>kv. array_index (fst kv) \<noteq> None) kvs) @
     filter (\<lambda>kv. array_index (fst kv) = None) kvs"

definition make_object :: "(jsstring \<times> json) list \<Rightarrow> json" where
  "make_object kvs =
     JObject (own_property_order (foldl (\<lambda>acc kv. set_property (fst kv) (snd kv) acc) [] kvs))"

text \<open>
  The recursive descent, with fuel: every call consumes a character before it calls
  again, so fuel beyond the length of the text is never needed.
\<close>

fun parse_value :: "nat \<Rightarrow> jsstring \<Rightarrow> (json \<times> jsstring) option"
  and parse_elements :: "nat \<Rightarrow> jsstring \<Rightarrow> (json list \<times> jsstring) option"
  and parse_members :: "nat \<Rightarrow> jsstring \<Rightarrow> ((jsstring \<times> json) list \<times> jsstring) option"
  and parse_member :: "nat \<Rightarrow> jsstring \<Rightarrow> ((jsstring \<times> json) \<times> jsstring) option" where
  "parse_value 0 s = None"
| "parse_value (Suc n) s =
     (case skip_ws s of
        [] \<Rightarrow> None
      | c # cs \<Rightarrow>
          if c = 0x7B then
            (case skip_ws cs of
               [] \<Rightarrow> None
             | d # ds \<Rightarrow>
                 if d = 0x7D then Some (JObject [], ds)
                 else (case parse_member n cs of
                         None \<Rightarrow> None
                       | Some (kv, r1) \<Rightarrow>
                           (case parse_members n r1 of
                              None \<Rightarrow> None
                            | Some (kvs, r2) \<Rightarrow> Some (make_object (kv # kvs), r2))))
          else if c = 0x5B then
            (case skip_ws cs of
               [] \<Rightarrow> None
             | d # ds \<Rightarrow>
                 if d = 0x5D then Some (JArray [], ds)
                 else (case parse_value n cs of
                         None \<Rightarrow> None
                       | Some (v, r1) \<Rightarrow>
                           (case parse_elements n r1 of
                              None \<Rightarrow> None
                            | Some (vs, r2) \<Rightarrow> Some (JArray (v # vs), r2))))
          else if c = 0x22 then
            (case parse_string_chars cs of
               None \<Rightarrow> None
             | Some (str, r) \<Rightarrow> Some (JString str, r))
          else if prefix (js ''null'') (c # cs) then Some (JNull, drop 4 (c # cs))
          else if prefix (js ''true'') (c # cs) then Some (JBool True, drop 4 (c # cs))
          else if prefix (js ''false'') (c # cs) then Some (JBool False, drop 5 (c # cs))
          else parse_number (c # cs))"
| "parse_elements 0 s = None"
| "parse_elements (Suc n) s =
     (case skip_ws s of
        [] \<Rightarrow> None
      | c # cs \<Rightarrow>
          if c = 0x5D then Some ([], cs)
          else if c = 0x2C then
            (case parse_value n cs of
               None \<Rightarrow> None
             | Some (v, r1) \<Rightarrow>
                 (case parse_elements n r1 of
                    None \<Rightarrow> None
                  | Some (vs, r2) \<Rightarrow> Some (v # vs, r2)))
          else None)"
| "parse_members 0 s = None"
| "parse_members (Suc n) s =
     (case skip_ws s of
        [] \<Rightarrow> None
      | c # cs \<Rightarrow>
          if c = 0x7D then Some ([], cs)
          else if c = 0x2C then
            (case parse_member n cs of
               None \<Rightarrow> None
             | Some (kv, r1) \<Rightarrow>
                 (case parse_members n r1 of
                    None \<Rightarrow> None
                  | Some (kvs, r2) \<Rightarrow> Some (kv # kvs, r2)))
          else None)"
| "parse_member 0 s = None"
| "parse_member (Suc n) s =
     (case skip_ws s of
        [] \<Rightarrow> None
      | c # cs \<Rightarrow>
          if c = 0x22 then
            (case parse_string_chars cs of
               None \<Rightarrow> None
             | Some (k, r) \<Rightarrow>
                 (case skip_ws r of
                    [] \<Rightarrow> None
                  | d # ds \<Rightarrow>
                      if d = 0x3A then
                        (case parse_value n ds of
                           None \<Rightarrow> None
                         | Some (v, r1) \<Rightarrow> Some ((k, v), r1))
                      else None))
          else None)"

definition JSON_parse :: "jsstring \<Rightarrow> json option" where
  "JSON_parse s =
     (case parse_value (length s + 1) s of
        None \<Rightarrow> None
      | Some (v, rest) \<Rightarrow> if skip_ws rest = [] then Some v else None)"

text \<open>
  The values on which the two functions are inverse: an object has each key once, in the
  order of enumeration.
\<close>

fun wf_json :: "json \<Rightarrow> bool" where
  "wf_json (JArray vs) = list_all wf_json vs"
| "wf_json (JObject kvs) =
     (distinct (map fst kvs) \<and> own_property_order kvs = kvs \<and>
      list_all (\<lambda>kv. wf_json (snd kv)) kvs)"
| "wf_json v = True"

text \<open>
  Two notions for the properties below: what may follow a numeral (the end of the text, or
  a character that neither continues the digits nor starts a fraction or an exponent), and
  what a serialised value may start with.
\<close>

definition number_end :: "jsstring \<Rightarrow> bool" where
  "number_end rest = (rest = [] \<or> (\<not> is_digit (hd rest) \<and> hd rest \<notin> {0x2E, 0x65, 0x45}))"

definition token_start :: "16 word \<Rightarrow> bool" where
  "token_start c = (\<not> is_json_ws c \<and> c \<noteq> 0x5D \<and> c \<noteq> 0x7D \<and> c \<noteq> 0x2C)"

section \<open>Types (src/types/index.ts)\<close>

text \<open>
  \<open>{ role: string; content: string }\<close> is the structural type the tokenizer and the prompt
  builder work on; \<open>ChatMessage\<close> extends it (TypeScript's structural subtyping is the
  record extension). JavaScript numbers that hold counts and timestamps are integers here.
\<close>

record Message =
  role :: jsstring
  content :: jsstring

text \<open>\<open>Partial<GenerationConfig>\<close>: every field may be absent.\<close>

record GenerationConfig =
  gc_model :: "jsstring option"
  gc_maxTokens :: "int option"
  gc_temperature :: "real option"
  gc_topP :: "real option"
  gc_topK :: "int option"
  gc_repetitionPenalty :: "real option"
  gc_presencePenalty :: "real option"
  gc_frequencyPenalty :: "real option"
  gc_stopSequences :: "jsstring list option"
  gc_stream :: "bool option"

record ChatMessage = Message +
  msg_id :: jsstring
  timestamp :: int
  swipes :: "jsstring list option"
  swipeIndex :: "int option"
  tokenCount :: "int option"
  isEdited :: "bool option"
  generationConfig :: "GenerationConfig option"

record CharacterData =
  name :: jsstring
  description :: jsstring
  personality :: jsstring
  scenario :: jsstring
  first_mes :: jsstring
  mes_example :: jsstring
  creator_notes :: "jsstring option"
  system_prompt :: "jsstring option"
  post_history_instructions :: "jsstring option"
  alternate_greetings :: "jsstring list option"
  tags :: "jsstring list option"
  creator :: "jsstring option"
  character_version :: "jsstring option"
  extensions :: "json option"

datatype WorldInfoPosition =
  WI_before_char | WI_after_char | WI_before_example | WI_after_example | WI_depth

record WorldInfoEntry =
  wi_id :: jsstring
  wi_keys :: "jsstring list"
  secondaryKeys :: "jsstring list option"
  wi_content :: jsstring
  wi_comment :: "jsstring option"
  enabled :: bool
  wi_constant :: "bool option"
  selective :: "bool option"
  wi_position :: WorldInfoPosition
  wi_depth :: "int option"
  caseSensitive :: "bool option"
  matchWholeWords :: "bool option"
  useRegex :: "bool option"
  wi_order :: int
  priority :: "int option"
  tokenBudget :: "int option"

record WorldInfoBook =
  book_id :: jsstring
  book_name :: jsstring
  book_description :: "jsstring option"
  entries :: "WorldInfoEntry list"
  book_createdAt :: int
  book_updatedAt :: int

record Persona =
  persona_id :: jsstring
  persona_name :: jsstring
  persona_description :: jsstring
  persona_avatar :: "jsstring option"
  isDefault :: "bool option"
  persona_createdAt :: int
  persona_updatedAt :: int

record InstructTemplate =
  template_id :: jsstring
  template_name :: jsstring
  systemPromptPrefix :: jsstring
  systemPromptSuffix :: jsstring
  userPrefix :: jsstring
  userSuffix :: jsstring
  assistantPrefix :: jsstring
  assistantSuffix :: jsstring
  stopSequences :: "jsstring list"
  wrapInNewlines :: bool

datatype AuthorsNotePosition = AN_before_char | AN_after_char | AN_in_chat

record AuthorsNote =
  an_content :: jsstring
  an_position :: AuthorsNotePosition
  an_depth :: int
  an_role :: jsstring

record PromptContext =
  character :: CharacterData
  chatHistory :: "ChatMessage list"
  worldInfo :: "WorldInfoBook list option"
  persona :: "Persona option"
  authorsNote :: "AuthorsNote option"
  systemPrompt :: "jsstring option"
  instructTemplate :: "InstructTemplate option"
  maxContextTokens :: int

record PromptResult =
  pr_messages :: "Message list"
  pr_tokenCount :: int
  pr_truncated :: bool

section \<open>Tokenizer (core/tokenizer)\<close>

datatype TokenizerType = cl100k_base | p50k_base | llama | simple

text \<open>\<open>Math.ceil(text.length / 4)\<close>\<close>

definition estimateTokens :: "jsstring \<Rightarrow> int" where
  "estimateTokens t = \<lceil>real (length t) / 4\<rceil>"

definition countTokens :: "jsstring \<Rightarrow> TokenizerType \<Rightarrow> int" where
  "countTokens t tokenizer = estimateTokens t"

text \<open>The \<open>for (const msg of messages)\<close> loop of \<open>countMessagesTokens\<close>, on the running \<open>total\<close>.\<close>

fun countMessagesTokens_loop ::
  "('a Message_scheme) list \<Rightarrow> TokenizerType \<Rightarrow> int \<Rightarrow> int" where
  "countMessagesTokens_loop [] tokenizer tot = tot"
| "countMessagesTokens_loop (msg # rest) tokenizer tot =
     countMessagesTokens_loop rest tokenizer (tot + 4 + countTokens (content msg) tokenizer)"

definition countMessagesTokens :: "('a Message_scheme) list \<Rightarrow> TokenizerType \<Rightarrow> int" where
  "countMessagesTokens msgs tokenizer = countMessagesTokens_loop msgs tokenizer 0 + 3"

record 'm TruncateResult =
  tr_messages :: "'m list"
  tr_truncated :: bool
  tr_removedCount :: nat

text \<open>
  The loop \<open>for (let i = messageTokens.length - 1; i >= 0; i--)\<close> of \<open>truncateMessages\<close>:
  the first argument after the budget is the part of \<open>messageTokens\<close> still to visit, newest
  first; the state is \<open>(result, totalTokens, removedCount)\<close>. \<open>result.unshift(message)\<close>
  is the cons. The else branch only counts: the loop goes on to the older messages.
\<close>

fun truncate_loop ::
  "int \<Rightarrow> ('m \<times> int) list \<Rightarrow> 'm list \<times> int \<times> nat \<Rightarrow> 'm list \<times> int \<times> nat" where
  "truncate_loop maxTokens [] st = st"
| "truncate_loop maxTokens ((message, tokens) # older) (result, totalTokens, removedCount) =
     (if totalTokens + tokens \<le> maxTokens
      then truncate_loop maxTokens older (message # result, totalTokens + tokens, removedCount)
      else truncate_loop maxTokens older (result, totalTokens, removedCount + 1))"

definition truncateMessages ::
  "('a Message_scheme) list \<Rightarrow> int \<Rightarrow> TokenizerType \<Rightarrow> ('a Message_scheme) TruncateResult" where
  "truncateMessages msgs maxTokens tokenizer =
     (if length msgs = 0
      then \<lparr>tr_messages = [], tr_truncated = False, tr_removedCount = 0\<rparr>
      else
        let messageTokens = map (\<lambda>msg. (msg, countTokens (content msg) tokenizer + 4)) msgs;
            (result, totalTokens, removedCount) =
               truncate_loop maxTokens (rev messageTokens) ([], 3, 0)
        in \<lparr>tr_messages = result, tr_truncated = (removedCount > 0),
            tr_removedCount = removedCount\<rparr>)"

record 'm PreserveResult =
  ps_messages :: "'m list"
  ps_truncated :: bool

text \<open>The \<open>for (const msg of systemMessages)\<close> loop on \<open>systemTokens\<close>.\<close>

fun systemTokens_loop ::
  "('a Message_scheme) list \<Rightarrow> TokenizerType \<Rightarrow> int \<Rightarrow> int" where
  "systemTokens_loop [] tokenizer systemTokens = systemTokens"
| "systemTokens_loop (msg # rest) tokenizer systemTokens =
     systemTokens_loop rest tokenizer (systemTokens + (countTokens (content msg) tokenizer + 4))"

text \<open>The second loop of \<open>truncateMessagesPreserveSystem\<close>, on \<open>(keptChat, usedTokens)\<close>.\<close>

fun keptChat_loop :: "int \<Rightarrow> ('m \<times> int) list \<Rightarrow> 'm list \<times> int \<Rightarrow> 'm list \<times> int" where
  "keptChat_loop chatBudget [] st = st"
| "keptChat_loop chatBudget ((message, tokens) # older) (keptChat, usedTokens) =
     (if usedTokens + tokens \<le> chatBudget
      then keptChat_loop chatBudget older (message # keptChat, usedTokens + tokens)
      else keptChat_loop chatBudget older (keptChat, usedTokens))"

definition truncateMessagesPreserveSystem ::
  "('a Message_scheme) list \<Rightarrow> int \<Rightarrow> TokenizerType \<Rightarrow> ('a Message_scheme) PreserveResult" where
  "truncateMessagesPreserveSystem msgs maxTokens tokenizer =
     (let systemMessages = filter (\<lambda>m. role m = js ''system'') msgs;
          chatMessages = filter (\<lambda>m. role m \<noteq> js ''system'') msgs;
          systemTokens = systemTokens_loop systemMessages tokenizer 3;
          chatBudget = maxTokens - systemTokens
      in if chatBudget \<le> 0
         then \<lparr>ps_messages = systemMessages, ps_truncated = (length chatMessages > 0)\<rparr>
         else
           let chatTokens = map (\<lambda>msg. (msg, countTokens (content msg) tokenizer + 4)) chatMessages;
               (keptChat, usedTokens) = keptChat_loop chatBudget (rev chatTokens) ([], 0)
           in \<lparr>ps_messages = systemMessages @ keptChat,
               ps_truncated = (length keptChat < length chatMessages)\<rparr>)"

section \<open>World info matcher (core/worldinfo/matcher)\<close>

text \<open>
  \<open>str.replace(/[.*+?^${}()|[\]\\]/g, '\\$&')\<close>: a backslash before each of
  \<open>. * + ? ^ $ { } ( ) | [ ] \<close> and the backslash itself.
\<close>

definition regex_special :: "16 word \<Rightarrow> bool" where
  "regex_special c = (c \<in> set (js ''.*+?^${}()|[]'') \<or> c = 0x5C)"

definition escapeRegex :: "jsstring \<Rightarrow> jsstring" where
  "escapeRegex str = concat (map (\<lambda>c. if regex_special c then [0x5C, c] else [c]) str)"

definition matchesKeyword ::
  "platform \<Rightarrow> jsstring \<Rightarrow> jsstring \<Rightarrow> WorldInfoEntry \<Rightarrow> js_error + bool" where
  "matchesKeyword P subject keyword entry =
     (if \<not> truthy_str keyword \<or> length (trim keyword) = 0 then Inr False
      else
        let searchText = (if truthy_obool (caseSensitive entry) then subject
                          else toLowerCase P subject);
            searchKey = (if truthy_obool (caseSensitive entry) then keyword
                         else toLowerCase P keyword)
        in if truthy_obool (useRegex entry) then
             (let flags = (if truthy_obool (caseSensitive entry) then js ''g'' else js ''gi'')
              in case RegExp_test P keyword flags subject of
                   Inr b \<Rightarrow> Inr b
                 | Inl e \<Rightarrow> Inr (includes_str searchText searchKey))
           else if truthy_obool (matchWholeWords entry) then
             (let escapedKey = escapeRegex searchKey;
                  flags = (if truthy_obool (caseSensitive entry) then js ''g'' else js ''gi'')
              in RegExp_test P ([0x5C, 0x62] @ escapedKey @ [0x5C, 0x62]) flags subject)
           else Inr (includes_str searchText searchKey))"

definition matchesEntry :: "platform \<Rightarrow> jsstring \<Rightarrow> WorldInfoEntry \<Rightarrow> js_error + bool" where
  "matchesEntry P subject entry =
     (if \<not> enabled entry then Inr False
      else if truthy_obool (wi_constant entry) then Inr True
      else
        case Array_some (\<lambda>key. matchesKeyword P subject key entry) (wi_keys entry) of
          Inl e \<Rightarrow> Inl e
        | Inr primaryMatch \<Rightarrow>
            if \<not> primaryMatch then Inr False
            else if truthy_obool (selective entry) \<and>
                    (case secondaryKeys entry of None \<Rightarrow> False | Some ks \<Rightarrow> length ks > 0)
            then Array_some (\<lambda>key. matchesKeyword P subject key entry)
                   (case secondaryKeys entry of None \<Rightarrow> [] | Some ks \<Rightarrow> ks)
            else Inr True)"

text \<open>The \<open>for (const entry of entries)\<close> loop of \<open>scanForMatches\<close>, on \<open>matches\<close>.\<close>

fun scanForMatches_loop ::
  "platform \<Rightarrow> jsstring \<Rightarrow> WorldInfoEntry list \<Rightarrow> WorldInfoEntry list
   \<Rightarrow> js_error + WorldInfoEntry list" where
  "scanForMatches_loop P subject [] matches = Inr matches"
| "scanForMatches_loop P subject (entry # rest) matches =
     (case matchesEntry P subject entry of
        Inl e \<Rightarrow> Inl e
      | Inr b \<Rightarrow> scanForMatches_loop P subject rest (if b then matches @ [entry] else matches))"

text \<open>\<open>(x || 0)\<close> on an optional number.\<close>

definition or0 :: "int option \<Rightarrow> int" where
  "or0 x = (case x of None \<Rightarrow> 0 | Some n \<Rightarrow> n)"

text \<open>The comparator that \<open>scanForMatches\<close> hands to \<open>sort\<close>.\<close>

definition scanForMatches_compare :: "WorldInfoEntry \<Rightarrow> WorldInfoEntry \<Rightarrow> int" where
  "scanForMatches_compare a b =
     (let priorityDiff = or0 (priority b) - or0 (priority a)
      in if priorityDiff \<noteq> 0 then priorityDiff
         else wi_order a - wi_order b)"

definition scanForMatches ::
  "platform \<Rightarrow> jsstring \<Rightarrow> WorldInfoEntry list \<Rightarrow> js_error + WorldInfoEntry list" where
  "scanForMatches P subject es =
     (case scanForMatches_loop P subject es [] of
        Inl e \<Rightarrow> Inl e
      | Inr matches \<Rightarrow> Inr (Array_sort scanForMatches_compare matches))"

definition scanWithDepth ::
  "platform \<Rightarrow> ('a Message_scheme) list \<Rightarrow> WorldInfoEntry list \<Rightarrow> int
   \<Rightarrow> js_error + WorldInfoEntry list" where
  "scanWithDepth P msgs es scanDepth =
     (let recentMessages = slice_from (- scanDepth) msgs;
          combinedText = join (js [CHR 0x0A]) (map content recentMessages)
      in scanForMatches P combinedText es)"

definition getConstantEntries :: "WorldInfoEntry list \<Rightarrow> WorldInfoEntry list" where
  "getConstantEntries es = filter (\<lambda>e. enabled e \<and> truthy_obool (wi_constant e)) es"

definition isValidRegex :: "platform \<Rightarrow> jsstring \<Rightarrow> bool" where
  "isValidRegex P pattern = (RegExp_new P pattern [] \<noteq> None)"


section \<open>Prompt builder (core/prompt/builder)\<close>

definition buildSystemMessage ::
  "CharacterData \<Rightarrow> Persona option \<Rightarrow> jsstring option \<Rightarrow> jsstring" where
  "buildSystemMessage ch pers customSystemPrompt =
     (let parts = [];
          parts = (if truthy_ostr customSystemPrompt then parts @ [the customSystemPrompt]
                   else parts);
          parts = (if truthy_ostr (system_prompt ch) then parts @ [the (system_prompt ch)]
                   else parts);
          parts = (case pers of
                     None \<Rightarrow> parts
                   | Some p \<Rightarrow>
                       if truthy_str (persona_description p)
                       then parts @ [js ''User's persona: '' @ persona_description p]
                       else parts)
      in join (js [CHR 0x0A, CHR 0x0A]) parts)"

definition buildCharacterContext :: "CharacterData \<Rightarrow> jsstring" where
  "buildCharacterContext ch =
     (let parts = [];
          parts = (if truthy_str (description ch)
                   then parts @ [js ''Character: '' @ name ch @ js [CHR 0x0A] @ description ch]
                   else parts);
          parts = (if truthy_str (personality ch)
                   then parts @ [js ''Personality: '' @ personality ch]
                   else parts);
          parts = (if truthy_str (scenario ch)
                   then parts @ [js ''Scenario: '' @ scenario ch]
                   else parts)
      in join (js [CHR 0x0A, CHR 0x0A]) parts)"

text \<open>
  \<open>parseExampleMessages\<close>. The loop state is \<open>(messages, currentRole, currentContent)\<close>;
  \<open>save_previous\<close> is the block under each "Save previous message" comment.
\<close>

definition save_previous ::
  "Message list \<Rightarrow> jsstring option \<Rightarrow> jsstring list \<Rightarrow> Message list" where
  "save_previous messages currentRole currentContent =
     (if truthy_ostr currentRole \<and> length currentContent > 0
      then messages @ [\<lparr>role = the currentRole,
                         content = trim (join (js [CHR 0x0A]) currentContent)\<rparr>]
      else messages)"

fun parseExampleMessages_loop ::
  "platform \<Rightarrow> jsstring \<Rightarrow> jsstring list \<Rightarrow> Message list \<times> jsstring option \<times> jsstring list
   \<Rightarrow> js_error + Message list \<times> jsstring option \<times> jsstring list" where
  "parseExampleMessages_loop P characterName [] st = Inr st"
| "parseExampleMessages_loop P characterName (line # rest) (messages, currentRole, currentContent) =
     (case String_match P line (js ''^<START>$'') (js ''i'') of
        Inl e \<Rightarrow> Inl e
      | Inr userMatch \<Rightarrow>
     (case String_match P line (js ''^'' @ characterName @ js '':'') (js ''i'') of
        Inl e \<Rightarrow> Inl e
      | Inr charMatch \<Rightarrow>
     (case String_match P line (js ''^{{user}}:|^User:'') (js ''i'') of
        Inl e \<Rightarrow> Inl e
      | Inr userMsgMatch \<Rightarrow>
          if userMatch \<noteq> None then
            parseExampleMessages_loop P characterName rest
              (save_previous messages currentRole currentContent, None, [])
          else if charMatch \<noteq> None then
            parseExampleMessages_loop P characterName rest
              (save_previous messages currentRole currentContent, Some (js ''assistant''),
               [trim (remove_first (the charMatch) line)])
          else if userMsgMatch \<noteq> None then
            parseExampleMessages_loop P characterName rest
              (save_previous messages currentRole currentContent, Some (js ''user''),
               [trim (remove_first (the userMsgMatch) line)])
          else if truthy_ostr currentRole then
            parseExampleMessages_loop P characterName rest
              (messages, currentRole, currentContent @ [line])
          else
            parseExampleMessages_loop P characterName rest
              (messages, currentRole, currentContent))))"

definition parseExampleMessages ::
  "platform \<Rightarrow> jsstring \<Rightarrow> jsstring \<Rightarrow> js_error + Message list" where
  "parseExampleMessages P mesExample characterName =
     (if \<not> truthy_str (trim mesExample) then Inr []
      else
        case parseExampleMessages_loop P characterName (split_on 0x0A mesExample) ([], None, []) of
          Inl e \<Rightarrow> Inl e
        | Inr (messages, currentRole, currentContent) \<Rightarrow>
            Inr (save_previous messages currentRole currentContent))"

text \<open>
  The test of one key inside \<open>scanAndCollectWorldInfo\<close> (the arrow function given to
  \<open>entry.keys.some\<close>). A regular expression that does not compile gives \<open>false\<close> here.
\<close>

definition scanAndCollect_key ::
  "platform \<Rightarrow> jsstring \<Rightarrow> WorldInfoEntry \<Rightarrow> jsstring \<Rightarrow> js_error + bool" where
  "scanAndCollect_key P scanText entry key =
     (if truthy_obool (useRegex entry) then
        (case RegExp_test P key (if truthy_obool (caseSensitive entry) then [] else js ''i'')
                scanText of
           Inr b \<Rightarrow> Inr b
         | Inl e \<Rightarrow> Inr False)
      else
        let searchKey = (if truthy_obool (caseSensitive entry) then key else toLowerCase P key);
            searchText = (if truthy_obool (caseSensitive entry) then scanText
                          else toLowerCase P scanText)
        in if truthy_obool (matchWholeWords entry)
           then RegExp_test P ([0x5C, 0x62] @ escapeRegex searchKey @ [0x5C, 0x62]) (js ''i'')
                  searchText
           else Inr (includes_str searchText searchKey))"

text \<open>The inner loop \<open>for (const entry of book.entries)\<close>, on \<open>matchedEntries\<close>.\<close>

fun scanAndCollect_entries ::
  "platform \<Rightarrow> jsstring \<Rightarrow> WorldInfoEntry list \<Rightarrow> WorldInfoEntry list
   \<Rightarrow> js_error + WorldInfoEntry list" where
  "scanAndCollect_entries P scanText [] matchedEntries = Inr matchedEntries"
| "scanAndCollect_entries P scanText (entry # rest) matchedEntries =
     (if \<not> enabled entry then scanAndCollect_entries P scanText rest matchedEntries
      else
        case Array_some (scanAndCollect_key P scanText entry) (wi_keys entry) of
          Inl e \<Rightarrow> Inl e
        | Inr matches \<Rightarrow>
            scanAndCollect_entries P scanText rest
              (if matches \<or> truthy_obool (wi_constant entry) then matchedEntries @ [entry]
               else matchedEntries))"

text \<open>The outer loop \<open>for (const book of worldInfoBooks)\<close>.\<close>

fun scanAndCollect_books ::
  "platform \<Rightarrow> jsstring \<Rightarrow> WorldInfoBook list \<Rightarrow> WorldInfoEntry list
   \<Rightarrow> js_error + WorldInfoEntry list" where
  "scanAndCollect_books P scanText [] matchedEntries = Inr matchedEntries"
| "scanAndCollect_books P scanText (book # rest) matchedEntries =
     (case scanAndCollect_entries P scanText (entries book) matchedEntries of
        Inl e \<Rightarrow> Inl e
      | Inr matchedEntries' \<Rightarrow> scanAndCollect_books P scanText rest matchedEntries')"

definition scanAndCollectWorldInfo ::
  "platform \<Rightarrow> ChatMessage list \<Rightarrow> WorldInfoBook list \<Rightarrow> js_error + jsstring" where
  "scanAndCollectWorldInfo P history worldInfoBooks =
     (let recentMessages = slice_from (- 10) history;
          scanText = toLowerCase P (join (js '' '') (map content recentMessages))
      in case scanAndCollect_books P scanText worldInfoBooks [] of
           Inl e \<Rightarrow> Inl e
         | Inr matchedEntries \<Rightarrow>
             Inr (join (js [CHR 0x0A, CHR 0x0A])
                    (map wi_content
                       (Array_sort (\<lambda>a b. wi_order a - wi_order b) matchedEntries))))"

definition injectAuthorsNote :: "jsstring \<Rightarrow> AuthorsNote \<Rightarrow> jsstring" where
  "injectAuthorsNote c note =
     (let noteText = js ''[Author's Note: '' @ an_content note @ js '']''
      in case an_position note of
           AN_before_char \<Rightarrow> noteText @ js [CHR 0x0A] @ c
         | AN_after_char \<Rightarrow> c @ js [CHR 0x0A] @ noteText
         | AN_in_chat \<Rightarrow> c)"

text \<open>
  The loop \<open>for (let i = 0; i < chatHistory.length; i++)\<close> of \<open>buildPrompt\<close>: \<open>n\<close> is
  \<open>chatHistory.length\<close>, \<open>i\<close> the index of the first message of the remaining list, and
  the result is what the loop pushes onto \<open>messages\<close>.
\<close>

fun history_loop ::
  "AuthorsNote option \<Rightarrow> int \<Rightarrow> int \<Rightarrow> ChatMessage list \<Rightarrow> Message list" where
  "history_loop note n i [] = []"
| "history_loop note n i (msg # rest) =
     (let c = content msg;
          c = (case note of
                 None \<Rightarrow> c
               | Some an \<Rightarrow>
                   if an_position an = AN_in_chat then
                     (let depthFromEnd = n - 1 - i
                      in if depthFromEnd = an_depth an then injectAuthorsNote c an else c)
                   else c)
      in \<lparr>role = (if role msg = js ''user'' then js ''user'' else js ''assistant''),
          content = c\<rparr> # history_loop note n (i + 1) rest)"

definition applyInstructTemplate :: "Message list \<Rightarrow> InstructTemplate \<Rightarrow> Message list" where
  "applyInstructTemplate msgs template =
     map (\<lambda>msg.
        let c = content msg;
            c = (if role msg = js ''system''
                   then systemPromptPrefix template @ c @ systemPromptSuffix template
                 else if role msg = js ''user''
                   then userPrefix template @ c @ userSuffix template
                 else if role msg = js ''assistant''
                   then assistantPrefix template @ c @ assistantSuffix template
                 else c);
            c = (if wrapInNewlines template then js [CHR 0x0A] @ c @ js [CHR 0x0A] else c)
        in \<lparr>role = role msg, content = c\<rparr>) msgs"

definition buildPrompt :: "platform \<Rightarrow> PromptContext \<Rightarrow> js_error + PromptResult" where
  "buildPrompt P ctx =
     (let systemContent = buildSystemMessage (character ctx) (persona ctx) (systemPrompt ctx)
      in case (case worldInfo ctx of
                 None \<Rightarrow> Inr []
               | Some books \<Rightarrow> scanAndCollectWorldInfo P (chatHistory ctx) books) of
           Inl e \<Rightarrow> Inl e
         | Inr worldInfoContent \<Rightarrow>
      let messages = [];
          messages =
            (if truthy_str systemContent \<or> truthy_str worldInfoContent
             then messages @
                  [\<lparr>role = js ''system'',
                    content = (if truthy_str worldInfoContent
                               then systemContent @ js [CHR 0x0A, CHR 0x0A] @ worldInfoContent
                               else systemContent)\<rparr>]
             else messages);
          characterContext = buildCharacterContext (character ctx);
          messages =
            (if truthy_str characterContext
             then messages @ [\<lparr>role = js ''system'', content = characterContext\<rparr>]
             else messages)
      in case (if truthy_str (mes_example (character ctx))
               then parseExampleMessages P (mes_example (character ctx)) (name (character ctx))
               else Inr []) of
           Inl e \<Rightarrow> Inl e
         | Inr examples \<Rightarrow>
      let messages = messages @ examples;
          messages = messages @
            history_loop (authorsNote ctx) (int (length (chatHistory ctx))) 0 (chatHistory ctx);
          finalMessages = (case instructTemplate ctx of
                             None \<Rightarrow> messages
                           | Some t \<Rightarrow> applyInstructTemplate messages t);
          totalChars = (\<Sum>m\<leftarrow>finalMessages. int (length (content m)));
          estimatedTokens = \<lceil>real_of_int totalChars / 4\<rceil>
      in Inr \<lparr>pr_messages = finalMessages, pr_tokenCount = estimatedTokens,
              pr_truncated = (estimatedTokens > maxContextTokens ctx)\<rparr>)"

section \<open>Storage (storage/database) and chat manager (core/chat/manager)\<close>

text \<open>
  The chat manager reads and writes sessions through the SQLite adapter only. A session
  is written as JSON text (\<open>INSERT OR REPLACE\<close> under its id) and parsed again on every read,
  so each \<open>getChatSession\<close> yields a fresh object: nothing is shared between two reads, or
  between a stored row and an object in memory, and the table is a map from ids to values.
  The \<open>await\<close>s of one operation run in sequence; interleaving with another operation is
  outside this model.

  \<open>generateId\<close> (\<open>uuidv4()\<close>) and \<open>getCurrentTimestamp\<close> (\<open>Date.now()\<close>) are read from the
  world: \<open>uuids w k\<close> is the \<open>k\<close>-th identifier the generator hands out, \<open>clock w k\<close> the
  \<open>k\<close>-th reading of the clock.
\<close>

record ChatMetadata =
  md_authorsNote :: "jsstring option"
  authorsNotePosition :: "int option"
  authorsNoteDepth :: "int option"
  worldInfoBooks :: "jsstring list option"
  personaId :: "jsstring option"
  md_instructTemplate :: "jsstring option"

record ChatSession =
  session_id :: jsstring
  characterId :: jsstring
  groupId :: "jsstring option"
  messages :: "ChatMessage list"
  metadata :: ChatMetadata
  createdAt :: int
  updatedAt :: int

record world =
  chat_sessions :: "(jsstring \<rightharpoonup> ChatSession) option"
  uuids :: "nat \<Rightarrow> jsstring"
  uuid_count :: nat
  clock :: "nat \<Rightarrow> int"
  clock_count :: nat

definition generateId :: "world \<Rightarrow> jsstring \<times> world" where
  "generateId w = (uuids w (uuid_count w), w\<lparr>uuid_count := uuid_count w + 1\<rparr>)"

definition getCurrentTimestamp :: "world \<Rightarrow> int \<times> world" where
  "getCurrentTimestamp w = (clock w (clock_count w), w\<lparr>clock_count := clock_count w + 1\<rparr>)"

text \<open>\<open>getDb()\<close>: the table, or the error when \<open>initDatabase\<close> has not run.\<close>

definition getDb :: "world \<Rightarrow> js_error + (jsstring \<rightharpoonup> ChatSession)" where
  "getDb w =
     (case chat_sessions w of
        None \<Rightarrow> Inl (Error (js ''Database not initialized. Call initDatabase() first.''))
      | Some tbl \<Rightarrow> Inr tbl)"

text \<open>\<open>x || null\<close> on writing and \<open>x || undefined\<close> on reading: an empty string is dropped.\<close>

definition or_absent :: "jsstring option \<Rightarrow> jsstring option" where
  "or_absent x = (if truthy_ostr x then x else None)"

definition saveChatSession :: "ChatSession \<Rightarrow> world \<Rightarrow> js_error + unit \<times> world" where
  "saveChatSession session w =
     (case getDb w of
        Inl e \<Rightarrow> Inl e
      | Inr tbl \<Rightarrow>
          Inr ((), w\<lparr>chat_sessions :=
                     Some (tbl(session_id session \<mapsto> session\<lparr>groupId := or_absent (groupId session)\<rparr>))\<rparr>))"

definition getChatSession :: "jsstring \<Rightarrow> world \<Rightarrow> js_error + ChatSession option \<times> world" where
  "getChatSession i w =
     (case getDb w of
        Inl e \<Rightarrow> Inl e
      | Inr tbl \<Rightarrow>
          (case tbl i of
             None \<Rightarrow> Inr (None, w)
           | Some row \<Rightarrow> Inr (Some (row\<lparr>session_id := i, groupId := or_absent (groupId row)\<rparr>), w)))"

definition deleteChatSession :: "jsstring \<Rightarrow> world \<Rightarrow> js_error + unit \<times> world" where
  "deleteChatSession i w =
     (case getDb w of
        Inl e \<Rightarrow> Inl e
      | Inr tbl \<Rightarrow> Inr ((), w\<lparr>chat_sessions := Some (tbl(i := None))\<rparr>))"

text \<open>\<open>xs.findIndex(p)\<close>: the first index, \<open>None\<close> for \<open>-1\<close>.\<close>

fun findIndex :: "('a \<Rightarrow> bool) \<Rightarrow> 'a list \<Rightarrow> nat option" where
  "findIndex p [] = None"
| "findIndex p (x # xs) =
     (if p x then Some 0 else (case findIndex p xs of None \<Rightarrow> None | Some i \<Rightarrow> Some (i + 1)))"

text \<open>
  The first steps of every operation on a session: load it, or throw
  \<open>Chat session not found\<close>.
\<close>

definition load_session :: "jsstring \<Rightarrow> world \<Rightarrow> js_error + ChatSession \<times> world" where
  "load_session sessionId w =
     (case getChatSession sessionId w of
        Inl e \<Rightarrow> Inl e
      | Inr (None, w1) \<Rightarrow> Inl (Error (js ''Chat session not found: '' @ sessionId))
      | Inr (Some session, w1) \<Rightarrow> Inr (session, w1))"

definition find_message :: "jsstring \<Rightarrow> ChatSession \<Rightarrow> js_error + nat" where
  "find_message messageId session =
     (case findIndex (\<lambda>m. msg_id m = messageId) (messages session) of
        None \<Rightarrow> Inl (Error (js ''Message not found: '' @ messageId))
      | Some messageIndex \<Rightarrow> Inr messageIndex)"

text \<open>The last steps: \<open>session.updatedAt = getCurrentTimestamp(); await saveChatSession(session)\<close>.\<close>

definition touch_and_save :: "ChatSession \<Rightarrow> world \<Rightarrow> js_error + unit \<times> world" where
  "touch_and_save session w =
     (let (now, w1) = getCurrentTimestamp w
      in saveChatSession (session\<lparr>updatedAt := now\<rparr>) w1)"

definition addMessage ::
  "jsstring \<Rightarrow> jsstring \<Rightarrow> jsstring \<Rightarrow> world \<Rightarrow> js_error + ChatMessage \<times> world" where
  "addMessage sessionId r c w =
     (case load_session sessionId w of
        Inl e \<Rightarrow> Inl e
      | Inr (session, w1) \<Rightarrow>
          let (i, w2) = generateId w1;
              (now, w3) = getCurrentTimestamp w2;
              message = \<lparr>role = r, content = c, msg_id = i, timestamp = now, swipes = None,
                         swipeIndex = None, tokenCount = None, isEdited = None,
                         generationConfig = None\<rparr>
          in case touch_and_save (session\<lparr>messages := messages session @ [message]\<rparr>) w3 of
               Inl e \<Rightarrow> Inl e
             | Inr (u, w4) \<Rightarrow> Inr (message, w4))"

definition updateMessage ::
  "jsstring \<Rightarrow> jsstring \<Rightarrow> jsstring \<Rightarrow> world \<Rightarrow> js_error + ChatMessage \<times> world" where
  "updateMessage sessionId messageId newContent w =
     (case load_session sessionId w of
        Inl e \<Rightarrow> Inl e
      | Inr (session, w1) \<Rightarrow>
     (case find_message messageId session of
        Inl e \<Rightarrow> Inl e
      | Inr messageIndex \<Rightarrow>
          let message = (messages session ! messageIndex)
                          \<lparr>content := newContent, isEdited := Some True\<rparr>
          in case touch_and_save
                    (session\<lparr>messages := (messages session)[messageIndex := message]\<rparr>) w1 of
               Inl e \<Rightarrow> Inl e
             | Inr (u, w2) \<Rightarrow> Inr (message, w2)))"

text \<open>\<open>session.messages.splice(messageIndex, 1)\<close>\<close>

definition deleteMessage :: "jsstring \<Rightarrow> jsstring \<Rightarrow> world \<Rightarrow> js_error + unit \<times> world" where
  "deleteMessage sessionId messageId w =
     (case load_session sessionId w of
        Inl e \<Rightarrow> Inl e
      | Inr (session, w1) \<Rightarrow>
     (case find_message messageId session of
        Inl e \<Rightarrow> Inl e
      | Inr messageIndex \<Rightarrow>
          touch_and_save
            (session\<lparr>messages := take messageIndex (messages session) @
                                  drop (messageIndex + 1) (messages session)\<rparr>) w1))"

definition addSwipe ::
  "jsstring \<Rightarrow> jsstring \<Rightarrow> jsstring \<Rightarrow> world \<Rightarrow> js_error + ChatMessage \<times> world" where
  "addSwipe sessionId messageId c w =
     (case load_session sessionId w of
        Inl e \<Rightarrow> Inl e
      | Inr (session, w1) \<Rightarrow>
     (case find_message messageId session of
        Inl e \<Rightarrow> Inl e
      | Inr messageIndex \<Rightarrow>
          let message = messages session ! messageIndex;
              message = (case swipes message of
                           None \<Rightarrow> message\<lparr>swipes := Some [content message], swipeIndex := Some 0\<rparr>
                         | Some ss \<Rightarrow> message);
              ss = the (swipes message) @ [c];
              message = message\<lparr>swipes := Some ss, swipeIndex := Some (int (length ss) - 1),
                                content := c\<rparr>
          in case touch_and_save
                    (session\<lparr>messages := (messages session)[messageIndex := message]\<rparr>) w1 of
               Inl e \<Rightarrow> Inl e
             | Inr (u, w2) \<Rightarrow> Inr (message, w2)))"

definition setSwipeIndex ::
  "jsstring \<Rightarrow> jsstring \<Rightarrow> int \<Rightarrow> world \<Rightarrow> js_error + ChatMessage \<times> world" where
  "setSwipeIndex sessionId messageId index w =
     (case load_session sessionId w of
        Inl e \<Rightarrow> Inl e
      | Inr (session, w1) \<Rightarrow>
     (case find_message messageId session of
        Inl e \<Rightarrow> Inl e
      | Inr messageIndex \<Rightarrow>
          let message = messages session ! messageIndex
          in case swipes message of
               None \<Rightarrow> Inl (Error (js ''Message has no swipes''))
             | Some ss \<Rightarrow>
                 if length ss = 0 then Inl (Error (js ''Message has no swipes''))
                 else
                   let clampedIndex = max 0 (min index (int (length ss) - 1));
                       message = message\<lparr>swipeIndex := Some clampedIndex,
                                          content := ss ! nat clampedIndex\<rparr>
                   in case touch_and_save
                             (session\<lparr>messages := (messages session)[messageIndex := message]\<rparr>)
                             w1 of
                        Inl e \<Rightarrow> Inl e
                      | Inr (u, w2) \<Rightarrow> Inr (message, w2)))"

text \<open>
  \<open>nextSwipe\<close> and \<open>prevSwipe\<close> load the session, look the message up with \<open>find\<close>, and
  hand over to \<open>setSwipeIndex\<close>, which loads the session again.
\<close>

definition nextSwipe :: "jsstring \<Rightarrow> jsstring \<Rightarrow> world \<Rightarrow> js_error + ChatMessage \<times> world" where
  "nextSwipe sessionId messageId w =
     (case load_session sessionId w of
        Inl e \<Rightarrow> Inl e
      | Inr (session, w1) \<Rightarrow>
     (case find_message messageId session of
        Inl e \<Rightarrow> Inl e
      | Inr messageIndex \<Rightarrow>
          let message = messages session ! messageIndex
          in if (case swipes message of None \<Rightarrow> True | Some ss \<Rightarrow> length ss \<le> 1)
             then Inr (message, w1)
             else
               let newIndex = min (or0 (swipeIndex message) + 1)
                                  (int (length (the (swipes message))) - 1)
               in setSwipeIndex sessionId messageId newIndex w1))"

definition prevSwipe :: "jsstring \<Rightarrow> jsstring \<Rightarrow> world \<Rightarrow> js_error + ChatMessage \<times> world" where
  "prevSwipe sessionId messageId w =
     (case load_session sessionId w of
        Inl e \<Rightarrow> Inl e
      | Inr (session, w1) \<Rightarrow>
     (case find_message messageId session of
        Inl e \<Rightarrow> Inl e
      | Inr messageIndex \<Rightarrow>
          let message = messages session ! messageIndex
          in if (case swipes message of None \<Rightarrow> True | Some ss \<Rightarrow> length ss \<le> 1)
             then Inr (message, w1)
             else
               let newIndex = max (or0 (swipeIndex message) - 1) 0
               in setSwipeIndex sessionId messageId newIndex w1))"

text \<open>
  \<open>session.messages.slice(0, messageIndex + 1).map((m) => ({ ...m, id: generateId() }))\<close>:
  each message is copied field by field with a newly generated id, front to back.
\<close>

fun copy_messages :: "ChatMessage list \<Rightarrow> world \<Rightarrow> ChatMessage list \<times> world" where
  "copy_messages [] w = ([], w)"
| "copy_messages (m # ms) w =
     (let (i, w1) = generateId w;
          (rest, w2) = copy_messages ms w1
      in (m\<lparr>msg_id := i\<rparr> # rest, w2))"

definition forkChat :: "jsstring \<Rightarrow> jsstring \<Rightarrow> world \<Rightarrow> js_error + ChatSession \<times> world" where
  "forkChat sessionId fromMessageId w =
     (case load_session sessionId w of
        Inl e \<Rightarrow> Inl e
      | Inr (session, w1) \<Rightarrow>
     (case find_message fromMessageId session of
        Inl e \<Rightarrow> Inl e
      | Inr messageIndex \<Rightarrow>
          let (now, w2) = getCurrentTimestamp w1;
              (i, w3) = generateId w2;
              (copies, w4) = copy_messages (take (messageIndex + 1) (messages session)) w3;
              forkedSession =
                \<lparr>session_id = i, characterId = characterId session, groupId = groupId session,
                 messages = copies, metadata = metadata session, createdAt = now,
                 updatedAt = now\<rparr>
          in case saveChatSession forkedSession w4 of
               Inl e \<Rightarrow> Inl e
             | Inr (u, w5) \<Rightarrow> Inr (forkedSession, w5)))"

text \<open>
  \<open>Partial<ChatMetadata>\<close>: the properties the argument has, each with its new value;
  \<open>{ ...session.metadata, ...metadata }\<close> sets them one by one.
\<close>

datatype metadata_field =
    Set_authorsNote "jsstring option"
  | Set_authorsNotePosition "int option"
  | Set_authorsNoteDepth "int option"
  | Set_worldInfoBooks "jsstring list option"
  | Set_personaId "jsstring option"
  | Set_instructTemplate "jsstring option"

fun set_metadata_field :: "metadata_field \<Rightarrow> ChatMetadata \<Rightarrow> ChatMetadata" where
  "set_metadata_field (Set_authorsNote v) md = md\<lparr>md_authorsNote := v\<rparr>"
| "set_metadata_field (Set_authorsNotePosition v) md = md\<lparr>authorsNotePosition := v\<rparr>"
| "set_metadata_field (Set_authorsNoteDepth v) md = md\<lparr>authorsNoteDepth := v\<rparr>"
| "set_metadata_field (Set_worldInfoBooks v) md = md\<lparr>worldInfoBooks := v\<rparr>"
| "set_metadata_field (Set_personaId v) md = md\<lparr>personaId := v\<rparr>"
| "set_metadata_field (Set_instructTemplate v) md = md\<lparr>md_instructTemplate := v\<rparr>"

definition updateMetadata ::
  "jsstring \<Rightarrow> metadata_field list \<Rightarrow> world \<Rightarrow> js_error + ChatSession \<times> world" where
  "updateMetadata sessionId updates w =
     (case load_session sessionId w of
        Inl e \<Rightarrow> Inl e
      | Inr (session, w1) \<Rightarrow>
          let session = session\<lparr>metadata := fold set_metadata_field updates (metadata session)\<rparr>;
              (now, w2) = getCurrentTimestamp w1;
              session = session\<lparr>updatedAt := now\<rparr>
          in case saveChatSession session w2 of
               Inl e \<Rightarrow> Inl e
             | Inr (u, w3) \<Rightarrow> Inr (session, w3))"

definition clearMessages :: "jsstring \<Rightarrow> world \<Rightarrow> js_error + ChatSession \<times> world" where
  "clearMessages sessionId w =
     (case load_session sessionId w of
        Inl e \<Rightarrow> Inl e
      | Inr (session, w1) \<Rightarrow>
          let session = session\<lparr>messages := []\<rparr>;
              (now, w2) = getCurrentTimestamp w1;
              session = session\<lparr>updatedAt := now\<rparr>
          in case saveChatSession session w2 of
               Inl e \<Rightarrow> Inl e
             | Inr (u, w3) \<Rightarrow> Inr (session, w3))"

definition deleteChatSessionById :: "jsstring \<Rightarrow> world \<Rightarrow> js_error + unit \<times> world" where
  "deleteChatSessionById i w = deleteChatSession i w"

text \<open>
  The operations of the chat manager that change a session, as data, and their effect on
  the world when addressed to the session \<open>sessionId\<close>.
\<close>

datatype session_mutation =
    AddMessage jsstring jsstring
  | UpdateMessage jsstring jsstring
  | DeleteMessage jsstring
  | AddSwipe jsstring jsstring
  | SetSwipeIndex jsstring int
  | NextSwipe jsstring
  | PrevSwipe jsstring
  | UpdateMetadata "metadata_field list"
  | ClearMessages
  | DeleteChatSession

fun mutate :: "jsstring \<Rightarrow> session_mutation \<Rightarrow> world \<Rightarrow> js_error + world" where
  "mutate sessionId (AddMessage r c) w = map_sum id snd (addMessage sessionId r c w)"
| "mutate sessionId (UpdateMessage m c) w = map_sum id snd (updateMessage sessionId m c w)"
| "mutate sessionId (DeleteMessage m) w = map_sum id snd (deleteMessage sessionId m w)"
| "mutate sessionId (AddSwipe m c) w = map_sum id snd (addSwipe sessionId m c w)"
| "mutate sessionId (SetSwipeIndex m i) w = map_sum id snd (setSwipeIndex sessionId m i w)"
| "mutate sessionId (NextSwipe m) w = map_sum id snd (nextSwipe sessionId m w)"
| "mutate sessionId (PrevSwipe m) w = map_sum id snd (prevSwipe sessionId m w)"
| "mutate sessionId (UpdateMetadata updates) w =
     map_sum id snd (updateMetadata sessionId updates w)"
| "mutate sessionId ClearMessages w = map_sum id snd (clearMessages sessionId w)"
| "mutate sessionId DeleteChatSession w = map_sum id snd (deleteChatSessionById sessionId w)"

text \<open>A run of mutations of one session, stopping at the first exception.\<close>

fun mutate_all :: "jsstring \<Rightarrow> session_mutation list \<Rightarrow> world \<Rightarrow> js_error + world" where
  "mutate_all sessionId [] w = Inr w"
| "mutate_all sessionId (m # ms) w =
     (case mutate sessionId m w of Inl e \<Rightarrow> Inl e | Inr w1 \<Rightarrow> mutate_all sessionId ms w1)"

text \<open>What the table holds under an id (nothing when the database is not initialised).\<close>

definition stored_session :: "jsstring \<Rightarrow> world \<Rightarrow> ChatSession option" where
  "stored_session i w = (case chat_sessions w of None \<Rightarrow> None | Some tbl \<Rightarrow> tbl i)"

section \<open>Character card parser (core/character/parser)\<close>

text \<open>
  The parser works on what \<open>JSON.parse\<close> returns, whatever its shape: the types of
  TypeScript are gone at run time. A value that may be \<open>undefined\<close> is a \<open>json option\<close>.
  \<open>typeof v === 'object'\<close> holds of objects, arrays and \<open>null\<close>.
\<close>

definition typeof_object :: "json option \<Rightarrow> bool" where
  "typeof_object v =
     (case v of
        Some JNull \<Rightarrow> True
      | Some (JArray vs) \<Rightarrow> True
      | Some (JObject kvs) \<Rightarrow> True
      | _ \<Rightarrow> False)"

text \<open>
  \<open>v.k\<close> for a value other than \<open>null\<close>: the property of an object, the length and the
  elements of an array or a string, \<open>undefined\<close> otherwise. (None of the keys the parser
  reads is a property inherited from a prototype.)
\<close>

definition get_property :: "json \<Rightarrow> jsstring \<Rightarrow> json option" where
  "get_property v k =
     (case v of
        JObject kvs \<Rightarrow> map_of kvs k
      | JArray vs \<Rightarrow>
          (if k = js ''length'' then Some (JNumber (int (length vs)))
           else case array_index k of
                  Some i \<Rightarrow> if i < length vs then Some (vs ! i) else None
                | None \<Rightarrow> None)
      | JString s \<Rightarrow>
          (if k = js ''length'' then Some (JNumber (int (length s)))
           else case array_index k of
                  Some i \<Rightarrow> if i < length s then Some (JString [s ! i]) else None
                | None \<Rightarrow> None)
      | _ \<Rightarrow> None)"

text \<open>\<open>k in v\<close>: a TypeError unless \<open>v\<close> is an object or an array.\<close>

definition in_operator :: "jsstring \<Rightarrow> json \<Rightarrow> js_error + bool" where
  "in_operator k v =
     (case v of
        JObject kvs \<Rightarrow> Inr (map_of kvs k \<noteq> None)
      | JArray vs \<Rightarrow> Inr (get_property (JArray vs) k \<noteq> None)
      | _ \<Rightarrow> Inl TypeError)"

text \<open>Truthiness, \<open>a || b\<close>, \<open>String(v)\<close> and \<open>Array.isArray(v)\<close>.\<close>

definition truthy :: "json option \<Rightarrow> bool" where
  "truthy v =
     (case v of
        None \<Rightarrow> False
      | Some JNull \<Rightarrow> False
      | Some (JBool b) \<Rightarrow> b
      | Some (JNumber n) \<Rightarrow> n \<noteq> 0
      | Some (JString s) \<Rightarrow> s \<noteq> []
      | Some _ \<Rightarrow> True)"

definition or_else :: "json option \<Rightarrow> json option \<Rightarrow> json option" where
  "or_else a b = (if truthy a then a else b)"

fun String_json :: "json \<Rightarrow> jsstring" where
  "String_json JNull = js ''null''"
| "String_json (JBool b) = (if b then js ''true'' else js ''false'')"
| "String_json (JNumber n) = decimal_int n"
| "String_json (JString s) = s"
| "String_json (JArray vs) =
     join (js '','') (map (\<lambda>v. if v = JNull then [] else String_json v) vs)"
| "String_json (JObject kvs) = js ''[object Object]''"

definition String_of :: "json option \<Rightarrow> jsstring" where
  "String_of v = (case v of None \<Rightarrow> js ''undefined'' | Some x \<Rightarrow> String_json x)"

definition Array_isArray :: "json option \<Rightarrow> bool" where
  "Array_isArray v = (case v of Some (JArray vs) \<Rightarrow> True | _ \<Rightarrow> False)"

text \<open>
  \<open>CharacterData\<close> and \<open>CharacterCard\<close> as the parser builds them: a field holds the value
  found in the input, which need not be of the declared type.
\<close>

record CardData =
  cd_name :: "json option"
  cd_description :: "json option"
  cd_personality :: "json option"
  cd_scenario :: "json option"
  cd_first_mes :: "json option"
  cd_mes_example :: "json option"
  cd_creator_notes :: "json option"
  cd_system_prompt :: "json option"
  cd_post_history_instructions :: "json option"
  cd_alternate_greetings :: "json option"
  cd_tags :: "json option"
  cd_creator :: "json option"
  cd_character_version :: "json option"
  cd_extensions :: "json option"

record CharacterCard =
  spec :: jsstring
  spec_version :: jsstring
  data :: CardData

definition isV2Card :: "json \<Rightarrow> bool" where
  "isV2Card d =
     (typeof_object (Some d) \<and> d \<noteq> JNull \<and>
      in_operator (js ''spec'') d = Inr True \<and>
      get_property d (js ''spec'') = Some (JString (js ''chara_card_v2'')))"

definition isV1Card :: "json \<Rightarrow> bool" where
  "isV1Card d =
     (typeof_object (Some d) \<and> d \<noteq> JNull \<and>
      in_operator (js ''name'') d = Inr True \<and>
      in_operator (js ''description'') d = Inr True \<and>
      in_operator (js ''first_mes'') d = Inr True \<and>
      \<not> (in_operator (js ''spec'') d = Inr True))"

definition convertV1ToV2 :: "json \<Rightarrow> CharacterCard" where
  "convertV1ToV2 v1Card =
     \<lparr>spec = js ''chara_card_v2'',
      spec_version = js ''2.0'',
      data = \<lparr>
        cd_name = or_else (get_property v1Card (js ''name'')) (Some (JString [])),
        cd_description = or_else (get_property v1Card (js ''description'')) (Some (JString [])),
        cd_personality = or_else (get_property v1Card (js ''personality'')) (Some (JString [])),
        cd_scenario = or_else (get_property v1Card (js ''scenario'')) (Some (JString [])),
        cd_first_mes = or_else (get_property v1Card (js ''first_mes'')) (Some (JString [])),
        cd_mes_example = or_else (get_property v1Card (js ''mes_example'')) (Some (JString [])),
        cd_creator_notes = None, cd_system_prompt = None, cd_post_history_instructions = None,
        cd_alternate_greetings = None, cd_tags = None, cd_creator = None,
        cd_character_version = None, cd_extensions = None\<rparr>\<rparr>"

text \<open>\<open>p ? String(p) : undefined\<close> and \<open>Array.isArray(p) ? p.map(String) : undefined\<close>.\<close>

definition string_if_truthy :: "json option \<Rightarrow> json option" where
  "string_if_truthy p = (if truthy p then Some (JString (String_of p)) else None)"

definition strings_if_array :: "json option \<Rightarrow> json option" where
  "strings_if_array p =
     (case p of
        Some (JArray vs) \<Rightarrow> Some (JArray (map (\<lambda>v. JString (String_json v)) vs))
      | _ \<Rightarrow> None)"

definition extractCharacterData :: "json \<Rightarrow> CardData" where
  "extractCharacterData obj =
     \<lparr>cd_name = Some (JString (String_of
        (or_else (get_property obj (js ''name'')) (Some (JString []))))),
      cd_description = Some (JString (String_of
        (or_else (get_property obj (js ''description'')) (Some (JString []))))),
      cd_personality = Some (JString (String_of
        (or_else (get_property obj (js ''personality'')) (Some (JString []))))),
      cd_scenario = Some (JString (String_of
        (or_else (get_property obj (js ''scenario'')) (Some (JString []))))),
      cd_first_mes = Some (JString (String_of
        (or_else (or_else (get_property obj (js ''first_mes''))
                          (get_property obj (js ''first_message''))) (Some (JString []))))),
      cd_mes_example = Some (JString (String_of
        (or_else (or_else (get_property obj (js ''mes_example''))
                          (get_property obj (js ''example_dialogue''))) (Some (JString []))))),
      cd_creator_notes = string_if_truthy (get_property obj (js ''creator_notes'')),
      cd_system_prompt = string_if_truthy (get_property obj (js ''system_prompt'')),
      cd_post_history_instructions =
        string_if_truthy (get_property obj (js ''post_history_instructions'')),
      cd_alternate_greetings = strings_if_array (get_property obj (js ''alternate_greetings'')),
      cd_tags = strings_if_array (get_property obj (js ''tags'')),
      cd_creator = string_if_truthy (get_property obj (js ''creator'')),
      cd_character_version = string_if_truthy (get_property obj (js ''character_version'')),
      cd_extensions = get_property obj (js ''extensions'')\<rparr>"

definition validateV2Card :: "json \<Rightarrow> js_error + CharacterCard" where
  "validateV2Card v2card =
     (case get_property v2card (js ''data'') of
        None \<Rightarrow> Inl (Error (js ''V2 card missing data field''))
      | Some card_data \<Rightarrow>
          if \<not> truthy (Some card_data) then Inl (Error (js ''V2 card missing data field''))
          else if \<not> truthy (get_property card_data (js ''name''))
          then Inl (Error (js ''Character name is required''))
          else Inr
            \<lparr>spec = js ''chara_card_v2'',
             spec_version = js ''2.0'',
             data = \<lparr>
               cd_name = get_property card_data (js ''name''),
               cd_description =
                 or_else (get_property card_data (js ''description'')) (Some (JString [])),
               cd_personality =
                 or_else (get_property card_data (js ''personality'')) (Some (JString [])),
               cd_scenario =
                 or_else (get_property card_data (js ''scenario'')) (Some (JString [])),
               cd_first_mes =
                 or_else (get_property card_data (js ''first_mes'')) (Some (JString [])),
               cd_mes_example =
                 or_else (get_property card_data (js ''mes_example'')) (Some (JString [])),
               cd_creator_notes = get_property card_data (js ''creator_notes''),
               cd_system_prompt = get_property card_data (js ''system_prompt''),
               cd_post_history_instructions =
                 get_property card_data (js ''post_history_instructions''),
               cd_alternate_greetings = get_property card_data (js ''alternate_greetings''),
               cd_tags = get_property card_data (js ''tags''),
               cd_creator = get_property card_data (js ''creator''),
               cd_character_version = get_property card_data (js ''character_version''),
               cd_extensions = get_property card_data (js ''extensions'')\<rparr>\<rparr>)"

text \<open>
  \<open>parseCharacterCard\<close>. \<open>JSON.parse\<close> throws a SyntaxError on a text that is not JSON. The
  test of the nested data is \<open>typeof data.data === 'object'\<close>, which \<open>null\<close> passes: the
  \<open>in\<close> that follows then throws a TypeError.
\<close>

definition extracted_card :: "json \<Rightarrow> CharacterCard" where
  "extracted_card obj =
     \<lparr>spec = js ''chara_card_v2'', spec_version = js ''2.0'', data = extractCharacterData obj\<rparr>"

definition parseCharacterCard :: "jsstring \<Rightarrow> js_error + CharacterCard" where
  "parseCharacterCard jsonString =
     (case JSON_parse jsonString of
        None \<Rightarrow> Inl SyntaxError
      | Some d \<Rightarrow>
          if isV2Card d then validateV2Card d
          else if isV1Card d then Inr (convertV1ToV2 d)
          else if typeof_object (Some d) \<and> d \<noteq> JNull then
            (let from_root =
                   (if in_operator (js ''name'') d = Inr True then Inr (extracted_card d)
                    else Inl (Error (js ''Invalid character card format'')))
             in if in_operator (js ''data'') d = Inr True \<and>
                   typeof_object (get_property d (js ''data''))
                then (case get_property d (js ''data'') of
                        None \<Rightarrow> from_root
                      | Some nestedData \<Rightarrow>
                          (case in_operator (js ''name'') nestedData of
                             Inl e \<Rightarrow> Inl e
                           | Inr found \<Rightarrow>
                               if found then Inr (extracted_card nestedData) else from_root))
                else from_root)
          else Inl (Error (js ''Invalid character card format'')))"

text \<open>
  A \<open>Character\<close> that is exported is a JavaScript object: the list of its properties in
  the order of enumeration (a property that holds \<open>undefined\<close> is left out, as
  \<open>JSON.stringify\<close> leaves it out). The rest pattern of \<open>exportToV2Card\<close> keeps the
  properties other than the six it names; the card it returns goes to \<open>JSON.stringify\<close>.
\<close>

definition exportToV2Card :: "(jsstring \<times> json) list \<Rightarrow> json" where
  "exportToV2Card chara =
     (let character_data =
            filter (\<lambda>kv. fst kv \<notin> set [js ''id'', js ''avatar'', js ''createdAt'',
                                          js ''updatedAt'', js ''isFavorite'', js ''chatCount''])
              chara
      in JObject [(js ''spec'', JString (js ''chara_card_v2'')),
                  (js ''spec_version'', JString (js ''2.0'')),
                  (js ''data'', JObject character_data)])"

definition exportCharacterToJson :: "(jsstring \<times> json) list \<Rightarrow> bool \<Rightarrow> jsstring" where
  "exportCharacterToJson chara pretty =
     (let v2card = exportToV2Card chara
      in if pretty then JSON_stringify True v2card else JSON_stringify False v2card)"

section \<open>PNG embedding (core/character/png-embed)\<close>

subsection \<open>The built-ins \<open>btoa\<close>, \<open>atob\<close> and \<open>TextEncoder\<close>\<close>

text \<open>
  \<open>btoa\<close> takes a binary string: it throws an InvalidCharacterError when a code unit is
  above 0xFF, and otherwise gives the Base64 text of the bytes, padded with \<open>=\<close>.
\<close>

definition base64_char :: "nat \<Rightarrow> 16 word" where
  "base64_char n =
     js ''ABCDEFGHIJKLMNOPQRSTUVWXYZabcdefghijklmnopqrstuvwxyz0123456789+/'' ! n"

fun base64_encode :: "nat list \<Rightarrow> jsstring" where
  "base64_encode [] = []"
| "base64_encode [a] = [base64_char (a div 4), base64_char (a mod 4 * 16), 0x3D, 0x3D]"
| "base64_encode [a, b] =
     [base64_char (a div 4), base64_char (a mod 4 * 16 + b div 16),
      base64_char (b mod 16 * 4), 0x3D]"
| "base64_encode (a # b # c # rest) =
     [base64_char (a div 4), base64_char (a mod 4 * 16 + b div 16),
      base64_char (b mod 16 * 4 + c div 64), base64_char (c mod 64)] @ base64_encode rest"

definition btoa :: "jsstring \<Rightarrow> js_error + jsstring" where
  "btoa s =
     (if list_ex (\<lambda>c. 0xFF < c) s then Inl InvalidCharacterError
      else Inr (base64_encode (map unat s)))"

text \<open>
  \<open>atob\<close> (the forgiving Base64 decoding of the HTML standard): ASCII white space is
  removed; one or two \<open>=\<close> at the end of a text whose length is a multiple of 4 are
  removed; a length of 1 modulo 4 or a character outside the alphabet is an
  InvalidCharacterError; the bits left over at the end are dropped.
\<close>

definition base64_value :: "16 word \<Rightarrow> nat option" where
  "base64_value c =
     (if 0x41 \<le> c \<and> c \<le> 0x5A then Some (unat c - 65)
      else if 0x61 \<le> c \<and> c \<le> 0x7A then Some (unat c - 71)
      else if 0x30 \<le> c \<and> c \<le> 0x39 then Some (unat c + 4)
      else if c = 0x2B then Some 62
      else if c = 0x2F then Some 63
      else None)"

fun base64_decode :: "nat list \<Rightarrow> jsstring" where
  "base64_decode (a # b # c # d # rest) =
     [of_nat (a * 4 + b div 16), of_nat (b mod 16 * 16 + c div 4), of_nat (c mod 4 * 64 + d)]
     @ base64_decode rest"
| "base64_decode [a, b, c] = [of_nat (a * 4 + b div 16), of_nat (b mod 16 * 16 + c div 4)]"
| "base64_decode [a, b] = [of_nat (a * 4 + b div 16)]"
| "base64_decode [a] = []"
| "base64_decode [] = []"

definition atob :: "jsstring \<Rightarrow> js_error + jsstring" where
  "atob s =
     (let d = filter (\<lambda>c. c \<notin> {0x09, 0x0A, 0x0C, 0x0D, 0x20}) s;
          d1 = (if length d mod 4 = 0 \<and> d \<noteq> [] \<and> last d = 0x3D
                then (if last (butlast d) = 0x3D then butlast (butlast d) else butlast d)
                else d)
      in if length d1 mod 4 = 1 then Inl InvalidCharacterError
         else case those (map base64_value d1) of
                None \<Rightarrow> Inl InvalidCharacterError
              | Some vs \<Rightarrow> Inr (base64_decode vs))"

text \<open>
  \<open>new TextEncoder().encode(s)\<close>: UTF-8, a surrogate pair as the code point it stands for,
  a surrogate that is not part of a pair as U+FFFD.
\<close>

definition utf8_of_code_point :: "nat \<Rightarrow> 8 word list" where
  "utf8_of_code_point cp =
     (if cp < 0x80 then [of_nat cp]
      else if cp < 0x800 then [of_nat (0xC0 + cp div 64), of_nat (0x80 + cp mod 64)]
      else if cp < 0x10000 then
        [of_nat (0xE0 + cp div 4096), of_nat (0x80 + cp div 64 mod 64), of_nat (0x80 + cp mod 64)]
      else
        [of_nat (0xF0 + cp div 262144), of_nat (0x80 + cp div 4096 mod 64),
         of_nat (0x80 + cp div 64 mod 64), of_nat (0x80 + cp mod 64)])"

fun TextEncoder_encode :: "jsstring \<Rightarrow> 8 word list" where
  "TextEncoder_encode [] = []"
| "TextEncoder_encode [c] =
     (if is_high_surrogate c \<or> is_low_surrogate c then utf8_of_code_point 0xFFFD
      else utf8_of_code_point (unat c))"
| "TextEncoder_encode (c # d # cs) =
     (if is_high_surrogate c \<and> is_low_surrogate d
      then utf8_of_code_point (0x10000 + (unat c - 0xD800) * 0x400 + (unat d - 0xDC00))
           @ TextEncoder_encode cs
      else if is_high_surrogate c \<or> is_low_surrogate c
      then utf8_of_code_point 0xFFFD @ TextEncoder_encode (d # cs)
      else utf8_of_code_point (unat c) @ TextEncoder_encode (d # cs))"

subsection \<open>Typed arrays\<close>

text \<open>
  A \<open>Uint8Array\<close> is a list of bytes. \<open>bytes[i]\<close> outside the array is \<open>undefined\<close>, which
  is 0 in the bitwise operations and in \<open>String.fromCharCode\<close>. \<open>a.slice(start, end)\<close>
  counts a negative index from the end and clamps both indices.
\<close>

definition byte_at :: "8 word list \<Rightarrow> int \<Rightarrow> 32 word" where
  "byte_at bytes i = (if 0 \<le> i \<and> i < int (length bytes) then ucast (bytes ! nat i) else 0)"

definition slice :: "int \<Rightarrow> int \<Rightarrow> 'a list \<Rightarrow> 'a list" where
  "slice start fin xs =
     (let len = int (length xs);
          from = (if start < 0 then max (len + start) 0 else min start len);
          to = (if fin < 0 then max (len + fin) 0 else min fin len)
      in take (nat (to - from)) (drop (nat from) xs))"

text \<open>
  The chunk length read at an offset, \<open>(b0 << 24) | (b1 << 16) | (b2 << 8) | b3\<close>: a signed
  32-bit integer. The chunk type read at an offset, \<open>String.fromCharCode(b0, b1, b2, b3)\<close>.
\<close>

definition read_length :: "8 word list \<Rightarrow> int \<Rightarrow> int" where
  "read_length bytes offset =
     sint (push_bit 24 (byte_at bytes offset) OR push_bit 16 (byte_at bytes (offset + 1)) OR
           push_bit 8 (byte_at bytes (offset + 2)) OR byte_at bytes (offset + 3))"

definition read_type :: "8 word list \<Rightarrow> int \<Rightarrow> jsstring" where
  "read_type bytes offset =
     map (\<lambda>k. ucast (byte_at bytes (offset + k))) [0, 1, 2, 3]"

text \<open>\<open>String.fromCharCode(...bytes)\<close> and the bytes of a binary string.\<close>

definition fromCharCodes :: "8 word list \<Rightarrow> jsstring" where
  "fromCharCodes bytes = map ucast bytes"

definition bytes_of_binary :: "jsstring \<Rightarrow> 8 word list" where
  "bytes_of_binary binaryString = map ucast binaryString"

subsection \<open>The functions of the module\<close>

definition PNG_SIGNATURE :: "8 word list" where
  "PNG_SIGNATURE = [0x89, 0x50, 0x4E, 0x47, 0x0D, 0x0A, 0x1A, 0x0A]"

definition CHARA_KEYWORD :: jsstring where
  "CHARA_KEYWORD = js ''chara''"

text \<open>
  The signature test fails on a missing byte too (\<open>undefined !== 0x89\<close>).
\<close>

definition signature_ok :: "8 word list \<Rightarrow> bool" where
  "signature_ok bytes = (take 8 bytes = PNG_SIGNATURE)"

text \<open>\<open>calculateCRC32\<close>: all values are 32-bit patterns.\<close>

definition crcTable :: "nat \<Rightarrow> 32 word" where
  "crcTable n =
     ((\<lambda>c. if c AND 1 \<noteq> 0 then 0xEDB88320 XOR drop_bit 1 c else drop_bit 1 c) ^^ 8) (of_nat n)"

definition calculateCRC32 :: "8 word list \<Rightarrow> 32 word" where
  "calculateCRC32 bytes =
     foldl (\<lambda>crc b. crcTable (unat ((crc XOR ucast b) AND 0xFF)) XOR drop_bit 8 crc)
       0xFFFFFFFF bytes XOR 0xFFFFFFFF"

text \<open>
  \<open>createTextChunk\<close>: the writes fill the array from left to right: the length, the type
  \<open>tEXt\<close>, the keyword, a zero byte, the text, the CRC of everything after the length.
\<close>

definition be32 :: "32 word \<Rightarrow> 8 word list" where
  "be32 w = [ucast (drop_bit 24 w), ucast (drop_bit 16 w), ucast (drop_bit 8 w), ucast w]"

definition createTextChunk :: "jsstring \<Rightarrow> jsstring \<Rightarrow> 8 word list" where
  "createTextChunk keyword txt =
     (let keywordBytes = TextEncoder_encode keyword;
          textBytes = TextEncoder_encode txt;
          dataLength = length keywordBytes + 1 + length textBytes;
          crcData = [0x74, 0x45, 0x58, 0x74] @ keywordBytes @ [0] @ textBytes;
          crc = calculateCRC32 crcData
      in be32 (of_nat dataLength) @ crcData @ be32 crc)"

text \<open>
  The keyword of a chunk's data: the bytes before the first zero byte.
\<close>

definition chunk_keyword :: "8 word list \<Rightarrow> jsstring" where
  "chunk_keyword chunkData = fromCharCodes (takeWhile (\<lambda>b. b \<noteq> 0) chunkData)"

text \<open>
  The loops walk the chunks with \<open>offset += 12 + length\<close>; the length read from the image
  may be negative, and then a loop need not end: a loop that does not end has no value.
  First the search for the \<open>IEND\<close> chunk in \<open>embedCharacterIntoPng\<close>, which gives
  \<open>insertPosition\<close>.
\<close>

partial_function (option) find_insertPosition :: "8 word list \<Rightarrow> int \<Rightarrow> int option" where
  "find_insertPosition bytes offset =
     (if offset < int (length bytes) then
        (if read_type bytes (offset + 4) = js ''IEND'' then Some offset
         else find_insertPosition bytes (offset + (12 + read_length bytes offset)))
      else Some (int (length bytes)))"

declare find_insertPosition.simps [code]

text \<open>The loop of \<open>removeExistingCharaChunk\<close>, on \<open>chunks\<close>.\<close>

partial_function (option) removeExistingCharaChunk_loop ::
  "8 word list \<Rightarrow> int \<Rightarrow> 8 word list list \<Rightarrow> 8 word list list option" where
  "removeExistingCharaChunk_loop bytes offset chunks =
     (if offset < int (length bytes) then
        (let len = read_length bytes offset;
             ctype = read_type bytes (offset + 4);
             chunkEnd = offset + 12 + len;
             chunk = slice offset chunkEnd bytes;
             chunks1 =
               (if ctype = js ''tEXt'' then
                  (let chunkData = slice (offset + 8) (offset + 8 + len) bytes
                   in if chunk_keyword chunkData \<noteq> CHARA_KEYWORD then chunks @ [chunk]
                      else chunks)
                else chunks @ [chunk])
         in if ctype = js ''IEND'' then Some chunks1
            else removeExistingCharaChunk_loop bytes chunkEnd chunks1)
      else Some chunks)"

declare removeExistingCharaChunk_loop.simps [code]

definition removeExistingCharaChunk :: "8 word list \<Rightarrow> 8 word list option" where
  "removeExistingCharaChunk bytes =
     map_option concat (removeExistingCharaChunk_loop bytes 8 [slice 0 8 bytes])"

text \<open>
  \<open>embedCharacterIntoPng\<close>; the \<open>catch\<close> throws the error again. The character is the
  JavaScript object that \<open>exportToV2Card\<close> takes.
\<close>

definition embedCharacterIntoPng ::
  "jsstring \<Rightarrow> (jsstring \<times> json) list \<Rightarrow> (js_error + jsstring) option" where
  "embedCharacterIntoPng base64PngData chara =
     (case atob base64PngData of
        Inl e \<Rightarrow> Some (Inl e)
      | Inr binaryString \<Rightarrow>
          let bytes = bytes_of_binary binaryString
          in if \<not> signature_ok bytes then Some (Inl (Error (js ''Invalid PNG signature'')))
             else
               let v2card = exportToV2Card chara;
                   jsonString = JSON_stringify False v2card
               in case btoa jsonString of
                    Inl e \<Rightarrow> Some (Inl e)
                  | Inr base64Json \<Rightarrow>
                      let textChunk = createTextChunk CHARA_KEYWORD base64Json
                      in case find_insertPosition bytes 8 of
                           None \<Rightarrow> None
                         | Some firstPosition \<Rightarrow>
                             (case removeExistingCharaChunk bytes of
                                None \<Rightarrow> None
                              | Some cleanedBytes \<Rightarrow>
                                  (case find_insertPosition cleanedBytes 8 of
                                     None \<Rightarrow> None
                                   | Some insertPosition \<Rightarrow>
                                       let newBytes =
                                             slice 0 insertPosition cleanedBytes @ textChunk @
                                             slice insertPosition (int (length cleanedBytes))
                                               cleanedBytes
                                       in Some (btoa (fromCharCodes newBytes)))))"

text \<open>
  The loop of \<open>extractCharacterFromPng\<close>: the card of the first \<open>tEXt\<close> chunk with the
  keyword \<open>chara\<close>, \<open>null\<close> when the chunks end without one.
\<close>

partial_function (option) extract_loop ::
  "8 word list \<Rightarrow> int \<Rightarrow> (js_error + CharacterCard option) option" where
  "extract_loop bytes offset =
     (if offset < int (length bytes) then
        (let len = read_length bytes offset;
             ctype = read_type bytes (offset + 4);
             chunkData = slice (offset + 8) (offset + 8 + len) bytes;
             nullIndex = int (length (takeWhile (\<lambda>b. b \<noteq> 0) chunkData))
         in if ctype = js ''tEXt'' \<and> chunk_keyword chunkData = CHARA_KEYWORD then
              (let textBytes = slice (nullIndex + 1) (int (length chunkData)) chunkData;
                   base64Text = fromCharCodes textBytes
               in case atob base64Text of
                    Inl e \<Rightarrow> Some (Inl e)
                  | Inr jsonString \<Rightarrow> Some (map_sum id Some (parseCharacterCard jsonString)))
            else if ctype = js ''IEND'' then Some (Inr None)
            else extract_loop bytes (offset + 8 + (len + 4)))
      else Some (Inr None))"

declare extract_loop.simps [code]

text \<open>\<open>extractCharacterFromPng\<close>: whatever is thrown is caught and \<open>null\<close> returned.\<close>

definition extractCharacterFromPng :: "jsstring \<Rightarrow> CharacterCard option option" where
  "extractCharacterFromPng base64Data =
     (case atob base64Data of
        Inl e \<Rightarrow> Some None
      | Inr binaryString \<Rightarrow>
          let bytes = bytes_of_binary binaryString
          in if \<not> signature_ok bytes then Some None
             else map_option (\<lambda>r. case r of Inl e \<Rightarrow> None | Inr found \<Rightarrow> found)
                    (extract_loop bytes 8))"

section \<open>The rules of the specification\<close>

text \<open>
  The definitions of this section are written from the specification, not from the code;
  the properties compare the code with them.

  Section 4.4, the newest-first greedy rule: the messages are walked from the newest to the
  oldest and included while the running total stays within the budget; once a message
  would overflow the budget, it and all older messages are excluded. The list argument is
  newest first and pairs a message with its cost.
\<close>

fun newest_first_greedy :: "int \<Rightarrow> ('m \<times> int) list \<Rightarrow> int \<Rightarrow> 'm list" where
  "newest_first_greedy budget [] running = []"
| "newest_first_greedy budget ((message, cost) # older) running =
     (if running + cost \<le> budget
      then newest_first_greedy budget older (running + cost) @ [message]
      else [])"

text \<open>
  Section 4.2, \<open>matches(text, entry)\<close>: false if the entry is not enabled; true if it is
  constant; otherwise true iff a primary key matches in the entry's matching mode and, if
  the entry is selective and secondary keys are present, a secondary key matches too. The
  modes, in priority: regular expression (case-insensitive unless \<open>caseSensitive\<close>; a
  pattern that does not compile is searched for as a literal); whole word (the literal
  between word boundaries, same case rule); else plain substring. Empty and
  whitespace-only keys never match.
\<close>

definition blank_key :: "jsstring \<Rightarrow> bool" where
  "blank_key k = list_all is_js_space k"

definition key_matches :: "platform \<Rightarrow> jsstring \<Rightarrow> WorldInfoEntry \<Rightarrow> jsstring \<Rightarrow> bool" where
  "key_matches P subject entry k =
     (let sensitive = (caseSensitive entry = Some True);
          fold = (\<lambda>s. if sensitive then s else toLowerCase P s);
          flags = (if sensitive then js ''g'' else js ''gi'')
      in \<not> blank_key k \<and>
         (if useRegex entry = Some True then
            (case RegExp_new P k flags of
               Some matcher \<Rightarrow> matcher subject \<noteq> None
             | None \<Rightarrow> sublist (fold k) (fold subject))
          else if matchWholeWords entry = Some True then
            (case RegExp_new P ([0x5C, 0x62] @ escapeRegex (fold k) @ [0x5C, 0x62]) flags of
               Some matcher \<Rightarrow> matcher subject \<noteq> None
             | None \<Rightarrow> False)
          else sublist (fold k) (fold subject)))"

definition entry_matches :: "platform \<Rightarrow> jsstring \<Rightarrow> WorldInfoEntry \<Rightarrow> bool" where
  "entry_matches P subject entry =
     (enabled entry \<and>
      (wi_constant entry = Some True \<or>
       (list_ex (key_matches P subject entry) (wi_keys entry) \<and>
        (case secondaryKeys entry of
           None \<Rightarrow> True
         | Some ks \<Rightarrow> selective entry \<noteq> Some True \<or> ks = [] \<or>
                      list_ex (key_matches P subject entry) ks))))"

text \<open>
  Section 4.2, \<open>scan\<close>: the matches are sorted by descending priority, an entry lacking
  priority counting as 0, ties broken by ascending order: ascending in the rank
  \<open>(- priority, order)\<close>, in the lexicographic order of pairs.
\<close>

definition effective_priority :: "WorldInfoEntry \<Rightarrow> int" where
  "effective_priority e = (case priority e of None \<Rightarrow> 0 | Some p \<Rightarrow> p)"

definition scan_rank :: "WorldInfoEntry \<Rightarrow> int \<times> int" where
  "scan_rank e = (- effective_priority e, wi_order e)"

text \<open>
  What is assumed of the platform where whole-word matching is concerned: the constructor
  accepts a literal whose special characters are escaped, between two \<open>\b\<close>, with the flags
  the matcher uses. JavaScript does: after the escaping no character of the literal has a
  meaning in a pattern.
\<close>

definition escaped_literals_compile :: "platform \<Rightarrow> bool" where
  "escaped_literals_compile P =
     (\<forall>k. RegExp_new P ([0x5C, 0x62] @ escapeRegex k @ [0x5C, 0x62]) (js ''g'') \<noteq> None \<and>
          RegExp_new P ([0x5C, 0x62] @ escapeRegex k @ [0x5C, 0x62]) (js ''gi'') \<noteq> None)"

section \<open>Example inputs\<close>

definition mk_msg :: "string \<Rightarrow> string \<Rightarrow> jsstring \<Rightarrow> ChatMessage" where
  "mk_msg i r c = \<lparr>role = js r, content = c, msg_id = js i, timestamp = 0, swipes = None,
     swipeIndex = None, tokenCount = None, isEdited = None, generationConfig = None\<rparr>"

text \<open>A 400-character message: 100 tokens of content.\<close>

definition long_text :: jsstring where
  "long_text = replicate 400 0x78"

text \<open>
  Five messages and a budget of 100, inside the ranges the repository's own property test
  \<open>removed messages are from the beginning\<close> draws from (5 to 15 messages, budget 100 to 500).
\<close>

definition history5 :: "ChatMessage list" where
  "history5 = [mk_msg ''m1'' ''user'' (js ''a''), mk_msg ''m2'' ''assistant'' (js ''b''),
     mk_msg ''m3'' ''user'' (js ''c''), mk_msg ''m4'' ''assistant'' long_text,
     mk_msg ''m5'' ''user'' (js ''e'')]"

text \<open>
  Two system messages among three chat messages; the system messages cost 13 of a budget
  of 100, the 400-character message does not fit in the rest.
\<close>

definition mixed5 :: "ChatMessage list" where
  "mixed5 = [mk_msg ''m1'' ''user'' (js ''a''), mk_msg ''m2'' ''system'' (js ''sys''),
     mk_msg ''m3'' ''assistant'' long_text, mk_msg ''m4'' ''system'' (js ''s2''),
     mk_msg ''m5'' ''user'' (js ''e'')]"

text \<open>
  An example platform: case mapping of the ASCII letters, and a regular expression engine
  that knows literal patterns only: a pattern with a special character is refused (as
  JavaScript refuses \<open>[\<close>), any other pattern matches where it occurs, compared after case
  mapping when the flags contain \<open>i\<close>.
\<close>

definition ascii_lower :: "16 word \<Rightarrow> 16 word" where
  "ascii_lower c = (if 0x41 \<le> c \<and> c \<le> 0x5A then c + 0x20 else c)"

fun find_literal :: "(jsstring \<Rightarrow> jsstring) \<Rightarrow> jsstring \<Rightarrow> jsstring \<Rightarrow> jsstring option" where
  "find_literal f pat [] = (if pat = [] then Some [] else None)"
| "find_literal f pat (c # cs) =
     (if length pat \<le> length (c # cs) \<and> f (take (length pat) (c # cs)) = f pat
      then Some (take (length pat) (c # cs))
      else find_literal f pat cs)"

definition literal_platform :: platform where
  "literal_platform =
     \<lparr>RegExp_new = (\<lambda>pattern flags.
        if list_ex regex_special pattern then None
        else Some (find_literal (if 0x69 \<in> set flags then map ascii_lower else (\<lambda>s. s)) pattern)),
      toLowerCase = map ascii_lower\<rparr>"

text \<open>
  A second example platform, which also knows the patterns of whole-word matching: an
  escaped literal between two \<open>\b\<close> matches where the literal occurs with a word boundary
  on both sides (a word character is an ASCII letter, a digit or the underscore).
\<close>

definition is_word_char :: "16 word \<Rightarrow> bool" where
  "is_word_char c = ((0x30 \<le> c \<and> c \<le> 0x39) \<or> (0x41 \<le> c \<and> c \<le> 0x5A) \<or> c = 0x5F \<or>
                     (0x61 \<le> c \<and> c \<le> 0x7A))"

fun escaped_literal :: "jsstring \<Rightarrow> jsstring option" where
  "escaped_literal [] = Some []"
| "escaped_literal [c] = (if regex_special c then None else Some [c])"
| "escaped_literal (c # d # cs) =
     (if c = 0x5C then
        (if regex_special d then map_option ((#) d) (escaped_literal cs) else None)
      else if regex_special c then None
      else map_option ((#) c) (escaped_literal (d # cs)))"

definition at_boundary :: "jsstring \<Rightarrow> nat \<Rightarrow> bool" where
  "at_boundary s i =
     ((0 < i \<and> is_word_char (s ! (i - 1))) \<noteq> (i < length s \<and> is_word_char (s ! i)))"

definition find_word :: "(jsstring \<Rightarrow> jsstring) \<Rightarrow> jsstring \<Rightarrow> jsstring \<Rightarrow> jsstring option" where
  "find_word f lit s =
     (case filter (\<lambda>i. i + length lit \<le> length s \<and> f (take (length lit) (drop i s)) = f lit \<and>
                        at_boundary s i \<and> at_boundary s (i + length lit)) [0 ..< length s + 1] of
        [] \<Rightarrow> None
      | i # _ \<Rightarrow> Some (take (length lit) (drop i s)))"

definition word_platform :: platform where
  "word_platform =
     \<lparr>RegExp_new = (\<lambda>pattern flags.
        let fold = (if 0x69 \<in> set flags then map ascii_lower else (\<lambda>s. s))
        in if 4 \<le> length pattern \<and> take 2 pattern = [0x5C, 0x62] \<and>
              drop (length pattern - 2) pattern = [0x5C, 0x62]
           then map_option (find_word fold)
                  (escaped_literal (take (length pattern - 4) (drop 2 pattern)))
           else RegExp_new literal_platform pattern flags),
      toLowerCase = map ascii_lower\<rparr>"

definition mk_entry :: "string \<Rightarrow> jsstring list \<Rightarrow> string \<Rightarrow> WorldInfoEntry" where
  "mk_entry i ks c =
     \<lparr>wi_id = js i, wi_keys = ks, secondaryKeys = None, wi_content = js c, wi_comment = None,
      enabled = True, wi_constant = None, selective = None, wi_position = WI_before_char,
      wi_depth = None, caseSensitive = None, matchWholeWords = None, useRegex = None,
      wi_order = 0, priority = None, tokenBudget = None\<rparr>"

text \<open>An entry whose key \<open>[\<close> is to be read as a regular expression.\<close>

definition bracket_entry :: WorldInfoEntry where
  "bracket_entry = (mk_entry ''e1'' [js ''[''] ''lore'')\<lparr>useRegex := Some True\<rparr>"

definition bracket_book :: WorldInfoBook where
  "bracket_book = \<lparr>book_id = js ''b1'', book_name = js ''book'', book_description = None,
     entries = [bracket_entry], book_createdAt = 0, book_updatedAt = 0\<rparr>"

definition eva :: CharacterData where
  "eva = \<lparr>name = js ''Eva'', description = js ''d'', personality = js ''p'', scenario = js ''s'',
     first_mes = js ''hi'', mes_example = js '''', creator_notes = None, system_prompt = None,
     post_history_instructions = None, alternate_greetings = None, tags = None, creator = None,
     character_version = None, extensions = None\<rparr>"

definition stay_note :: AuthorsNote where
  "stay_note = \<lparr>an_content = js ''Stay in character'', an_position = AN_in_chat, an_depth = 0,
     an_role = js ''system''\<rparr>"

definition note_context :: PromptContext where
  "note_context = \<lparr>character = eva,
     chatHistory = [mk_msg ''m1'' ''user'' (js ''hi''), mk_msg ''m2'' ''assistant'' (js ''hello'')],
     worldInfo = None, persona = None, authorsNote = Some stay_note, systemPrompt = None,
     instructTemplate = None, maxContextTokens = 4096\<rparr>"

text \<open>
  The entries of the specification's scenarios; \<open>constant\<close> entries match every text.
\<close>

definition mk_ranked :: "string \<Rightarrow> int option \<Rightarrow> int \<Rightarrow> WorldInfoEntry" where
  "mk_ranked i p ord =
     (mk_entry i [] [])\<lparr>wi_constant := Some True, priority := p, wi_order := ord\<rparr>"

text \<open>
  An entry with one key, and a list to scan the text \<open>any text\<close> with: constant entries with
  and without a priority, an entry that is not enabled, keys that occur in the text and
  keys that do not, in the substring mode and in the whole-word mode.
\<close>

definition keyed :: "string \<Rightarrow> string \<Rightarrow> int option \<Rightarrow> int \<Rightarrow> WorldInfoEntry" where
  "keyed i k p ord = (mk_entry i [js k] ''lore'')\<lparr>priority := p, wi_order := ord\<rparr>"

definition scan_entries :: "WorldInfoEntry list" where
  "scan_entries =
     [mk_ranked ''low'' (Some (- 1)) 0,
      keyed ''text'' ''Text'' None 0,
      (mk_ranked ''off'' (Some 99) 0)\<lparr>enabled := False\<rparr>,
      keyed ''dragon'' ''dragon'' (Some 50) 0,
      mk_ranked ''a'' (Some 10) 1,
      (keyed ''word'' ''any'' None 3)\<lparr>matchWholeWords := Some True\<rparr>,
      (keyed ''part'' ''tex'' (Some 70) 0)\<lparr>matchWholeWords := Some True\<rparr>,
      mk_ranked ''b'' (Some 10) 0,
      mk_ranked ''none'' None 3]"

text \<open>
  A world with one stored session of two messages; the generator hands out \<open>u\<close>, \<open>uu\<close>,
  \<open>uuu\<close>, ...
\<close>

definition session_ex :: ChatSession where
  "session_ex = \<lparr>session_id = js ''s1'', characterId = js ''c1'', groupId = None,
     messages = [mk_msg ''m1'' ''user'' (js ''hi''), mk_msg ''m2'' ''assistant'' (js ''hello'')],
     metadata = \<lparr>md_authorsNote = None, authorsNotePosition = None, authorsNoteDepth = None,
                 worldInfoBooks = None, personaId = None, md_instructTemplate = None\<rparr>,
     createdAt = 0, updatedAt = 0\<rparr>"

definition world_ex :: world where
  "world_ex = \<lparr>chat_sessions = Some [js ''s1'' \<mapsto> session_ex],
     uuids = (\<lambda>k. replicate (k + 1) 0x75), uuid_count = 0,
     clock = (\<lambda>k. int k), clock_count = 0\<rparr>"

text \<open>Example texts are written with a backquote for each double quote.\<close>

definition json_text :: "string \<Rightarrow> jsstring" where
  "json_text s = map (\<lambda>c. if c = CHR 0x60 then 0x22 else of_char c) s"

text \<open>
  Card texts: a generation-1 card, an object with a name only, a generation-2 card and an
  object with a nested \<open>data\<close>; the name at the top is the empty string in all of them.
\<close>

definition v1_empty_name :: jsstring where
  "v1_empty_name = json_text ''{`name`:``,`description`:`d`,`first_mes`:`hi`}''"

definition bare_empty_name :: jsstring where
  "bare_empty_name = json_text ''{`name`:``}''"

definition v2_empty_name :: jsstring where
  "v2_empty_name = json_text ''{`spec`:`chara_card_v2`,`spec_version`:`2.0`,`data`:{`name`:``}}''"

definition nested_name :: jsstring where
  "nested_name = json_text ''{`name`:``,`data`:{`name`:`X`}}''"

text \<open>
  A character with a name outside Latin-1, a description that needs escaping, two of the
  optional fields and the six fields of identity, and the card that holds its data.
\<close>

definition eva_character :: "(jsstring \<times> json) list" where
  "eva_character =
     [(js ''name'', JString [0x65E5, 0x672C]),
      (js ''description'', JString (json_text ''She says `hi`'')),
      (js ''personality'', JString (js ''p'')),
      (js ''scenario'', JString []),
      (js ''first_mes'', JString (js ''hi'')),
      (js ''mes_example'', JString []),
      (js ''tags'', JArray [JString (js ''a''), JString (js ''b'')]),
      (js ''extensions'', JObject [(js ''depth'', JNumber 4), (js ''world'', JNull)]),
      (js ''id'', JString (js ''c1'')),
      (js ''createdAt'', JNumber 1700000000000),
      (js ''updatedAt'', JNumber 1700000000000),
      (js ''isFavorite'', JBool False),
      (js ''chatCount'', JNumber 0)]"

definition eva_card :: CharacterCard where
  "eva_card =
     \<lparr>spec = js ''chara_card_v2'', spec_version = js ''2.0'',
      data = \<lparr>cd_name = Some (JString [0x65E5, 0x672C]),
        cd_description = Some (JString (json_text ''She says `hi`'')),
        cd_personality = Some (JString (js ''p'')), cd_scenario = Some (JString []),
        cd_first_mes = Some (JString (js ''hi'')), cd_mes_example = Some (JString []),
        cd_creator_notes = None, cd_system_prompt = None,
        cd_post_history_instructions = None, cd_alternate_greetings = None,
        cd_tags = Some (JArray [JString (js ''a''), JString (js ''b'')]),
        cd_creator = None, cd_character_version = None,
        cd_extensions = Some (JObject [(js ''depth'', JNumber 4), (js ''world'', JNull)])\<rparr>\<rparr>"

text \<open>The image of the repository's tests: one transparent pixel.\<close>

definition MINIMAL_PNG_BASE64 :: jsstring where
  "MINIMAL_PNG_BASE64 = js (''iVBORw0KGgoAAAANSUhEUgAAAAEAAAABCAYAAAAfFcSJAAAADUlEQVR42mNk'' @
     ''+M9QDwADhgGAWjR9awAAAABJRU5ErkJggg=='')"

chapter \<open>Properties\<close>

section \<open>JavaScript strings\<close>

lemma js_append: "js (a @ b) = js a @ js b"
  by (simp add: js_def)

lemma truthy_js: "truthy_str (js s) = (s \<noteq> [])"
  by (simp add: truthy_str_def js_def)

lemma length_js: "length (js s) = length s"
  by (simp add: js_def)

lemma unat_of_char16: "unat (of_char c :: 16 word) = of_char c"
proof -
  have "(of_char c :: nat) mod 256 < 256" by simp
  then have small: "(of_char c :: nat) < 256" by simp
  have "unat (of_nat (of_char c) :: 16 word) = of_char c mod 2 ^ 16"
    by (simp add: unat_of_nat)
  also have "\<dots> = of_char c"
  proof (rule mod_less)
    have "(256::nat) \<le> 2 ^ 16" by simp
    with small show "(of_char c :: nat) < 2 ^ 16" by (rule less_le_trans)
  qed
  finally show ?thesis by (simp only: of_nat_of_char)
qed

lemma js_eq_iff: "(js a = js b) = (a = b)"
proof -
  have "inj (of_char :: char \<Rightarrow> 16 word)"
  proof (rule injI)
    fix x y :: char
    assume "(of_char x :: 16 word) = of_char y"
    then have "unat (of_char x :: 16 word) = unat (of_char y :: 16 word)" by simp
    then show "x = y" by (simp only: unat_of_char16 of_char_eq_iff)
  qed
  then show ?thesis
    unfolding js_def by (simp add: inj_map_eq_map)
qed

section \<open>Properties of the tokenizer\<close>

lemma estimateTokens_div: "estimateTokens t = (int (length t) + 3) div 4"
  unfolding estimateTokens_def by linarith

lemma countMessagesTokens_loop_sum:
  "countMessagesTokens_loop msgs tk tot =
     tot + (\<Sum>m\<leftarrow>msgs. countTokens (content m) tk + 4)"
  by (induction msgs arbitrary: tot) simp_all

lemma countMessagesTokens_sum:
  "countMessagesTokens msgs tk = 3 + (\<Sum>m\<leftarrow>msgs. countTokens (content m) tk + 4)"
  by (simp add: countMessagesTokens_def countMessagesTokens_loop_sum)

lemma systemTokens_loop_sum:
  "systemTokens_loop msgs tk tot =
     tot + (\<Sum>m\<leftarrow>msgs. countTokens (content m) tk + 4)"
  by (induction msgs arbitrary: tot) simp_all

lemma truncate_loop_inv:
  assumes "truncate_loop M (map (\<lambda>m. (m, c m)) xs) (res, tot, rc) = (res', tot', rc')"
    and "tot = 3 + (\<Sum>m\<leftarrow>res. c m)"
    and "res = [] \<or> tot \<le> M"
  shows "tot' = 3 + (\<Sum>m\<leftarrow>res'. c m) \<and> (res' = [] \<or> tot' \<le> M) \<and>
         rc' + length res' = rc + length res + length xs"
  using assms
proof (induction xs arbitrary: res tot rc)
  case Nil
  then show ?case by auto
next
  case (Cons x xs)
  show ?case
  proof (cases "tot + c x \<le> M")
    case True
    with Cons.prems have run:
      "truncate_loop M (map (\<lambda>m. (m, c m)) xs) (x # res, tot + c x, rc) = (res', tot', rc')"
      by simp
    have sum: "tot + c x = 3 + (\<Sum>m\<leftarrow>x # res. c m)"
      using Cons.prems(2) by simp
    have fits: "x # res = [] \<or> tot + c x \<le> M"
      using True by simp
    from Cons.IH [OF run sum fits] show ?thesis by auto
  next
    case False
    with Cons.prems have run:
      "truncate_loop M (map (\<lambda>m. (m, c m)) xs) (res, tot, rc + 1) = (res', tot', rc')"
      by simp
    from Cons.IH [OF run Cons.prems(2) Cons.prems(3)] show ?thesis by auto
  qed
qed

lemma truncate_loop_subseq:
  "truncate_loop M xs (res, tot, rc) = (res', tot', rc') \<Longrightarrow>
   \<exists>ys. res' = ys @ res \<and> subseq ys (rev (map fst xs))"
proof (induction xs arbitrary: res tot rc)
  case Nil
  then show ?case by simp
next
  case (Cons x xs)
  obtain m t where x: "x = (m, t)" by (cases x)
  show ?case
  proof (cases "tot + t \<le> M")
    case True
    with Cons.prems x have "truncate_loop M xs (m # res, tot + t, rc) = (res', tot', rc')"
      by simp
    from Cons.IH [OF this] obtain ys where ys: "res' = ys @ m # res" "subseq ys (rev (map fst xs))"
      by blast
    have "subseq (ys @ [m]) (rev (map fst xs) @ [m])"
      using ys(2) by (simp add: subseq_append')
    with ys(1) x show ?thesis
      by (intro exI [of _ "ys @ [m]"]) simp
  next
    case False
    with Cons.prems x have "truncate_loop M xs (res, tot, rc + 1) = (res', tot', rc')"
      by simp
    from Cons.IH [OF this] obtain ys where ys: "res' = ys @ res" "subseq ys (rev (map fst xs))"
      by blast
    have "subseq ys (rev (map fst xs) @ [m])"
      using ys(2) by (simp add: subseq_appendE list_emb_append2 subseq_rev_drop_many)
    with ys(1) x show ?thesis by auto
  qed
qed

lemma truncateMessages_result:
  assumes "msgs \<noteq> []"
  obtains res tot rc where
    "truncate_loop maxTokens (rev (map (\<lambda>msg. (msg, countTokens (content msg) tk + 4)) msgs)) ([], 3, 0)
       = (res, tot, rc)"
    "truncateMessages msgs maxTokens tk =
       \<lparr>tr_messages = res, tr_truncated = (rc > 0), tr_removedCount = rc\<rparr>"
proof -
  obtain res tot rc where run:
    "truncate_loop maxTokens (rev (map (\<lambda>msg. (msg, countTokens (content msg) tk + 4)) msgs)) ([], 3, 0)
       = (res, tot, rc)"
    using prod_cases3 by blast
  with assms have "truncateMessages msgs maxTokens tk =
       \<lparr>tr_messages = res, tr_truncated = (rc > 0), tr_removedCount = rc\<rparr>"
    by (simp add: truncateMessages_def)
  with run that show thesis by blast
qed

lemma truncateMessages_facts:
  fixes msgs :: "('a Message_scheme) list"
  assumes "msgs \<noteq> []"
  shows "(tr_messages (truncateMessages msgs maxTokens tk) = [] \<or>
          countMessagesTokens (tr_messages (truncateMessages msgs maxTokens tk)) tk \<le> maxTokens)"
    and "tr_removedCount (truncateMessages msgs maxTokens tk) +
           length (tr_messages (truncateMessages msgs maxTokens tk)) = length msgs"
    and "tr_truncated (truncateMessages msgs maxTokens tk) =
           (tr_removedCount (truncateMessages msgs maxTokens tk) > 0)"
    and "subseq (tr_messages (truncateMessages msgs maxTokens tk)) msgs"
proof -
  let ?c = "\<lambda>msg::'a Message_scheme. countTokens (content msg) tk + 4"
  obtain res tot rc where run:
    "truncate_loop maxTokens (rev (map (\<lambda>msg. (msg, ?c msg)) msgs)) ([], 3, 0) = (res, tot, rc)"
    and r: "truncateMessages msgs maxTokens tk =
       \<lparr>tr_messages = res, tr_truncated = (rc > 0), tr_removedCount = rc\<rparr>"
    using truncateMessages_result [OF assms] by blast
  from run have run': "truncate_loop maxTokens (map (\<lambda>msg. (msg, ?c msg)) (rev msgs)) ([], 3, 0)
      = (res, tot, rc)"
    by (simp add: rev_map)
  have inv: "tot = 3 + (\<Sum>m\<leftarrow>res. ?c m) \<and> (res = [] \<or> tot \<le> maxTokens) \<and>
         rc + length res = 0 + length ([]::'a Message_scheme list) + length (rev msgs)"
    by (rule truncate_loop_inv [OF run']) simp_all
  show "(tr_messages (truncateMessages msgs maxTokens tk) = [] \<or>
          countMessagesTokens (tr_messages (truncateMessages msgs maxTokens tk)) tk \<le> maxTokens)"
    using inv by (auto simp: r countMessagesTokens_sum)
  show "tr_removedCount (truncateMessages msgs maxTokens tk) +
           length (tr_messages (truncateMessages msgs maxTokens tk)) = length msgs"
    using inv by (simp add: r)
  show "tr_truncated (truncateMessages msgs maxTokens tk) =
           (tr_removedCount (truncateMessages msgs maxTokens tk) > 0)"
    by (simp add: r)
  from truncate_loop_subseq [OF run] obtain ys where
    "res = ys @ []" "subseq ys (rev (map fst (rev (map (\<lambda>msg. (msg, ?c msg)) msgs))))"
    by blast
  then have "subseq res msgs"
    by (simp add: rev_map comp_def)
  then show "subseq (tr_messages (truncateMessages msgs maxTokens tk)) msgs"
    by (simp add: r)
qed

lemma keptChat_loop_truncate_loop:
  "fst (keptChat_loop B xs (kept, used)) = fst (truncate_loop (B + 3) xs (kept, used + 3, rc))"
proof (induction xs arbitrary: kept used rc)
  case Nil
  then show ?case by simp
next
  case (Cons x xs)
  obtain m t where x: "x = (m, t)" by (cases x)
  have "used + t + 3 = used + 3 + t" by simp
  with Cons.IH [of "m # kept" "used + t" rc] Cons.IH [of kept used "rc + 1"] x
  show ?case by simp
qed

lemma truncateMessages_keptChat:
  "tr_messages (truncateMessages chat (B + 3) tk) =
     fst (keptChat_loop B (rev (map (\<lambda>msg. (msg, countTokens (content msg) tk + 4)) chat)) ([], 0))"
proof (cases "chat = []")
  case True
  then show ?thesis by (simp add: truncateMessages_def)
next
  case False
  from truncateMessages_result [OF False, of "B + 3" tk] obtain res tot rc where
    run: "truncate_loop (B + 3) (rev (map (\<lambda>msg. (msg, countTokens (content msg) tk + 4)) chat))
       ([], 3, 0) = (res, tot, rc)"
    and r: "truncateMessages chat (B + 3) tk =
       \<lparr>tr_messages = res, tr_truncated = (rc > 0), tr_removedCount = rc\<rparr>"
    by blast
  from run r show ?thesis
    by (simp add: keptChat_loop_truncate_loop [where rc = 0])
qed

lemma truncateMessagesPreserveSystem_cases:
  fixes msgs :: "('a Message_scheme) list" and maxTokens :: int and tk :: TokenizerType
  defines "sys \<equiv> filter (\<lambda>m. role m = js ''system'') msgs"
    and "chat \<equiv> filter (\<lambda>m. role m \<noteq> js ''system'') msgs"
  defines "B \<equiv> maxTokens - countMessagesTokens sys tk"
  shows "B \<le> 0 \<Longrightarrow> truncateMessagesPreserveSystem msgs maxTokens tk =
           \<lparr>ps_messages = sys, ps_truncated = (chat \<noteq> [])\<rparr>"
    and "0 < B \<Longrightarrow> truncateMessagesPreserveSystem msgs maxTokens tk =
           \<lparr>ps_messages = sys @ tr_messages (truncateMessages chat (B + 3) tk),
            ps_truncated = (length (tr_messages (truncateMessages chat (B + 3) tk)) < length chat)\<rparr>"
proof -
  have budget: "maxTokens - systemTokens_loop sys tk 3 = B"
    by (simp add: B_def countMessagesTokens_sum systemTokens_loop_sum)
  show "truncateMessagesPreserveSystem msgs maxTokens tk =
           \<lparr>ps_messages = sys, ps_truncated = (chat \<noteq> [])\<rparr>" if "B \<le> 0"
    using that budget unfolding truncateMessagesPreserveSystem_def sys_def chat_def
    by (simp add: Let_def)
  show "truncateMessagesPreserveSystem msgs maxTokens tk =
           \<lparr>ps_messages = sys @ tr_messages (truncateMessages chat (B + 3) tk),
            ps_truncated = (length (tr_messages (truncateMessages chat (B + 3) tk)) < length chat)\<rparr>"
    if "0 < B"
    using that budget unfolding truncateMessagesPreserveSystem_def truncateMessages_keptChat
      sys_def chat_def
    by (simp add: Let_def split: prod.split)
qed

lemma countTokens_js: "countTokens (js s) tk = (int (length s) + 3) div 4"
  by (simp add: countTokens_def estimateTokens_div js_def)

lemma countTokens_long_text: "countTokens long_text tk = 100"
  by (simp add: countTokens_def estimateTokens_div long_text_def)

lemma truncateMessages_history5:
  "truncateMessages history5 100 cl100k_base =
     \<lparr>tr_messages = [mk_msg ''m1'' ''user'' (js ''a''), mk_msg ''m2'' ''assistant'' (js ''b''),
        mk_msg ''m3'' ''user'' (js ''c''), mk_msg ''m5'' ''user'' (js ''e'')],
      tr_truncated = True, tr_removedCount = 1\<rparr>"
  by (simp add: truncateMessages_def history5_def countTokens_js countTokens_long_text mk_msg_def)

lemma not_suffix_skip:
  assumes "a \<noteq> b"
  shows "\<not> suffix [a, b, c, e] [a, b, c, d, e]"
proof
  assume "suffix [a, b, c, e] [a, b, c, d, e]"
  then obtain zs where zs: "[a, b, c, d, e] = zs @ [a, b, c, e]"
    by (auto simp: suffix_def)
  with assms show False by auto
qed

subsection \<open>C3: the kept messages are a suffix of the input\<close>

text \<open>
  Claim C3 says that \<open>truncateMessages\<close> drops a contiguous run of the oldest messages only:
  once a message overflows the budget, it and every older message are excluded, so the kept
  messages are a suffix of the input. The loop has no \<open>break\<close>: after a message that does
  not fit it goes on and keeps older messages that do. On \<open>history5\<close> with budget 100 the
  400-character message \<open>m4\<close> is dropped and the three older messages are kept, so the
  result is not a suffix of the input, and the first kept message sits at index 0 while
  \<open>removedCount\<close> is 1 (the repository's test expects these to be equal).
\<close>

theorem truncateMessages_not_suffix:
  "tr_messages (truncateMessages history5 100 cl100k_base) =
     [mk_msg ''m1'' ''user'' (js ''a''), mk_msg ''m2'' ''assistant'' (js ''b''),
      mk_msg ''m3'' ''user'' (js ''c''), mk_msg ''m5'' ''user'' (js ''e'')] \<and>
   tr_removedCount (truncateMessages history5 100 cl100k_base) = 1 \<and>
   \<not> suffix (tr_messages (truncateMessages history5 100 cl100k_base)) history5"
proof -
  have "msg_id (mk_msg ''m1'' ''user'' (js ''a'')) \<noteq> msg_id (mk_msg ''m2'' ''assistant'' (js ''b''))"
    by (simp add: mk_msg_def js_def)
  then have "mk_msg ''m1'' ''user'' (js ''a'') \<noteq> mk_msg ''m2'' ''assistant'' (js ''b'')"
    by auto
  then have "\<not> suffix (tr_messages (truncateMessages history5 100 cl100k_base)) history5"
    unfolding truncateMessages_history5 unfolding history5_def by (simp add: not_suffix_skip)
  then show ?thesis by (simp add: truncateMessages_history5)
qed

subsection \<open>C4: the result fits the budget\<close>

text \<open>
  Claim C4, as stated, fails for budgets below the base overhead: the empty result already
  costs 3, so with \<open>maxTokens = 0\<close> the cost of the (empty) output exceeds the budget.
\<close>

theorem truncateMessages_tiny_budget_counterexample:
  "\<not> countMessagesTokens
        (tr_messages (truncateMessages ([] :: ChatMessage list) 0 cl100k_base)) cl100k_base \<le> 0"
  by (simp add: truncateMessages_def countMessagesTokens_def)

text \<open>
  Claim C4, amended: for every message list and budget \<open>maxTokens\<close>, the total estimated
  cost of the messages \<open>truncateMessages\<close> returns (base overhead 3 plus, per kept message,
  content cost plus 4) is at most \<open>maxTokens\<close> whenever at least one message is kept or
  \<open>maxTokens\<close> is at least the base overhead 3; \<open>removedCount\<close> is the input length minus
  the output length; \<open>truncated\<close> holds exactly when \<open>removedCount > 0\<close>; the kept messages
  are input messages, whole and in their original order; an empty input gives an empty,
  untruncated result; and a single message that does not fit alone gives an empty output.
\<close>

theorem truncateMessages_within_budget:
  fixes msgs :: "('a Message_scheme) list"
  shows "(let r = truncateMessages msgs maxTokens tk in
      (tr_messages r \<noteq> [] \<or> 3 \<le> maxTokens \<longrightarrow>
         countMessagesTokens (tr_messages r) tk \<le> maxTokens) \<and>
      tr_removedCount r + length (tr_messages r) = length msgs \<and>
      tr_truncated r = (tr_removedCount r > 0) \<and>
      subseq (tr_messages r) msgs) \<and>
    truncateMessages ([] :: ('a Message_scheme) list) maxTokens tk =
      \<lparr>tr_messages = [], tr_truncated = False, tr_removedCount = 0\<rparr> \<and>
    (maxTokens < countMessagesTokens [m :: 'a Message_scheme] tk \<longrightarrow>
       tr_messages (truncateMessages [m] maxTokens tk) = [])"
proof -
  have empty: "truncateMessages ([] :: ('a Message_scheme) list) maxTokens tk =
      \<lparr>tr_messages = [], tr_truncated = False, tr_removedCount = 0\<rparr>"
    by (simp add: truncateMessages_def)
  have single: "tr_messages (truncateMessages [m] maxTokens tk) = []"
    if "maxTokens < countMessagesTokens [m] tk"
    using that by (simp add: truncateMessages_def countMessagesTokens_sum)
  have main: "(tr_messages r \<noteq> [] \<or> 3 \<le> maxTokens \<longrightarrow>
         countMessagesTokens (tr_messages r) tk \<le> maxTokens) \<and>
      tr_removedCount r + length (tr_messages r) = length msgs \<and>
      tr_truncated r = (tr_removedCount r > 0) \<and>
      subseq (tr_messages r) msgs" if "r = truncateMessages msgs maxTokens tk" for r
  proof (cases "msgs = []")
    case True
    with that show ?thesis
      by (simp add: truncateMessages_def countMessagesTokens_sum)
  next
    case False
    note f = truncateMessages_facts [OF False, of maxTokens tk]
    have "countMessagesTokens (tr_messages r) tk \<le> maxTokens"
      if "tr_messages r \<noteq> [] \<or> 3 \<le> maxTokens"
    proof (cases "tr_messages r = []")
      case True
      with that show ?thesis by (simp add: countMessagesTokens_sum)
    next
      case False
      with f(1) \<open>r = truncateMessages msgs maxTokens tk\<close> show ?thesis by simp
    qed
    with f(2-4) \<open>r = truncateMessages msgs maxTokens tk\<close> show ?thesis by simp
  qed
  from main empty single show ?thesis
    by (simp add: Let_def)
qed

theorem truncateMessages_within_budget_witness:
  "(3 :: int) \<le> 100 \<and>
   countMessagesTokens (tr_messages (truncateMessages history5 100 cl100k_base)) cl100k_base \<le> 100 \<and>
   tr_removedCount (truncateMessages history5 100 cl100k_base) +
     length (tr_messages (truncateMessages history5 100 cl100k_base)) = length history5 \<and>
   100 < countMessagesTokens [mk_msg ''m4'' ''assistant'' long_text] cl100k_base \<and>
   tr_messages (truncateMessages [mk_msg ''m4'' ''assistant'' long_text] 100 cl100k_base) = []"
proof -
  have big: "100 < countMessagesTokens [mk_msg ''m4'' ''assistant'' long_text] cl100k_base"
    by (simp add: countMessagesTokens_def mk_msg_def countTokens_long_text)
  from truncateMessages_within_budget
         [of history5 100 cl100k_base "mk_msg ''m4'' ''assistant'' long_text"] big
  show ?thesis
    by (simp add: Let_def)
qed

text \<open>
  What \<open>truncateMessagesPreserveSystem\<close> does: the system messages come first and in full;
  with \<open>chatBudget = maxTokens - (cost of the system messages)\<close>, no other message is kept
  when \<open>chatBudget \<le> 0\<close>, and otherwise the other messages kept are the ones
  \<open>truncateMessages\<close> itself keeps within \<open>chatBudget + 3\<close> (it charges the base overhead 3
  again): the same loop, which goes on after a message that does not fit.
\<close>

lemma truncateMessagesPreserveSystem_layout:
  fixes msgs :: "('a Message_scheme) list"
  shows "(let systemMessages = filter (\<lambda>m. role m = js ''system'') msgs;
        chatMessages = filter (\<lambda>m. role m \<noteq> js ''system'') msgs;
        chatBudget = maxTokens - countMessagesTokens systemMessages tk;
        keptChat = tr_messages (truncateMessages chatMessages (chatBudget + 3) tk)
    in truncateMessagesPreserveSystem msgs maxTokens tk =
         (if chatBudget \<le> 0
          then \<lparr>ps_messages = systemMessages, ps_truncated = (chatMessages \<noteq> [])\<rparr>
          else \<lparr>ps_messages = systemMessages @ keptChat,
                ps_truncated = (length keptChat < length chatMessages)\<rparr>) \<and>
       subseq keptChat chatMessages)"
proof -
  have "subseq (tr_messages (truncateMessages chat B tk)) chat"
    for chat :: "('a Message_scheme) list" and B
  proof (cases "chat = []")
    case True
    then show ?thesis by (simp add: truncateMessages_def)
  next
    case False
    then show ?thesis by (rule truncateMessages_facts)
  qed
  then show ?thesis
    using truncateMessagesPreserveSystem_cases [of maxTokens msgs tk]
    by (simp add: Let_def)
qed

lemma role_mk_msg: "(role (mk_msg i r c) = js ''system'') = (r = ''system'')"
  by (simp add: mk_msg_def js_eq_iff)

lemma content_mk_msg: "content (mk_msg i r c) = c"
  by (simp add: mk_msg_def)

subsection \<open>C5: system messages are preserved\<close>

text \<open>
  Claim C5 says that \<open>truncateMessagesPreserveSystem\<close> keeps every system message, puts
  them first, and chooses the other messages by the same newest-first greedy rule within
  the remaining budget; by that rule (section 4.4 of the specification) a message that
  overflows the budget is excluded together with all older messages. The system messages
  are kept and come first, but the second loop has no \<open>break\<close> either. On \<open>mixed5\<close> with
  budget 100 the system messages cost 13 and leave 87: the newest message \<open>m5\<close> is kept,
  the 400-character \<open>m3\<close> overflows, and the code goes on and keeps the older \<open>m1\<close>. The
  code returns \<open>[m2, m4, m1, m5]\<close>; the rule keeps \<open>m5\<close> only. An older message survives
  where a newer one was dropped, against the function's own comment that chat messages are
  truncated from the oldest.
\<close>

theorem truncateMessagesPreserveSystem_keeps_older:
  "truncateMessagesPreserveSystem mixed5 100 cl100k_base =
     \<lparr>ps_messages = [mk_msg ''m2'' ''system'' (js ''sys''), mk_msg ''m4'' ''system'' (js ''s2''),
        mk_msg ''m1'' ''user'' (js ''a''), mk_msg ''m5'' ''user'' (js ''e'')],
      ps_truncated = True\<rparr> \<and>
   newest_first_greedy
     (100 - countMessagesTokens (filter (\<lambda>m. role m = js ''system'') mixed5) cl100k_base)
     (rev (map (\<lambda>m. (m, countTokens (content m) cl100k_base + 4))
        (filter (\<lambda>m. role m \<noteq> js ''system'') mixed5))) 0 =
     [mk_msg ''m5'' ''user'' (js ''e'')]"
  by (simp add: truncateMessagesPreserveSystem_def mixed5_def role_mk_msg content_mk_msg
      countTokens_js countTokens_long_text countMessagesTokens_def)

section \<open>Properties of the world info matcher\<close>

lemma insort_cmp_insort_key:
  assumes "\<And>x y. (cmp x y \<le> 0) = (k x \<le> k y)"
  shows "insort_cmp cmp x xs = insort_key k x xs"
  by (induction xs) (simp_all add: assms)

lemma Array_sort_sort_key:
  assumes "\<And>x y. (cmp x y \<le> 0) = (k x \<le> k y)"
  shows "Array_sort cmp xs = sort_key k xs"
  unfolding Array_sort_def sort_key_def
  by (induction xs) (simp_all add: insort_cmp_insort_key [OF assms])

lemma trim_blank: "(length (trim k) = 0) = blank_key k"
proof -
  have "dropWhile is_js_space (rev (dropWhile is_js_space k)) = [] \<longleftrightarrow>
        dropWhile is_js_space k = []"
  proof
    assume a: "dropWhile is_js_space (rev (dropWhile is_js_space k)) = []"
    show "dropWhile is_js_space k = []"
    proof (rule ccontr)
      assume n: "dropWhile is_js_space k \<noteq> []"
      then have "\<not> is_js_space (hd (dropWhile is_js_space k))" by (rule hd_dropWhile)
      moreover from n have "hd (dropWhile is_js_space k) \<in> set (rev (dropWhile is_js_space k))"
        by simp
      ultimately show False using a by (auto simp: dropWhile_eq_Nil_conv)
    qed
  next
    assume "dropWhile is_js_space k = []"
    then show "dropWhile is_js_space (rev (dropWhile is_js_space k)) = []"
      by (simp del: dropWhile_eq_Nil_conv)
  qed
  then show ?thesis
    by (simp add: trim_def blank_key_def dropWhile_eq_Nil_conv list_all_iff)
qed

lemma Array_some_total:
  "(\<And>x. f x = Inr (g x)) \<Longrightarrow> Array_some f xs = Inr (list_ex g xs)"
  by (induction xs) (simp_all split: bool.split)

lemma matchesKeyword_key_matches:
  assumes "escaped_literals_compile P"
  shows "matchesKeyword P t k e = Inr (key_matches P t e k)"
proof -
  have blank: "(\<not> truthy_str k \<or> length (trim k) = 0) = blank_key k"
    unfolding trim_blank by (auto simp: truthy_str_def blank_key_def)
  from assms have c: "\<exists>m. RegExp_new P ([0x5C, 0x62] @ escapeRegex x @ [0x5C, 0x62]) (js ''g'') = Some m"
      "\<exists>m. RegExp_new P ([0x5C, 0x62] @ escapeRegex x @ [0x5C, 0x62]) (js ''gi'') = Some m" for x
    by (auto simp: escaped_literals_compile_def)
  show ?thesis
  proof (cases "blank_key k")
    case True
    then show ?thesis
      unfolding matchesKeyword_def blank by (simp add: key_matches_def)
  next
    case False
    show ?thesis
    proof (cases "caseSensitive e = Some True")
      case True
      obtain m where m: "RegExp_new P ([0x5C, 0x62] @ escapeRegex k @ [0x5C, 0x62]) (js ''g'') = Some m"
        using c(1) by blast
      from False True m show ?thesis
        unfolding matchesKeyword_def blank
        by (simp add: key_matches_def truthy_obool_def RegExp_test_def includes_str_def Let_def
            split: option.split)
    next
      case cs: False
      obtain m where m: "RegExp_new P ([0x5C, 0x62] @ escapeRegex (toLowerCase P k) @ [0x5C, 0x62])
          (js ''gi'') = Some m"
        using c(2) by blast
      from False cs m show ?thesis
        unfolding matchesKeyword_def blank
        by (simp add: key_matches_def truthy_obool_def RegExp_test_def includes_str_def Let_def
            split: option.split)
    qed
  qed
qed

lemma matchesEntry_entry_matches:
  assumes "escaped_literals_compile P"
  shows "matchesEntry P t e = Inr (entry_matches P t e)"
  unfolding matchesEntry_def
  by (auto simp: Array_some_total [OF matchesKeyword_key_matches [OF assms]] entry_matches_def
      truthy_obool_def split: option.split)

lemma scanForMatches_loop_entry_matches:
  assumes "escaped_literals_compile P"
  shows "scanForMatches_loop P t es acc = Inr (acc @ filter (entry_matches P t) es)"
  by (induction es arbitrary: acc) (simp_all add: matchesEntry_entry_matches [OF assms])

lemma scanForMatches_compare_scan_rank:
  "(scanForMatches_compare a b \<le> 0) = (scan_rank a \<le> scan_rank b)"
  by (auto simp: scanForMatches_compare_def scan_rank_def effective_priority_def or0_def Let_def
      less_eq_prod_def split: option.split)

lemma scanForMatches_sort_key:
  assumes "escaped_literals_compile P"
  shows "scanForMatches P t es = Inr (sort_key scan_rank (filter (entry_matches P t) es))"
  by (simp add: scanForMatches_def scanForMatches_loop_entry_matches [OF assms]
      Array_sort_sort_key [OF scanForMatches_compare_scan_rank])

lemma escaped_literal_escapeRegex: "escaped_literal (escapeRegex k) = Some k"
proof (induction k)
  case Nil
  then show ?case by (simp add: escapeRegex_def)
next
  case (Cons c k)
  have bs: "regex_special 0x5C" by (simp add: regex_special_def)
  show ?case
  proof (cases "regex_special c")
    case True
    with Cons show ?thesis by (simp add: escapeRegex_def)
  next
    case False
    then have c: "c \<noteq> 0x5C" using bs by auto
    show ?thesis
    proof (cases k)
      case Nil
      with False show ?thesis by (simp add: escapeRegex_def)
    next
      case (Cons d k')
      obtain x xs where x: "escapeRegex (d # k') = x # xs"
        by (cases "regex_special d") (simp_all add: escapeRegex_def)
      have "escapeRegex (c # k) = c # escapeRegex k"
        using False by (simp add: escapeRegex_def)
      with Cons.IH x False c show ?thesis by (simp add: Cons)
    qed
  qed
qed

lemma word_platform_compiles: "escaped_literals_compile word_platform"
proof -
  have "RegExp_new word_platform ([0x5C, 0x62] @ escapeRegex k @ [0x5C, 0x62]) flags \<noteq> None"
    for k flags
    by (simp add: word_platform_def Let_def escaped_literal_escapeRegex)
  then show ?thesis by (simp add: escaped_literals_compile_def)
qed

lemma filter_scan_entries:
  "filter (entry_matches word_platform (js ''any text'')) scan_entries =
     [mk_ranked ''low'' (Some (- 1)) 0,
      keyed ''text'' ''Text'' None 0,
      mk_ranked ''a'' (Some 10) 1,
      (keyed ''word'' ''any'' None 3)\<lparr>matchWholeWords := Some True\<rparr>,
      mk_ranked ''b'' (Some 10) 0,
      mk_ranked ''none'' None 3]"
  by code_simp

lemma sort_scan_entries:
  "sort_key scan_rank
     [mk_ranked ''low'' (Some (- 1)) 0,
      keyed ''text'' ''Text'' None 0,
      mk_ranked ''a'' (Some 10) 1,
      (keyed ''word'' ''any'' None 3)\<lparr>matchWholeWords := Some True\<rparr>,
      mk_ranked ''b'' (Some 10) 0,
      mk_ranked ''none'' None 3] =
     [mk_ranked ''b'' (Some 10) 0,
      mk_ranked ''a'' (Some 10) 1,
      keyed ''text'' ''Text'' None 0,
      (keyed ''word'' ''any'' None 3)\<lparr>matchWholeWords := Some True\<rparr>,
      mk_ranked ''none'' None 3,
      mk_ranked ''low'' (Some (- 1)) 0]"
  by code_simp

lemma entry_matches_mk_ranked: "entry_matches P t (mk_ranked i p ord)"
  by (simp add: entry_matches_def mk_ranked_def mk_entry_def)

lemma scan_rank_mk_ranked:
  "scan_rank (mk_ranked i p ord) = (- (case p of None \<Rightarrow> 0 | Some n \<Rightarrow> n), ord)"
  by (simp add: scan_rank_def effective_priority_def mk_ranked_def)

subsection \<open>C6: the order of the matches\<close>

text \<open>
  Claim C6: for every scan text and entry list, \<open>scanForMatches\<close> returns exactly the
  matching entries, sorted by descending priority (an entry without priority counts as 0),
  ties broken by ascending order, stably for equal (priority, order) pairs. Matching is
  \<open>entry_matches\<close> and the rank is \<open>scan_rank\<close>, both written from the specification; the
  platform is assumed to compile the escaped literals of whole-word matching, and then no
  call raises. The result is the stable sort of the matches by the rank: it has the
  matches and nothing else, each pair in it is in rank order, and entries of equal priority
  and order keep their input order; no entry of the result is disabled and every enabled
  constant entry is in it. In particular two matches of equal priority come out by
  ascending order, and a match of lower priority comes out after one of higher priority
  whatever their order values.
\<close>

theorem scanForMatches_sorted:
  assumes "escaped_literals_compile P"
  shows "(\<exists>r. scanForMatches P t es = Inr r \<and>
           r = sort_key scan_rank (filter (entry_matches P t) es) \<and>
           mset r = mset (filter (entry_matches P t) es) \<and>
           sorted_wrt (\<lambda>a b. effective_priority a > effective_priority b \<or>
                        (effective_priority a = effective_priority b \<and> wi_order a \<le> wi_order b)) r \<and>
           (\<forall>p ord. filter (\<lambda>e. effective_priority e = p \<and> wi_order e = ord) r =
                filter (\<lambda>e. effective_priority e = p \<and> wi_order e = ord)
                  (filter (entry_matches P t) es)) \<and>
           (\<forall>e \<in> set r. enabled e) \<and>
           (\<forall>e \<in> set es. enabled e \<and> wi_constant e = Some True \<longrightarrow> e \<in> set r)) \<and>
         (\<forall>a b. entry_matches P t a \<and> entry_matches P t b \<and>
                effective_priority a = effective_priority b \<and> wi_order b < wi_order a \<longrightarrow>
                scanForMatches P t [a, b] = Inr [b, a]) \<and>
         (\<forall>a b. entry_matches P t a \<and> entry_matches P t b \<and>
                effective_priority a < effective_priority b \<longrightarrow>
                scanForMatches P t [a, b] = Inr [b, a])"
proof -
  let ?ms = "filter (entry_matches P t) es"
  note r = scanForMatches_sort_key [OF assms]
  have "sorted (map scan_rank (sort_key scan_rank ?ms))"
    by simp
  then have srt: "sorted_wrt (\<lambda>a b. effective_priority a > effective_priority b \<or>
                        (effective_priority a = effective_priority b \<and> wi_order a \<le> wi_order b))
       (sort_key scan_rank ?ms)"
    unfolding sorted_map
    by (rule sorted_wrt_mono_rel [rotated]) (auto simp: scan_rank_def less_eq_prod_def)
  have stable: "filter (\<lambda>e. effective_priority e = p \<and> wi_order e = ord) (sort_key scan_rank ?ms) =
      filter (\<lambda>e. effective_priority e = p \<and> wi_order e = ord) ?ms" for p ord
  proof -
    have eq: "(\<lambda>e. effective_priority e = p \<and> wi_order e = ord) = (\<lambda>e. scan_rank e = (- p, ord))"
      by (auto simp: scan_rank_def)
    show ?thesis unfolding eq by (rule sort_key_stable)
  qed
  have en: "\<forall>e \<in> set (sort_key scan_rank ?ms). enabled e"
    by (simp add: entry_matches_def)
  have const: "\<forall>e \<in> set es. enabled e \<and> wi_constant e = Some True \<longrightarrow>
      e \<in> set (sort_key scan_rank ?ms)"
    by (simp add: entry_matches_def)
  have pair1: "scanForMatches P t [a, b] = Inr [b, a]"
    if "entry_matches P t a" "entry_matches P t b"
       "effective_priority a = effective_priority b" "wi_order b < wi_order a" for a b
    using that by (simp add: r scan_rank_def less_eq_prod_def)
  have pair2: "scanForMatches P t [a, b] = Inr [b, a]"
    if "entry_matches P t a" "entry_matches P t b"
       "effective_priority a < effective_priority b" for a b
    using that by (simp add: r scan_rank_def less_eq_prod_def)
  from r [of t es] srt stable en const pair1 pair2 show ?thesis by simp
qed

text \<open>
  On the example platform, the text \<open>any text\<close> and \<open>scan_entries\<close>: the disabled entry and
  the two entries whose key does not match are left out whatever their priority, the
  entries without priority come after priority 10 and before priority -1, and the two
  entries of priority 0 and order 3 keep their input order. The specification's
  scenarios: \<open>{priority:10, order:1}\<close> and \<open>{priority:10, order:0}\<close> come out as
  \<open>[order:0, order:1]\<close>; \<open>{priority:1}\<close> and \<open>{priority:10}\<close> come out as
  \<open>[priority:10, priority:1]\<close>, here with the order values against it.
\<close>

theorem scanForMatches_sorted_witness:
  "escaped_literals_compile word_platform \<and>
   scanForMatches word_platform (js ''any text'') scan_entries =
     Inr [mk_ranked ''b'' (Some 10) 0,
          mk_ranked ''a'' (Some 10) 1,
          keyed ''text'' ''Text'' None 0,
          (keyed ''word'' ''any'' None 3)\<lparr>matchWholeWords := Some True\<rparr>,
          mk_ranked ''none'' None 3,
          mk_ranked ''low'' (Some (- 1)) 0] \<and>
   scanForMatches word_platform (js ''any text'')
     [mk_ranked ''a'' (Some 10) 1, mk_ranked ''b'' (Some 10) 0] =
     Inr [mk_ranked ''b'' (Some 10) 0, mk_ranked ''a'' (Some 10) 1] \<and>
   scanForMatches word_platform (js ''any text'')
     [mk_ranked ''c'' (Some 1) 0, mk_ranked ''d'' (Some 10) 7] =
     Inr [mk_ranked ''d'' (Some 10) 7, mk_ranked ''c'' (Some 1) 0]"
proof -
  have sorted_list: "scanForMatches word_platform (js ''any text'') es =
      Inr (sort_key scan_rank (filter (entry_matches word_platform (js ''any text'')) es))" for es
    using scanForMatches_sorted [OF word_platform_compiles, of "js ''any text''" es] by blast
  have "scanForMatches word_platform (js ''any text'') scan_entries =
     Inr [mk_ranked ''b'' (Some 10) 0,
          mk_ranked ''a'' (Some 10) 1,
          keyed ''text'' ''Text'' None 0,
          (keyed ''word'' ''any'' None 3)\<lparr>matchWholeWords := Some True\<rparr>,
          mk_ranked ''none'' None 3,
          mk_ranked ''low'' (Some (- 1)) 0]"
    by (simp only: sorted_list filter_scan_entries sort_scan_entries)
  moreover have "scanForMatches word_platform (js ''any text'')
     [mk_ranked ''a'' (Some 10) 1, mk_ranked ''b'' (Some 10) 0] =
     Inr [mk_ranked ''b'' (Some 10) 0, mk_ranked ''a'' (Some 10) 1]"
    by (simp add: sorted_list entry_matches_mk_ranked scan_rank_mk_ranked less_eq_prod_def)
  moreover have "scanForMatches word_platform (js ''any text'')
     [mk_ranked ''c'' (Some 1) 0, mk_ranked ''d'' (Some 10) 7] =
     Inr [mk_ranked ''d'' (Some 10) 7, mk_ranked ''c'' (Some 1) 0]"
    by (simp add: sorted_list entry_matches_mk_ranked scan_rank_mk_ranked less_eq_prod_def)
  ultimately show ?thesis using word_platform_compiles by simp
qed

section \<open>Properties of the prompt builder\<close>

lemma injectAuthorsNote_in_chat:
  "an_position note = AN_in_chat \<Longrightarrow> injectAuthorsNote c note = c"
  by (simp add: injectAuthorsNote_def)

lemma history_loop_plain:
  "history_loop note n i h =
     map (\<lambda>msg. \<lparr>role = (if role msg = js ''user'' then js ''user'' else js ''assistant''),
                  content = content msg\<rparr>) h"
  by (induction h arbitrary: i)
     (auto simp: Let_def injectAuthorsNote_in_chat split: option.splits)

lemma sublist_ex1: "sublist (js ''['') (js ''a[b'')"
proof -
  have "js ''a[b'' = js ''a'' @ js ''['' @ js ''b''" by (simp add: js_def)
  then show ?thesis unfolding sublist_def by blast
qed

lemma ascii_lower_ex: "map ascii_lower (js ''a[b'') = js ''a[b''" "map ascii_lower (js ''['') = js ''[''"
  by (simp_all add: js_def ascii_lower_def)

lemma trim_bracket: "trim (js ''['') = js ''[''"
  by (simp add: trim_def js_def is_js_space_def)

lemma special_bracket: "regex_special 0x5B"
  by (simp add: regex_special_def js_def)

lemma matchesKeyword_invalid_regex:
  assumes "truthy_obool (useRegex e)" and "\<forall>flags. RegExp_new P k flags = None"
    and "k \<noteq> []" and "trim k \<noteq> []"
  shows "matchesKeyword P t k e =
     Inr (includes_str (if truthy_obool (caseSensitive e) then t else toLowerCase P t)
                       (if truthy_obool (caseSensitive e) then k else toLowerCase P k))"
  using assms by (simp add: matchesKeyword_def truthy_str_def RegExp_test_def Let_def)

lemma scanAndCollect_key_invalid_regex:
  assumes "truthy_obool (useRegex e)" and "\<forall>flags. RegExp_new P k flags = None"
  shows "scanAndCollect_key P t e k = Inr False"
  using assms by (simp add: scanAndCollect_key_def RegExp_test_def)

lemma literal_platform_rejects_bracket: "RegExp_new literal_platform (js ''['') flags = None"
  by (simp add: literal_platform_def js_def regex_special_def)

lemma toLowerCase_literal_platform: "toLowerCase literal_platform = map ascii_lower"
  by (simp add: literal_platform_def)

lemma bracket_entry_fields:
  "enabled bracket_entry" "\<not> truthy_obool (wi_constant bracket_entry)"
  "truthy_obool (useRegex bracket_entry)" "\<not> truthy_obool (caseSensitive bracket_entry)"
  "wi_keys bracket_entry = [js ''['']" "wi_content bracket_entry = js ''lore''"
  "\<not> truthy_obool (selective bracket_entry)"
  by (simp_all add: bracket_entry_def mk_entry_def truthy_obool_def)

lemma matchesKeyword_bracket:
  "matchesKeyword literal_platform (js ''a[b'') (js ''['') bracket_entry = Inr True"
proof -
  have "js ''['' \<noteq> []" "trim (js ''['') \<noteq> []"
    by (simp_all add: trim_bracket) (simp_all add: js_def)
  from matchesKeyword_invalid_regex [OF bracket_entry_fields(3) _ this, of literal_platform]
  show ?thesis
    using sublist_ex1
    by (simp add: literal_platform_rejects_bracket bracket_entry_fields
        toLowerCase_literal_platform ascii_lower_ex includes_str_def)
qed

lemma matchesEntry_bracket: "matchesEntry literal_platform (js ''a[b'') bracket_entry = Inr True"
  by (simp add: matchesEntry_def bracket_entry_fields matchesKeyword_bracket)

lemma scanAndCollectWorldInfo_bracket:
  "scanAndCollectWorldInfo literal_platform [mk_msg ''m1'' ''user'' (js ''a[b'')] [bracket_book] = Inr []"
proof -
  have "scanAndCollect_key literal_platform t bracket_entry (js ''['') = Inr False" for t
    by (rule scanAndCollect_key_invalid_regex)
       (simp_all add: bracket_entry_fields literal_platform_rejects_bracket)
  then show ?thesis
    by (simp add: scanAndCollectWorldInfo_def bracket_book_def bracket_entry_fields
        Array_sort_def Let_def)
qed

subsection \<open>C7: a regular expression that does not compile\<close>

text \<open>
  Claim C7 says that a key of an enabled, non-constant entry with \<open>useRegex = true\<close> whose
  pattern fails to compile is searched for as a literal substring, in every code path that
  evaluates world-info keys. \<open>matchesKeyword\<close> does so (lemma
  \<open>matchesKeyword_invalid_regex\<close>); the key test inside \<open>scanAndCollectWorldInfo\<close>, which
  \<open>buildPrompt\<close> uses, answers \<open>false\<close> instead (lemma \<open>scanAndCollect_key_invalid_regex\<close>).
  With the key \<open>[\<close> and the text \<open>a[b\<close>: \<open>matchesEntry\<close> reports a match, while
  \<open>scanAndCollectWorldInfo\<close> collects nothing, although \<open>[\<close> occurs in the text.
\<close>

theorem scanAndCollectWorldInfo_no_literal_fallback:
  "matchesEntry literal_platform (js ''a[b'') bracket_entry = Inr True \<and>
   includes_str (toLowerCase literal_platform (js ''a[b'')) (toLowerCase literal_platform (js ''['')) \<and>
   scanAndCollectWorldInfo literal_platform [mk_msg ''m1'' ''user'' (js ''a[b'')] [bracket_book]
     = Inr []"
  using sublist_ex1
  by (simp add: matchesEntry_bracket scanAndCollectWorldInfo_bracket includes_str_def
      toLowerCase_literal_platform ascii_lower_ex)

subsection \<open>C8: an author's note in the chat\<close>

text \<open>
  Claim C8 says that an author's note with position \<open>in_chat\<close> and depth \<open>d\<close> is appended
  or prepended to the history turn \<open>d\<close> turns from the end. \<open>buildPrompt\<close> calls
  \<open>injectAuthorsNote\<close> only when the position is \<open>in_chat\<close>, and \<open>injectAuthorsNote\<close>
  changes the content only when the position is \<open>before_char\<close> or \<open>after_char\<close>: the history
  turns are always passed on unchanged (lemma \<open>history_loop_plain\<close>). With the note
  \<open>Stay in character\<close> at depth 0 the last turn is still \<open>hello\<close>.
\<close>

theorem buildPrompt_in_chat_note:
  "buildPrompt literal_platform note_context =
     Inr \<lparr>pr_messages =
            [\<lparr>role = js ''system'',
              content = js ''Character: Eva'' @ [0x0A] @ js ''d'' @ [0x0A, 0x0A] @
                        js ''Personality: p'' @ [0x0A, 0x0A] @ js ''Scenario: s''\<rparr>,
             \<lparr>role = js ''user'', content = js ''hi''\<rparr>,
             \<lparr>role = js ''assistant'', content = js ''hello''\<rparr>],
          pr_tokenCount = 13, pr_truncated = False\<rparr>"
  by (simp add: buildPrompt_def note_context_def eva_def buildSystemMessage_def
      buildCharacterContext_def truthy_ostr_def truthy_js history_loop_plain mk_msg_def
      Let_def js_eq_iff length_js) (simp add: js_def truthy_str_def)

section \<open>Properties of the chat manager\<close>

lemma or_absent_idem: "or_absent (or_absent x) = or_absent x"
  by (simp add: or_absent_def)

lemma load_session_Inr:
  "load_session t w = Inr (s, w1) \<Longrightarrow>
     w1 = w \<and> session_id s = t \<and>
     (\<exists>tbl row. chat_sessions w = Some tbl \<and> tbl t = Some row \<and>
        s = row\<lparr>session_id := t, groupId := or_absent (groupId row)\<rparr>)"
  by (auto simp: load_session_def getChatSession_def getDb_def split: option.splits)

lemma saveChatSession_Inr:
  "saveChatSession s w = Inr (u, w') \<Longrightarrow>
     \<exists>tbl. chat_sessions w = Some tbl \<and>
       w' = w\<lparr>chat_sessions := Some (tbl(session_id s \<mapsto> s\<lparr>groupId := or_absent (groupId s)\<rparr>))\<rparr>"
  by (auto simp: saveChatSession_def getDb_def split: option.splits)

lemma saveChatSession_other:
  "saveChatSession s w = Inr (u, w') \<Longrightarrow> k \<noteq> session_id s \<Longrightarrow>
     stored_session k w' = stored_session k w"
  by (auto simp: stored_session_def dest!: saveChatSession_Inr)

lemma touch_and_save_other:
  "touch_and_save s w = Inr (u, w') \<Longrightarrow> k \<noteq> session_id s \<Longrightarrow>
     stored_session k w' = stored_session k w"
  by (auto simp: touch_and_save_def getCurrentTimestamp_def stored_session_def
      dest!: saveChatSession_Inr)

lemma stored_session_counts [simp]:
  "stored_session k (w\<lparr>uuid_count := n\<rparr>) = stored_session k w"
  "stored_session k (w\<lparr>clock_count := n\<rparr>) = stored_session k w"
  by (simp_all add: stored_session_def)

lemma addMessage_other:
  "addMessage t r c w = Inr (m, w') \<Longrightarrow> k \<noteq> t \<Longrightarrow> stored_session k w' = stored_session k w"
  unfolding addMessage_def
  by (auto simp: generateId_def getCurrentTimestamp_def Let_def
      split: sum.splits prod.splits dest!: load_session_Inr dest: touch_and_save_other)

lemma updateMessage_other:
  "updateMessage t mid c w = Inr (m, w') \<Longrightarrow> k \<noteq> t \<Longrightarrow> stored_session k w' = stored_session k w"
  unfolding updateMessage_def
  by (auto simp: Let_def split: sum.splits prod.splits
      dest!: load_session_Inr dest: touch_and_save_other)

lemma deleteMessage_other:
  "deleteMessage t mid w = Inr (u, w') \<Longrightarrow> k \<noteq> t \<Longrightarrow> stored_session k w' = stored_session k w"
  unfolding deleteMessage_def
  by (auto simp: Let_def split: sum.splits prod.splits
      dest!: load_session_Inr dest: touch_and_save_other)

lemma addSwipe_other:
  "addSwipe t mid c w = Inr (m, w') \<Longrightarrow> k \<noteq> t \<Longrightarrow> stored_session k w' = stored_session k w"
  unfolding addSwipe_def
  by (auto simp: Let_def split: sum.splits prod.splits
      dest!: load_session_Inr dest: touch_and_save_other)

lemma setSwipeIndex_other:
  "setSwipeIndex t mid i w = Inr (m, w') \<Longrightarrow> k \<noteq> t \<Longrightarrow> stored_session k w' = stored_session k w"
  unfolding setSwipeIndex_def
  by (auto simp: Let_def split: sum.splits prod.splits option.splits if_splits
      dest!: load_session_Inr dest: touch_and_save_other)

lemma nextSwipe_other:
  "nextSwipe t mid w = Inr (m, w') \<Longrightarrow> k \<noteq> t \<Longrightarrow> stored_session k w' = stored_session k w"
  unfolding nextSwipe_def
  by (auto simp: Let_def split: sum.splits prod.splits option.splits if_splits
      dest!: load_session_Inr dest: setSwipeIndex_other)

lemma prevSwipe_other:
  "prevSwipe t mid w = Inr (m, w') \<Longrightarrow> k \<noteq> t \<Longrightarrow> stored_session k w' = stored_session k w"
  unfolding prevSwipe_def
  by (auto simp: Let_def split: sum.splits prod.splits option.splits if_splits
      dest!: load_session_Inr dest: setSwipeIndex_other)

lemma updateMetadata_other:
  "updateMetadata t upd w = Inr (s, w') \<Longrightarrow> k \<noteq> t \<Longrightarrow> stored_session k w' = stored_session k w"
  unfolding updateMetadata_def
  by (auto simp: Let_def getCurrentTimestamp_def split: sum.splits prod.splits
      dest!: load_session_Inr dest: saveChatSession_other)

lemma clearMessages_other:
  "clearMessages t w = Inr (s, w') \<Longrightarrow> k \<noteq> t \<Longrightarrow> stored_session k w' = stored_session k w"
  unfolding clearMessages_def
  by (auto simp: Let_def getCurrentTimestamp_def split: sum.splits prod.splits
      dest!: load_session_Inr dest: saveChatSession_other)

lemma deleteChatSessionById_other:
  "deleteChatSessionById t w = Inr (u, w') \<Longrightarrow> k \<noteq> t \<Longrightarrow> stored_session k w' = stored_session k w"
  by (auto simp: deleteChatSessionById_def deleteChatSession_def getDb_def stored_session_def
      split: option.splits)

lemma map_sum_snd_Inr: "map_sum id snd x = Inr w' \<Longrightarrow> \<exists>r. x = Inr (r, w')"
  by (cases x) auto

lemma mutate_other:
  "mutate t m w = Inr w' \<Longrightarrow> k \<noteq> t \<Longrightarrow> stored_session k w' = stored_session k w"
  by (cases m)
     (auto dest!: map_sum_snd_Inr
        dest: addMessage_other updateMessage_other deleteMessage_other addSwipe_other
          setSwipeIndex_other nextSwipe_other prevSwipe_other updateMetadata_other
          clearMessages_other deleteChatSessionById_other)

lemma mutate_all_other:
  "mutate_all t ms w = Inr w' \<Longrightarrow> k \<noteq> t \<Longrightarrow> stored_session k w' = stored_session k w"
proof (induction ms arbitrary: w)
  case Nil
  then show ?case by simp
next
  case (Cons m ms)
  then show ?case
    by (auto split: sum.splits dest: mutate_other)
qed

lemma upt_plus_Suc: "[a ..< a + Suc n] = a # [Suc a ..< Suc a + n]"
  by (subst upt_rec) simp

lemma copy_messages_eq:
  "copy_messages ms w =
     (map (\<lambda>(m, k). m\<lparr>msg_id := uuids w k\<rparr>) (zip ms [uuid_count w ..< uuid_count w + length ms]),
      w\<lparr>uuid_count := uuid_count w + length ms\<rparr>)"
proof (induction ms arbitrary: w)
  case Nil
  then show ?case by simp
next
  case (Cons m ms)
  have "[uuid_count w ..< uuid_count w + length (m # ms)] =
        uuid_count w # [Suc (uuid_count w) ..< Suc (uuid_count w) + length ms]"
    using upt_plus_Suc [of "uuid_count w" "length ms"] by simp
  then show ?case
    by (simp only: copy_messages.simps Cons.IH generateId_def Let_def) simp
qed

lemma findIndex_less: "findIndex p xs = Some i \<Longrightarrow> i < length xs"
  by (induction xs arbitrary: i) (auto split: if_splits option.splits)

lemma zip_ids_erase:
  "length ms = length ks \<Longrightarrow>
   map (\<lambda>m. m\<lparr>msg_id := []\<rparr>) (map (\<lambda>(m, k). m\<lparr>msg_id := g k\<rparr>) (zip ms ks))
     = map (\<lambda>m. m\<lparr>msg_id := []\<rparr>) ms"
  by (induction ms ks rule: list_induct2) simp_all

lemma zip_ids_ids:
  "length ms = length ks \<Longrightarrow>
   map msg_id (map (\<lambda>(m, k). m\<lparr>msg_id := g k\<rparr>) (zip ms ks)) = map g ks"
  by (induction ms ks rule: list_induct2) simp_all

subsection \<open>C9: forking a chat\<close>

text \<open>
  Claim C9: for a stored session and a message id present at (first) index \<open>i\<close>, \<open>forkChat\<close>
  returns a new session with exactly \<open>i + 1\<close> messages, equal to the source's first
  \<open>i + 1\<close> messages in every field but the id, each bearing a freshly generated id (the
  generator's next outputs, after the one that became the session id; when the generator
  never hands out an id of a source message, none of the new ids is an id of the source),
  and stored under its own id. The fork shares no state with the source: while the fork's
  id differs from the source's, the stored source is what it was after the fork, and after
  any run of chat-manager mutations addressed to the fork. Forking with an absent message
  id fails with \<open>Message not found\<close>.
\<close>

theorem forkChat_copies_prefix:
  assumes db: "chat_sessions w = Some tbl" and row: "tbl sid = Some row"
  shows "(findIndex (\<lambda>m. msg_id m = mid) (messages row) = None \<longrightarrow>
            forkChat sid mid w = Inl (Error (js ''Message not found: '' @ mid))) \<and>
         (\<forall>i. findIndex (\<lambda>m. msg_id m = mid) (messages row) = Some i \<longrightarrow>
            (\<exists>f w'. forkChat sid mid w = Inr (f, w') \<and>
               length (messages f) = i + 1 \<and>
               map (\<lambda>m. m\<lparr>msg_id := []\<rparr>) (messages f) =
                 map (\<lambda>m. m\<lparr>msg_id := []\<rparr>) (take (i + 1) (messages row)) \<and>
               session_id f = uuids w (uuid_count w) \<and>
               map msg_id (messages f) = map (uuids w) [uuid_count w + 1 ..< uuid_count w + 1 + (i + 1)] \<and>
               ((\<forall>k. uuids w k \<notin> set (map msg_id (messages row))) \<longrightarrow>
                  set (map msg_id (messages f)) \<inter> set (map msg_id (messages row)) = {}) \<and>
               stored_session (session_id f) w' = Some f \<and>
               (session_id f \<noteq> sid \<longrightarrow>
                  stored_session sid w' = Some row \<and>
                  (\<forall>ms w1 w2. mutate_all (session_id f) ms w1 = Inr w2 \<longrightarrow>
                     stored_session sid w2 = stored_session sid w1))))"
proof -
  let ?s = "row\<lparr>session_id := sid, groupId := or_absent (groupId row)\<rparr>"
  have load: "load_session sid w = Inr (?s, w)"
    using db row by (simp add: load_session_def getChatSession_def getDb_def)
  have absent: "forkChat sid mid w = Inl (Error (js ''Message not found: '' @ mid))"
    if "findIndex (\<lambda>m. msg_id m = mid) (messages row) = None"
    using that load by (simp add: forkChat_def find_message_def)
  have present: "\<exists>f w'. forkChat sid mid w = Inr (f, w') \<and>
               length (messages f) = i + 1 \<and>
               map (\<lambda>m. m\<lparr>msg_id := []\<rparr>) (messages f) =
                 map (\<lambda>m. m\<lparr>msg_id := []\<rparr>) (take (i + 1) (messages row)) \<and>
               session_id f = uuids w (uuid_count w) \<and>
               map msg_id (messages f) = map (uuids w) [uuid_count w + 1 ..< uuid_count w + 1 + (i + 1)] \<and>
               ((\<forall>k. uuids w k \<notin> set (map msg_id (messages row))) \<longrightarrow>
                  set (map msg_id (messages f)) \<inter> set (map msg_id (messages row)) = {}) \<and>
               stored_session (session_id f) w' = Some f \<and>
               (session_id f \<noteq> sid \<longrightarrow>
                  stored_session sid w' = Some row \<and>
                  (\<forall>ms w1 w2. mutate_all (session_id f) ms w1 = Inr w2 \<longrightarrow>
                     stored_session sid w2 = stored_session sid w1))"
    if idx: "findIndex (\<lambda>m. msg_id m = mid) (messages row) = Some i" for i
  proof -
    from findIndex_less [OF idx] have len: "length (take (i + 1) (messages row)) = i + 1"
      by simp
    define ks where "ks = [uuid_count w + 1 ..< uuid_count w + 1 + (i + 1)]"
    have lks: "length (take (i + 1) (messages row)) = length ks"
      using len by (simp add: ks_def)
    define w3 where "w3 = w\<lparr>clock_count := clock_count w + 1, uuid_count := uuid_count w + 1\<rparr>"
    define copies where "copies = map (\<lambda>(m, k). m\<lparr>msg_id := uuids w k\<rparr>)
        (zip (take (i + 1) (messages row)) ks)"
    define f where "f = \<lparr>session_id = uuids w (uuid_count w), characterId = characterId row,
        groupId = or_absent (groupId row), messages = copies, metadata = metadata row,
        createdAt = clock w (clock_count w), updatedAt = clock w (clock_count w)\<rparr>"
    define w' where "w' = w\<lparr>clock_count := clock_count w + 1,
        uuid_count := uuid_count w + 1 + (i + 1),
        chat_sessions := Some (tbl(uuids w (uuid_count w) \<mapsto> f))\<rparr>"
    have "copy_messages (take (i + 1) (messages row)) w3 =
        (map (\<lambda>(m, k). m\<lparr>msg_id := uuids w3 k\<rparr>)
           (zip (take (i + 1) (messages row)) [uuid_count w3 ..< uuid_count w3 + (i + 1)]),
         w3\<lparr>uuid_count := uuid_count w3 + (i + 1)\<rparr>)"
      unfolding copy_messages_eq len ..
    then have cp: "copy_messages (take (i + 1) (messages row)) w3 =
        (copies, w3\<lparr>uuid_count := uuid_count w + 1 + (i + 1)\<rparr>)"
      by (simp add: w3_def copies_def ks_def)
    note cp' = cp [unfolded w3_def, simplified]
    have run: "forkChat sid mid w = Inr (f, w')"
      using idx load db
      by (simp add: forkChat_def find_message_def getCurrentTimestamp_def generateId_def
          Let_def cp' saveChatSession_def getDb_def f_def w'_def or_absent_idem)
    have "length (messages f) = i + 1"
      using lks len by (simp add: f_def copies_def)
    moreover have "map (\<lambda>m. m\<lparr>msg_id := []\<rparr>) (messages f) =
                 map (\<lambda>m. m\<lparr>msg_id := []\<rparr>) (take (i + 1) (messages row))"
      using zip_ids_erase [OF lks] by (simp add: f_def copies_def)
    moreover have ids: "map msg_id (messages f) =
        map (uuids w) [uuid_count w + 1 ..< uuid_count w + 1 + (i + 1)]"
      using zip_ids_ids [OF lks] by (simp add: f_def copies_def ks_def)
    moreover have "set (map msg_id (messages f)) \<inter> set (map msg_id (messages row)) = {}"
      if "\<forall>k. uuids w k \<notin> set (map msg_id (messages row))"
      unfolding ids using that by auto
    moreover have "session_id f = uuids w (uuid_count w)"
      by (simp add: f_def)
    moreover have "stored_session (session_id f) w' = Some f"
      by (simp add: stored_session_def w'_def f_def)
    moreover have "stored_session sid w' = Some row" if "session_id f \<noteq> sid"
      using that row by (simp add: stored_session_def w'_def f_def)
    moreover have "stored_session sid w2 = stored_session sid w1"
      if "session_id f \<noteq> sid" "mutate_all (session_id f) ms w1 = Inr w2" for ms w1 w2
      using mutate_all_other [OF that(2), of sid] that(1) by simp
    ultimately show ?thesis using run by blast
  qed
  from absent present show ?thesis by blast
qed

theorem forkChat_copies_prefix_witness:
  "chat_sessions world_ex = Some [js ''s1'' \<mapsto> session_ex] \<and>
   [js ''s1'' \<mapsto> session_ex] (js ''s1'') = Some session_ex \<and>
   findIndex (\<lambda>m. msg_id m = js ''m2'') (messages session_ex) = Some 1 \<and>
   (\<exists>f w'. forkChat (js ''s1'') (js ''m2'') world_ex = Inr (f, w') \<and>
      length (messages f) = 2 \<and>
      map (\<lambda>m. m\<lparr>msg_id := []\<rparr>) (messages f) =
        map (\<lambda>m. m\<lparr>msg_id := []\<rparr>) (messages session_ex) \<and>
      session_id f = js ''u'' \<and>
      map msg_id (messages f) = [js ''uu'', js ''uuu''] \<and>
      stored_session (js ''s1'') w' = Some session_ex) \<and>
   findIndex (\<lambda>m. msg_id m = js ''zz'') (messages session_ex) = None \<and>
   forkChat (js ''s1'') (js ''zz'') world_ex = Inl (Error (js ''Message not found: zz''))"
proof -
  have db: "chat_sessions world_ex = Some [js ''s1'' \<mapsto> session_ex]"
    by (simp add: world_ex_def)
  have row: "[js ''s1'' \<mapsto> session_ex] (js ''s1'') = Some session_ex"
    by simp
  have idx: "findIndex (\<lambda>m. msg_id m = js ''m2'') (messages session_ex) = Some 1"
    by (simp add: session_ex_def mk_msg_def js_eq_iff)
  have none: "findIndex (\<lambda>m. msg_id m = js ''zz'') (messages session_ex) = None"
    by (simp add: session_ex_def mk_msg_def js_eq_iff)
  have gen: "uuids world_ex k = replicate (k + 1) 0x75" "uuid_count world_ex = 0" for k
    by (simp_all add: world_ex_def)
  have new_id: "js ''u'' \<noteq> js ''s1''"
    by (simp add: js_eq_iff)
  have two: "take (1 + 1) (messages session_ex) = messages session_ex"
    by (simp add: session_ex_def)
  have upt: "[0 + 1 ..< 0 + 1 + (1 + 1)] = [1::nat, 2]"
    by (simp add: upt_rec)
  from forkChat_copies_prefix [OF db row, of "js ''m2''"] idx
  obtain f w' where f: "forkChat (js ''s1'') (js ''m2'') world_ex = Inr (f, w')"
      "length (messages f) = 1 + 1"
      "map (\<lambda>m. m\<lparr>msg_id := []\<rparr>) (messages f) =
         map (\<lambda>m. m\<lparr>msg_id := []\<rparr>) (take (1 + 1) (messages session_ex))"
      "session_id f = uuids world_ex (uuid_count world_ex)"
      "map msg_id (messages f) =
         map (uuids world_ex) [uuid_count world_ex + 1 ..< uuid_count world_ex + 1 + (1 + 1)]"
      "session_id f \<noteq> js ''s1'' \<longrightarrow> stored_session (js ''s1'') w' = Some session_ex"
    by blast
  from f(4) have sid: "session_id f = js ''u''"
    by (simp add: gen js_def)
  from f(5) have ids: "map msg_id (messages f) = [js ''uu'', js ''uuu'']"
    unfolding gen upt by (simp add: js_def numeral_2_eq_2 numeral_3_eq_3)
  from f(6) sid new_id have kept: "stored_session (js ''s1'') w' = Some session_ex"
    by simp
  from forkChat_copies_prefix [OF db row, of "js ''zz''"] none
  have "forkChat (js ''s1'') (js ''zz'') world_ex = Inl (Error (js ''Message not found: '' @ js ''zz''))"
    by blast
  then have nf: "forkChat (js ''s1'') (js ''zz'') world_ex = Inl (Error (js ''Message not found: zz''))"
    by (simp add: js_def)
  from f(1) f(2) f(3) sid ids kept two have
    "\<exists>f w'. forkChat (js ''s1'') (js ''m2'') world_ex = Inr (f, w') \<and>
      length (messages f) = 2 \<and>
      map (\<lambda>m. m\<lparr>msg_id := []\<rparr>) (messages f) =
        map (\<lambda>m. m\<lparr>msg_id := []\<rparr>) (messages session_ex) \<and>
      session_id f = js ''u'' \<and>
      map msg_id (messages f) = [js ''uu'', js ''uuu''] \<and>
      stored_session (js ''s1'') w' = Some session_ex"
    by auto
  with db row idx none nf show ?thesis by blast
qed

section \<open>Properties of the JSON functions\<close>

subsection \<open>White space\<close>

lemma skip_ws_append_ws: "list_all is_json_ws pre \<Longrightarrow> skip_ws (pre @ s) = skip_ws s"
  by (induction pre) (simp_all add: skip_ws_def)

lemma skip_ws_token: "\<not> is_json_ws c \<Longrightarrow> skip_ws (c # s) = c # s"
  by (simp add: skip_ws_def)

lemma newline_indent_ws: "list_all is_json_ws (newline_indent p i)"
  by (auto simp: newline_indent_def is_json_ws_def list_all_iff)

subsection \<open>Numbers\<close>

lemma digit_char_all:
  "\<forall>d\<in>{0..<10}. is_digit (digit_char d) \<and> unat (digit_char d) = 48 + d \<and>
      (d \<noteq> 0 \<longrightarrow> digit_char d \<noteq> 0x30)"
  by code_simp

lemma is_digit_digit_char: "d < 10 \<Longrightarrow> is_digit (digit_char d)"
  using digit_char_all by simp

lemma unat_digit_char: "d < 10 \<Longrightarrow> unat (digit_char d) = 48 + d"
  using digit_char_all by simp

lemma digit_char_nonzero: "d < 10 \<Longrightarrow> 0 < d \<Longrightarrow> digit_char d \<noteq> 0x30"
  using digit_char_all by simp

lemma decimal_nat_digits: "list_all is_digit (decimal_nat n)"
proof (induction n rule: decimal_nat.induct)
  case (1 n)
  show ?case
  proof (cases "n < 10")
    case True
    then show ?thesis by (simp add: decimal_nat.simps [of n] is_digit_digit_char)
  next
    case False
    with 1 show ?thesis
      by (simp add: decimal_nat.simps [of n] is_digit_digit_char)
  qed
qed

lemma decimal_nat_nonempty: "decimal_nat n \<noteq> []"
  by (subst decimal_nat.simps) simp

lemma digits_value_snoc: "digits_value (ds @ [c]) = 10 * digits_value ds + (unat c - 48)"
  by (simp add: digits_value_def)

lemma digits_value_decimal_nat: "digits_value (decimal_nat n) = n"
proof (induction n rule: decimal_nat.induct)
  case (1 n)
  show ?case
  proof (cases "n < 10")
    case True
    then show ?thesis
      by (simp add: decimal_nat.simps [of n] digits_value_def unat_digit_char)
  next
    case False
    with 1 have "digits_value (decimal_nat (n div 10)) = n div 10" by simp
    with False show ?thesis
      by (simp add: decimal_nat.simps [of n] digits_value_snoc unat_digit_char)
  qed
qed

lemma decimal_nat_no_leading_zero:
  "length (decimal_nat n) > 1 \<Longrightarrow> hd (decimal_nat n) \<noteq> 0x30"
proof (induction n rule: decimal_nat.induct)
  case (1 n)
  show ?case
  proof (cases "n < 10")
    case True
    with "1.prems" show ?thesis by (simp add: decimal_nat.simps [of n])
  next
    case False
    show ?thesis
    proof (cases "n div 10 < 10")
      case True
      with False have "0 < n div 10" by simp
      with True have "digit_char (n div 10) \<noteq> 0x30"
        by (simp add: digit_char_nonzero)
      with True False show ?thesis
        by (simp add: decimal_nat.simps [of n] decimal_nat.simps [of "n div 10"])
    next
      case F2: False
      then have "length (decimal_nat (n div 10)) > 1"
        by (subst decimal_nat.simps) (simp add: decimal_nat_nonempty Suc_le_eq)
      with "1.IH" False have "hd (decimal_nat (n div 10)) \<noteq> 0x30" by simp
      with False show ?thesis
        by (simp add: decimal_nat.simps [of n] decimal_nat_nonempty)
    qed
  qed
qed

lemma takeWhile_digits:
  "list_all is_digit ds \<Longrightarrow> number_end rest \<Longrightarrow>
     takeWhile is_digit (ds @ rest) = ds \<and> dropWhile is_digit (ds @ rest) = rest"
  by (induction ds) (auto simp: number_end_def takeWhile_eq_Nil_iff dropWhile_eq_self_iff
      intro: takeWhile_eq_Nil_iff [THEN iffD2])

lemma not_digit_minus: "\<not> is_digit 0x2D"
  by (simp add: is_digit_def)

lemma parse_number_decimal_int:
  assumes "number_end rest"
  shows "parse_number (decimal_int n @ rest) = Some (JNumber n, rest)"
proof -
  let ?ds = "decimal_nat (nat \<bar>n\<bar>)"
  have tw: "takeWhile is_digit (?ds @ rest) = ?ds" "dropWhile is_digit (?ds @ rest) = rest"
    using takeWhile_digits [OF decimal_nat_digits assms] by simp_all
  have lead: "\<not> (length ?ds > 1 \<and> hd ?ds = 0x30)"
    using decimal_nat_no_leading_zero by blast
  have hd_digit: "hd (?ds @ rest) \<noteq> 0x2D"
    using decimal_nat_digits [of "nat \<bar>n\<bar>"] decimal_nat_nonempty [of "nat \<bar>n\<bar>"] not_digit_minus
    by (cases ?ds) auto
  have stop: "\<not> (rest \<noteq> [] \<and> hd rest \<in> {0x2E, 0x65, 0x45})"
    using assms by (auto simp: number_end_def)
  show ?thesis
  proof (cases "n < 0")
    case True
    then have "decimal_int n @ rest = 0x2D # ?ds @ rest"
      by (simp add: decimal_int_def abs_if)
    with True tw lead stop show ?thesis
      by (simp add: parse_number_def Let_def decimal_nat_nonempty digits_value_decimal_nat)
  next
    case False
    then have "decimal_int n @ rest = ?ds @ rest"
      by (simp add: decimal_int_def abs_if)
    with False tw lead stop hd_digit show ?thesis
      by (simp add: parse_number_def Let_def decimal_nat_nonempty digits_value_decimal_nat)
  qed
qed

subsection \<open>Strings\<close>

lemma hex_char_all: "\<forall>d\<in>{0..<16}. hex_value (hex_char d) = Some d"
  by code_simp

lemma hex_value_hex_char: "d < 16 \<Longrightarrow> hex_value (hex_char d) = Some d"
  using hex_char_all by simp

lemma nibbles: "(n::nat) < 65536 \<Longrightarrow>
   n div 4096 * 4096 + n div 256 mod 16 * 256 + n div 16 mod 16 * 16 + n mod 16 = n"
proof -
  have a: "n div 256 mod 16 = n mod 4096 div 256"
    using mod_mult2_eq [of n 256 16] by simp
  have b: "n div 16 mod 16 = n mod 256 div 16"
    using mod_mult2_eq [of n 16 16] by simp
  have c: "n mod 4096 = n mod 4096 div 256 * 256 + n mod 256"
    using div_mult_mod_eq [of "n mod 4096" 256] mod_mod_cancel [of 256 4096 n] by simp
  have d: "n mod 256 = n mod 256 div 16 * 16 + n mod 16"
    using div_mult_mod_eq [of "n mod 256" 16] mod_mod_cancel [of 16 256 n] by simp
  have e: "n = n div 4096 * 4096 + n mod 4096"
    by simp
  show ?thesis unfolding a b using c d e by linarith
qed

lemma hex4_unicode_escape:
  "hex4 (hex_char (unat c div 4096)) (hex_char (unat c div 256 mod 16))
        (hex_char (unat c div 16 mod 16)) (hex_char (unat c mod 16)) = Some (c :: 16 word)"
proof -
  have lt: "unat c < 65536" using unsigned_less [of c] by simp
  then have "unat c div 4096 < 16" by simp
  with nibbles [OF lt] show ?thesis
    by (simp add: hex4_def hex_value_hex_char)
qed

lemma parse_unicode_escape:
  "parse_string_chars (unicode_escape c @ s) =
     (case parse_string_chars s of None \<Rightarrow> None | Some (str, r) \<Rightarrow> Some (c # str, r))"
  by (simp add: unicode_escape_def hex4_unicode_escape)

lemma parse_quote_unit:
  "parse_string_chars (quote_unit c @ s) =
     (case parse_string_chars s of None \<Rightarrow> None | Some (str, r) \<Rightarrow> Some (c # str, r))"
proof -
  have plain: "parse_string_chars (c # s) =
      (case parse_string_chars s of None \<Rightarrow> None | Some (str, r) \<Rightarrow> Some (c # str, r))"
    if "c \<noteq> 0x22" "c \<noteq> 0x5C" "\<not> c < 0x20"
    using that by simp
  have short: "parse_string_chars (0x5C # e # s) =
      (case parse_string_chars s of None \<Rightarrow> None | Some (str, r) \<Rightarrow> Some (u # str, r))"
    if "unescape e = Some u" "e \<noteq> 0x75" for e u
    using that by simp
  consider "c = 0x08" | "c = 0x09" | "c = 0x0A" | "c = 0x0C" | "c = 0x0D" | "c = 0x22"
    | "c = 0x5C"
    | "c \<notin> {0x08, 0x09, 0x0A, 0x0C, 0x0D, 0x22, 0x5C}"
        "c < 0x20 \<or> is_high_surrogate c \<or> is_low_surrogate c"
    | "c \<notin> {0x08, 0x09, 0x0A, 0x0C, 0x0D, 0x22, 0x5C}"
        "\<not> (c < 0x20 \<or> is_high_surrogate c \<or> is_low_surrogate c)"
    by blast
  then show ?thesis
  proof cases
    case 1 show ?thesis unfolding 1 by (simp add: quote_unit_def short unescape_def)
  next
    case 2 show ?thesis unfolding 2 by (simp add: quote_unit_def short unescape_def)
  next
    case 3 show ?thesis unfolding 3 by (simp add: quote_unit_def short unescape_def)
  next
    case 4 show ?thesis unfolding 4 by (simp add: quote_unit_def short unescape_def)
  next
    case 5 show ?thesis unfolding 5 by (simp add: quote_unit_def short unescape_def)
  next
    case 6 show ?thesis unfolding 6 by (simp add: quote_unit_def short unescape_def)
  next
    case 7 show ?thesis unfolding 7 by (simp add: quote_unit_def short unescape_def)
  next
    case 8
    then have "quote_unit c = unicode_escape c" by (simp add: quote_unit_def)
    then show ?thesis by (simp only: parse_unicode_escape)
  next
    case 9
    then have "quote_unit c = [c]" by (simp add: quote_unit_def)
    with 9 plain show ?thesis by simp
  qed
qed

lemma parse_quote_chars:
  "parse_string_chars (quote_chars s @ 0x22 # rest) = Some (s, rest)"
proof (induction s rule: quote_chars.induct)
  case 1
  then show ?case by simp
next
  case (2 c)
  then show ?case by (simp add: parse_quote_unit)
next
  case (3 c d cs)
  show ?case
  proof (cases "is_high_surrogate c \<and> is_low_surrogate d")
    case True
    then have "c \<noteq> 0x22" "c \<noteq> 0x5C" "\<not> c < 0x20" "d \<noteq> 0x22" "d \<noteq> 0x5C" "\<not> d < 0x20"
      by (auto simp: is_high_surrogate_def is_low_surrogate_def word_le_nat_alt
          word_less_nat_alt)
    with True 3 show ?thesis by simp
  next
    case False
    then have q: "quote_chars (c # d # cs) @ 0x22 # rest =
        quote_unit c @ (quote_chars (d # cs) @ 0x22 # rest)"
      by auto
    from False 3 have "parse_string_chars (quote_chars (d # cs) @ 0x22 # rest) = Some (d # cs, rest)"
      by blast
    then show ?thesis
      unfolding q parse_quote_unit by simp
  qed
qed

subsection \<open>Joining and object construction\<close>

lemma join_Cons: "join sep (x # xs) = x @ concat (map (\<lambda>y. sep @ y) xs)"
  by (induction xs arbitrary: x) simp_all

lemma length_join_Cons:
  "length (join sep (x # xs)) = length x + sum_list (map length xs) + length xs * length sep"
  by (induction xs arbitrary: x) simp_all

lemma set_property_fresh: "k \<notin> fst ` set kvs \<Longrightarrow> set_property k v kvs = kvs @ [(k, v)]"
  by (induction kvs) auto

lemma foldl_set_property_distinct:
  "distinct (map fst (acc @ kvs)) \<Longrightarrow>
     foldl (\<lambda>acc kv. set_property (fst kv) (snd kv) acc) acc kvs = acc @ kvs"
proof (induction kvs arbitrary: acc)
  case Nil
  then show ?case by simp
next
  case (Cons kv kvs)
  from Cons.prems have "fst kv \<notin> fst ` set acc" by auto
  then have "set_property (fst kv) (snd kv) acc = acc @ [kv]"
    by (simp add: set_property_fresh)
  moreover from Cons.prems have "distinct (map fst ((acc @ [kv]) @ kvs))" by simp
  ultimately show ?case using Cons.IH [of "acc @ [kv]"] by simp
qed

lemma make_object_distinct:
  "distinct (map fst kvs) \<Longrightarrow> own_property_order kvs = kvs \<Longrightarrow> make_object kvs = JObject kvs"
  using foldl_set_property_distinct [of "[]" kvs] by (simp add: make_object_def)

subsection \<open>The first character of a serialised value\<close>

lemma is_digit_token_start: "is_digit c \<Longrightarrow> token_start c"
  by (auto simp: is_digit_def token_start_def is_json_ws_def)

lemma decimal_int_first: "\<exists>c cs. decimal_int n = c # cs \<and> (is_digit c \<or> c = 0x2D)"
proof -
  obtain d ds where d: "decimal_nat (nat \<bar>n\<bar>) = d # ds"
    using decimal_nat_nonempty by (cases "decimal_nat (nat \<bar>n\<bar>)") auto
  with decimal_nat_digits [of "nat \<bar>n\<bar>"] have "is_digit d" by simp
  then show ?thesis using d by (auto simp: decimal_int_def abs_if)
qed

lemma decimal_int_start: "\<exists>c cs. decimal_int n = c # cs \<and> token_start c"
proof -
  have "token_start 0x2D" by (simp add: token_start_def is_json_ws_def)
  then show ?thesis using decimal_int_first [of n] is_digit_token_start by auto
qed

lemma stringify_at_start: "\<exists>c cs. stringify_at p i v = c # cs \<and> token_start c"
proof (cases v)
  case (JNumber n)
  then show ?thesis using decimal_int_start by simp
qed (auto simp: js_def quote_json_def token_start_def is_json_ws_def)

lemma number_end_sep:
  "list_all is_json_ws W \<Longrightarrow> c \<in> {0x5D, 0x7D, 0x2C} \<Longrightarrow> number_end (W @ c # r)"
  by (cases W) (auto simp: number_end_def is_digit_def is_json_ws_def)

subsection \<open>Arrays and objects\<close>

lemma not_ws_tokens:
  "\<not> is_json_ws 0x5B" "\<not> is_json_ws 0x5D" "\<not> is_json_ws 0x7B" "\<not> is_json_ws 0x7D"
  "\<not> is_json_ws 0x2C" "\<not> is_json_ws 0x22" "\<not> is_json_ws 0x3A"
  by (simp_all add: is_json_ws_def)

lemma skip_ws_pre_token:
  "list_all is_json_ws pre \<Longrightarrow> \<not> is_json_ws c \<Longrightarrow> skip_ws (pre @ c # s) = c # s"
  by (simp add: skip_ws_append_ws skip_ws_token)

lemma number_end_tail:
  assumes "list_all is_json_ws W'" and "c \<in> {0x5D, 0x7D}"
  shows "number_end (concat (map (\<lambda>y. (0x2C # W) @ f y) vs) @ W' @ c # rest)"
proof (cases vs)
  case Nil
  with assms show ?thesis using number_end_sep [of W' c rest] by auto
next
  case (Cons v vs')
  then show ?thesis using number_end_sep [of "[]" "0x2C"] by simp
qed

lemma parse_elements_tail:
  assumes IH: "\<And>v n pre rest. v \<in> set vs \<Longrightarrow> wf_json v \<Longrightarrow> size v < n \<Longrightarrow>
      list_all is_json_ws pre \<Longrightarrow> number_end rest \<Longrightarrow>
      parse_value n (pre @ stringify_at p ind v @ rest) = Some (v, rest)"
    and "list_all wf_json vs" and "size_list size vs < n"
    and W: "list_all is_json_ws W" and W': "list_all is_json_ws W'"
  shows "parse_elements n
           (concat (map (\<lambda>y. (0x2C # W) @ stringify_at p ind y) vs) @ W' @ 0x5D # rest)
         = Some (vs, rest)"
  using assms(1-3)
proof (induction vs arbitrary: n)
  case Nil
  then obtain m where n: "n = Suc m" by (cases n) auto
  show ?case
    unfolding n by (simp add: skip_ws_pre_token [OF W'] not_ws_tokens)
next
  case (Cons v vs)
  from Cons.prems(3) obtain m where n: "n = Suc m" by (cases n) auto
  with Cons.prems(3) have m: "size v < m" "size_list size vs < m" by simp_all
  let ?tail = "concat (map (\<lambda>y. (0x2C # W) @ stringify_at p ind y) vs) @ W' @ 0x5D # rest"
  have ne: "number_end ?tail"
    by (rule number_end_tail [OF W']) simp
  have v: "parse_value m (W @ stringify_at p ind v @ ?tail) = Some (v, ?tail)"
    using Cons.prems(1) [of v m W ?tail] Cons.prems(2) m(1) W ne by simp
  have rest: "parse_elements m ?tail = Some (vs, rest)"
    using Cons.IH [of m] Cons.prems(1) Cons.prems(2) m(2) by simp
  have "concat (map (\<lambda>y. (0x2C # W) @ stringify_at p ind y) (v # vs)) @ W' @ 0x5D # rest
        = 0x2C # (W @ stringify_at p ind v @ ?tail)"
    by simp
  with v rest show ?case
    unfolding n by (simp add: skip_ws_token not_ws_tokens)
qed

lemma parse_member_one:
  assumes IH: "\<And>n pre rest. wf_json v \<Longrightarrow> size v < n \<Longrightarrow>
      list_all is_json_ws pre \<Longrightarrow> number_end rest \<Longrightarrow>
      parse_value n (pre @ stringify_at p ind v @ rest) = Some (v, rest)"
    and "wf_json v" and "Suc (size v) < n"
    and W: "list_all is_json_ws W" and sp: "list_all is_json_ws sp" and ne: "number_end rest"
  shows "parse_member n (W @ quote_json k @ [0x3A] @ sp @ stringify_at p ind v @ rest)
         = Some ((k, v), rest)"
proof -
  from assms(3) obtain m where n: "n = Suc m" by (cases n) auto
  with assms(3) have m: "size v < m" by simp
  have v: "parse_value m (sp @ stringify_at p ind v @ rest) = Some (v, rest)"
    using IH [of m sp rest] assms(2) m sp ne by simp
  have "W @ quote_json k @ [0x3A] @ sp @ stringify_at p ind v @ rest =
        W @ 0x22 # (quote_chars k @ 0x22 # (0x3A # sp @ stringify_at p ind v @ rest))"
    by (simp add: quote_json_def)
  with v show ?thesis
    unfolding n
    by (simp add: skip_ws_pre_token [OF W] not_ws_tokens parse_quote_chars skip_ws_token)
qed

lemma parse_members_tail:
  assumes IH: "\<And>kv n pre rest. kv \<in> set kvs \<Longrightarrow> wf_json (snd kv) \<Longrightarrow> size (snd kv) < n \<Longrightarrow>
      list_all is_json_ws pre \<Longrightarrow> number_end rest \<Longrightarrow>
      parse_value n (pre @ stringify_at p ind (snd kv) @ rest) = Some (snd kv, rest)"
    and "list_all (\<lambda>kv. wf_json (snd kv)) kvs"
    and "size_list (\<lambda>kv. Suc (size (snd kv))) kvs < n"
    and W: "list_all is_json_ws W" and W': "list_all is_json_ws W'"
    and sp: "list_all is_json_ws sp"
  shows "parse_members n
           (concat (map (\<lambda>kv. (0x2C # W) @ quote_json (fst kv) @ [0x3A] @ sp @
                                stringify_at p ind (snd kv)) kvs) @ W' @ 0x7D # rest)
         = Some (kvs, rest)"
  using assms(1-3)
proof (induction kvs arbitrary: n)
  case Nil
  then obtain m where n: "n = Suc m" by (cases n) auto
  show ?case
    unfolding n by (simp add: skip_ws_pre_token [OF W'] not_ws_tokens)
next
  case (Cons kv kvs)
  from Cons.prems(3) obtain m where n: "n = Suc m" by (cases n) auto
  with Cons.prems(3) have m: "Suc (size (snd kv)) < m"
      "size_list (\<lambda>kv. Suc (size (snd kv))) kvs < m" by simp_all
  let ?f = "\<lambda>kv. quote_json (fst kv) @ [0x3A] @ sp @ stringify_at p ind (snd kv)"
  let ?tail = "concat (map (\<lambda>kv. (0x2C # W) @ ?f kv) kvs) @ W' @ 0x7D # rest"
  have ne: "number_end ?tail"
    by (rule number_end_tail [OF W']) simp
  have one: "parse_member m (W @ quote_json (fst kv) @ [0x3A] @ sp @
               stringify_at p ind (snd kv) @ ?tail) = Some ((fst kv, snd kv), ?tail)"
  proof (rule parse_member_one [OF _ _ m(1) W sp ne])
    show "wf_json (snd kv)" using Cons.prems(2) by simp
    show "parse_value n (pre @ stringify_at p ind (snd kv) @ rest) = Some (snd kv, rest)"
      if "wf_json (snd kv)" "size (snd kv) < n" "list_all is_json_ws pre" "number_end rest"
      for n pre rest
      using Cons.prems(1) [of kv n pre rest] that by simp
  qed
  have rest: "parse_members m ?tail = Some (kvs, rest)"
    using Cons.IH [of m] Cons.prems(1) Cons.prems(2) m(2) by simp
  have "concat (map (\<lambda>kv. (0x2C # W) @ ?f kv) (kv # kvs)) @ W' @ 0x7D # rest
        = 0x2C # (W @ quote_json (fst kv) @ [0x3A] @ sp @ stringify_at p ind (snd kv) @ ?tail)"
    by simp
  with one rest show ?case
    unfolding n by (simp add: skip_ws_token not_ws_tokens)
qed

lemma size_list_snd:
  "size_list (\<lambda>kv. Suc (size (snd kv))) kvs \<le> size_list (size_prod (\<lambda>_. 0) size) kvs"
  by (induction kvs) (auto simp: size_prod_simp)

lemma token_start_not_ws: "token_start c \<Longrightarrow> \<not> is_json_ws c"
  by (simp add: token_start_def)

lemma parse_value_skip:
  assumes "list_all is_json_ws pre"
  shows "parse_value n (pre @ stringify_at p ind v @ rest) = parse_value n (stringify_at p ind v @ rest)"
proof (cases n)
  case 0
  then show ?thesis by simp
next
  case (Suc m)
  obtain c cs where c: "stringify_at p ind v = c # cs" "token_start c"
    using stringify_at_start by blast
  then have "skip_ws (pre @ c # cs @ rest) = skip_ws (c # cs @ rest)"
    using assms by (simp add: skip_ws_append_ws)
  then show ?thesis unfolding Suc c by simp
qed

lemma parse_value_literal:
  "parse_value (Suc m) (js ''null'' @ rest) = Some (JNull, rest)"
  "parse_value (Suc m) (js ''true'' @ rest) = Some (JBool True, rest)"
  "parse_value (Suc m) (js ''false'' @ rest) = Some (JBool False, rest)"
  by (simp_all add: js_def skip_ws_def is_json_ws_def)

lemma parse_value_string:
  "parse_value (Suc m) (quote_json s @ rest) = Some (JString s, rest)"
  by (simp add: quote_json_def skip_ws_token not_ws_tokens parse_quote_chars)

lemma parse_value_number:
  assumes "number_end rest"
  shows "parse_value (Suc m) (decimal_int i @ rest) = Some (JNumber i, rest)"
proof -
  obtain c cs where c: "decimal_int i = c # cs" "is_digit c \<or> c = 0x2D"
    using decimal_int_first by blast
  from c(2) have ws: "skip_ws (c # cs @ rest) = c # cs @ rest"
    by (auto simp: skip_ws_def is_json_ws_def is_digit_def)
  from c(2) have ne: "c \<noteq> 0x7B" "c \<noteq> 0x5B" "c \<noteq> 0x22" "c \<noteq> 0x6E" "c \<noteq> 0x74" "c \<noteq> 0x66"
    by (auto simp: is_digit_def)
  have "parse_value (Suc m) (c # cs @ rest) = parse_number (c # cs @ rest)"
    using ne by (simp add: ws js_def)
  then show ?thesis
    using parse_number_decimal_int [OF assms, of i] by (simp add: c(1))
qed

lemma parse_value_array:
  assumes "skip_ws cs = d # ds" and "d \<noteq> 0x5D"
    and "parse_value m cs = Some (v, r1)" and "parse_elements m r1 = Some (vs, r2)"
  shows "parse_value (Suc m) (0x5B # cs) = Some (JArray (v # vs), r2)"
  using assms by (simp add: skip_ws_token not_ws_tokens)

lemma parse_value_object:
  assumes "skip_ws cs = d # ds" and "d \<noteq> 0x7D"
    and "parse_member m cs = Some (kv, r1)" and "parse_members m r1 = Some (kvs, r2)"
  shows "parse_value (Suc m) (0x7B # cs) = Some (make_object (kv # kvs), r2)"
  using assms by (simp add: skip_ws_token not_ws_tokens)

lemma parse_value_empty:
  "parse_value (Suc m) (js ''[]'' @ rest) = Some (JArray [], rest)"
  "parse_value (Suc m) (js ''{}'' @ rest) = Some (JObject [], rest)"
  by (simp_all add: js_def skip_ws_token not_ws_tokens)

declare parse_value.simps [simp del]

lemma parse_value_stringify:
  "wf_json v \<Longrightarrow> size v < n \<Longrightarrow> list_all is_json_ws pre \<Longrightarrow> number_end rest \<Longrightarrow>
     parse_value n (pre @ stringify_at p ind v @ rest) = Some (v, rest)"
proof (induction v arbitrary: n pre rest ind)
  case JNull
  then obtain m where n: "n = Suc m" by (cases n) auto
  show ?case unfolding n parse_value_skip [OF JNull.prems(3)]
    by (simp add: parse_value_literal)
next
  case (JBool b)
  then obtain m where n: "n = Suc m" by (cases n) auto
  show ?case unfolding n parse_value_skip [OF JBool.prems(3)]
    by (simp add: parse_value_literal)
next
  case (JNumber i)
  then obtain m where n: "n = Suc m" by (cases n) auto
  show ?case unfolding n parse_value_skip [OF JNumber.prems(3)]
    using JNumber.prems(4) by (simp add: parse_value_number)
next
  case (JString s)
  then obtain m where n: "n = Suc m" by (cases n) auto
  show ?case unfolding n parse_value_skip [OF JString.prems(3)]
    by (simp add: parse_value_string)
next
  case (JArray vs)
  from JArray.prems(2) obtain m where n: "n = Suc m" by (cases n) auto
  show ?case
  proof (cases vs)
    case Nil
    show ?thesis unfolding n parse_value_skip [OF JArray.prems(3)] Nil
      by (simp add: parse_value_empty)
  next
    case (Cons v1 vs')
    let ?W = "newline_indent p (ind + 2)"
    let ?W' = "newline_indent p ind"
    let ?tail = "concat (map (\<lambda>y. (0x2C # ?W) @ stringify_at p (ind + 2) y) vs') @ ?W' @ 0x5D # rest"
    from JArray.prems(2) have m: "size v1 < m" "size_list size vs' < m"
      unfolding n Cons by simp_all
    from JArray.prems(1) have wf: "wf_json v1" "list_all wf_json vs'"
      unfolding Cons by simp_all
    have shape: "stringify_at p ind (JArray vs) @ rest
                = 0x5B # (?W @ stringify_at p (ind + 2) v1 @ ?tail)"
      unfolding Cons by (simp add: join_Cons comp_def)
    obtain c cs where c: "stringify_at p (ind + 2) v1 = c # cs" "token_start c"
      using stringify_at_start by blast
    have first: "skip_ws (?W @ stringify_at p (ind + 2) v1 @ ?tail) = c # (cs @ ?tail)"
      using c by (simp add: skip_ws_pre_token newline_indent_ws token_start_not_ws)
    have ne: "number_end ?tail"
      by (rule number_end_tail [OF newline_indent_ws]) simp
    have v1: "parse_value m (?W @ stringify_at p (ind + 2) v1 @ ?tail) = Some (v1, ?tail)"
      using JArray.IH [of v1 m ?W ?tail "ind + 2"] wf(1) m(1) ne
      by (simp add: Cons newline_indent_ws)
    have els: "parse_elements m ?tail = Some (vs', rest)"
    proof (rule parse_elements_tail [OF _ wf(2) m(2) newline_indent_ws newline_indent_ws])
      show "parse_value n (pre @ stringify_at p (ind + 2) v @ rest) = Some (v, rest)"
        if "v \<in> set vs'" "wf_json v" "size v < n" "list_all is_json_ws pre" "number_end rest"
        for v n pre rest
        using JArray.IH [of v n pre rest "ind + 2"] that by (simp add: Cons)
    qed
    from c(2) have "c \<noteq> 0x5D" by (auto simp: token_start_def)
    from parse_value_array [OF first this v1 els]
    have "parse_value (Suc m) (stringify_at p ind (JArray vs) @ rest) = Some (JArray vs, rest)"
      unfolding shape by (simp add: Cons)
    then show ?thesis
      unfolding n by (simp only: parse_value_skip [OF JArray.prems(3)])
  qed
next
  case (JObject kvs)
  from JObject.prems(2) obtain m where n: "n = Suc m" by (cases n) auto
  show ?case
  proof (cases kvs)
    case Nil
    show ?thesis unfolding n parse_value_skip [OF JObject.prems(3)] Nil
      by (simp add: parse_value_empty)
  next
    case (Cons kv1 kvs')
    let ?W = "newline_indent p (ind + 2)"
    let ?W' = "newline_indent p ind"
    let ?sp = "if p then [0x20] else []"
    let ?tail = "concat (map (\<lambda>kv. (0x2C # ?W) @ quote_json (fst kv) @ [0x3A] @ ?sp @
                                stringify_at p (ind + 2) (snd kv)) kvs') @ ?W' @ 0x7D # rest"
    have sp: "list_all is_json_ws ?sp" by (simp add: is_json_ws_def)
    from JObject.prems(2) have m: "Suc (size (snd kv1)) < m"
        "size_list (\<lambda>kv. Suc (size (snd kv))) kvs' < m"
      unfolding n Cons using size_list_snd [of kvs'] by (auto simp: size_prod_simp)
    from JObject.prems(1) have wf: "wf_json (snd kv1)" "list_all (\<lambda>kv. wf_json (snd kv)) kvs'"
        and dist: "distinct (map fst kvs)" "own_property_order kvs = kvs"
      unfolding Cons by simp_all
    have IH: "parse_value n (pre @ stringify_at p (ind + 2) (snd kv) @ rest) = Some (snd kv, rest)"
      if "kv \<in> set kvs" "wf_json (snd kv)" "size (snd kv) < n" "list_all is_json_ws pre"
        "number_end rest" for kv n pre rest
      using JObject.IH [of kv "snd kv" n pre rest "ind + 2"] that by (cases kv) simp
    have shape: "stringify_at p ind (JObject kvs) @ rest
                = 0x7B # (?W @ quote_json (fst kv1) @ [0x3A] @ ?sp @
                          stringify_at p (ind + 2) (snd kv1) @ ?tail)"
      unfolding Cons by (simp add: join_Cons comp_def)
    have first: "skip_ws (?W @ quote_json (fst kv1) @ [0x3A] @ ?sp @
                          stringify_at p (ind + 2) (snd kv1) @ ?tail)
                 = 0x22 # (quote_chars (fst kv1) @ [0x22] @ [0x3A] @ ?sp @
                          stringify_at p (ind + 2) (snd kv1) @ ?tail)"
      by (simp add: quote_json_def skip_ws_pre_token newline_indent_ws not_ws_tokens)
    have ne: "number_end ?tail"
      by (rule number_end_tail [OF newline_indent_ws]) simp
    have one: "parse_member m (?W @ quote_json (fst kv1) @ [0x3A] @ ?sp @
                 stringify_at p (ind + 2) (snd kv1) @ ?tail) = Some ((fst kv1, snd kv1), ?tail)"
    proof (rule parse_member_one [OF _ wf(1) m(1) newline_indent_ws sp ne])
      show "parse_value n (pre @ stringify_at p (ind + 2) (snd kv1) @ rest) = Some (snd kv1, rest)"
        if "wf_json (snd kv1)" "size (snd kv1) < n" "list_all is_json_ws pre" "number_end rest"
        for n pre rest
        using IH [of kv1 n pre rest] that by (simp add: Cons)
    qed
    have mems: "parse_members m ?tail = Some (kvs', rest)"
    proof (rule parse_members_tail [OF _ wf(2) m(2) newline_indent_ws newline_indent_ws sp])
      show "parse_value n (pre @ stringify_at p (ind + 2) (snd kv) @ rest) = Some (snd kv, rest)"
        if "kv \<in> set kvs'" "wf_json (snd kv)" "size (snd kv) < n" "list_all is_json_ws pre"
          "number_end rest" for kv n pre rest
        using IH [of kv n pre rest] that by (simp add: Cons)
    qed
    have "(0x22 :: 16 word) \<noteq> 0x7D" by simp
    from parse_value_object [OF first this one mems] make_object_distinct [OF dist]
    have "parse_value (Suc m) (stringify_at p ind (JObject kvs) @ rest) = Some (JObject kvs, rest)"
      unfolding shape by (simp add: Cons)
    then show ?thesis
      unfolding n by (simp only: parse_value_skip [OF JObject.prems(3)])
  qed
qed


lemma size_le_length_stringify: "size v \<le> length (stringify_at p ind v)"
proof (induction v arbitrary: ind)
  case (JNumber i)
  then show ?case using decimal_int_start [of i] by auto
next
  case (JArray vs)
  show ?case
  proof (cases vs)
    case Nil
    then show ?thesis by (simp add: js_def)
  next
    case (Cons v1 vs')
    have "size_list size vs \<le> sum_list (map (\<lambda>v. length (stringify_at p (ind + 2) v)) vs) + length vs"
      using JArray.IH
    proof (induction vs)
      case Nil
      then show ?case by simp
    next
      case (Cons a vs)
      from Cons.prems [of a "ind + 2"] Cons.IH Cons.prems show ?case by fastforce
    qed
    then show ?thesis
      unfolding Cons by (simp add: length_join_Cons comp_def)
  qed
next
  case (JObject kvs)
  show ?case
  proof (cases kvs)
    case Nil
    then show ?thesis by (simp add: js_def)
  next
    case (Cons kv1 kvs')
    let ?member = "\<lambda>kv. quote_json (fst kv) @ [0x3A] @ (if p then [0x20] else []) @
                       stringify_at p (ind + 2) (snd kv)"
    have "size_list (size_prod (\<lambda>_. 0) size) kvs
          \<le> sum_list (map (\<lambda>kv. length (?member kv)) kvs)"
      using JObject.IH
    proof (induction kvs)
      case Nil
      then show ?case by simp
    next
      case (Cons a kvs)
      from Cons.prems [of a "snd a" "ind + 2"]
      have "size (snd a) \<le> length (stringify_at p (ind + 2) (snd a))"
        by (cases a) simp
      moreover from Cons.IH Cons.prems
      have "size_list (size_prod (\<lambda>_. 0) size) kvs
          \<le> sum_list (map (\<lambda>kv. length (?member kv)) kvs)"
        by fastforce
      ultimately show ?case by (cases a) (simp add: quote_json_def)
    qed
    then show ?thesis
      unfolding Cons by (simp add: length_join_Cons comp_def)
  qed
qed (simp_all add: js_def quote_json_def)

lemma JSON_parse_stringify:
  assumes "wf_json v"
  shows "JSON_parse (JSON_stringify p v) = Some v"
proof -
  have "size v < length (stringify_at p 0 v) + 1"
    using size_le_length_stringify [of v p 0] by simp
  from parse_value_stringify [OF assms this, of "[]" "[]"]
  show ?thesis by (simp add: JSON_parse_def JSON_stringify_def number_end_def skip_ws_def)
qed

section \<open>Properties of the character card parser\<close>

lemma or_else_string:
  "or_else (Some (JString s)) (Some (JString [])) = Some (JString s)"
  by (simp add: or_else_def truthy_def)

lemma String_of_empty: "String_of (Some (JString [])) = []"
  by (simp add: String_of_def)

lemma in_operator_object: "in_operator k (JObject kvs) = Inr (map_of kvs k \<noteq> None)"
  by (simp add: in_operator_def)

lemma get_property_object: "get_property (JObject kvs) k = map_of kvs k"
  by (simp add: get_property_def)

lemma typeof_object_simps:
  "typeof_object (Some (JObject kvs))" "typeof_object (Some (JArray vs))"
  "typeof_object (Some JNull)" "\<not> typeof_object None"
  by (simp_all add: typeof_object_def)

lemma js_neq:
  "js ''spec'' \<noteq> js ''name''" "js ''data'' \<noteq> js ''name''"
  by (simp_all add: js_eq_iff)

lemma cd_name_extracted:
  "get_property obj (js ''name'') = Some (JString []) \<Longrightarrow>
     cd_name (data (extracted_card obj)) = Some (JString []) \<and>
     spec (extracted_card obj) = js ''chara_card_v2''"
  by (simp add: extracted_card_def extractCharacterData_def or_else_string String_of_empty)

lemma parse_v1_shaped:
  assumes "JSON_parse t = Some (JObject kvs)" and "map_of kvs (js ''spec'') = None"
    and "map_of kvs (js ''name'') = Some (JString [])"
    and "map_of kvs (js ''description'') \<noteq> None" and "map_of kvs (js ''first_mes'') \<noteq> None"
  shows "parseCharacterCard t = Inr (convertV1ToV2 (JObject kvs))"
  using assms
  by (simp add: parseCharacterCard_def isV2Card_def isV1Card_def in_operator_object
      get_property_object typeof_object_simps)

lemma parse_from_root:
  assumes "JSON_parse t = Some (JObject kvs)" and "map_of kvs (js ''spec'') = None"
    and "map_of kvs (js ''name'') = Some (JString [])"
    and "\<not> (map_of kvs (js ''description'') \<noteq> None \<and> map_of kvs (js ''first_mes'') \<noteq> None)"
    and "case map_of kvs (js ''data'') of
           None \<Rightarrow> True
         | Some nd \<Rightarrow> \<not> typeof_object (Some nd) \<or> in_operator (js ''name'') nd = Inr False"
  shows "parseCharacterCard t = Inr (extracted_card (JObject kvs))"
  using assms
  by (auto simp: parseCharacterCard_def isV2Card_def isV1Card_def in_operator_object
      get_property_object typeof_object_simps Let_def split: option.splits)

lemma JSON_parse_v1_empty_name:
  "JSON_parse v1_empty_name =
     Some (JObject [(js ''name'', JString []), (js ''description'', JString (js ''d'')),
                    (js ''first_mes'', JString (js ''hi''))])"
  by code_simp

lemma JSON_parse_bare_empty_name:
  "JSON_parse bare_empty_name = Some (JObject [(js ''name'', JString [])])"
  by code_simp

lemma JSON_parse_v2_empty_name:
  "JSON_parse v2_empty_name =
     Some (JObject [(js ''spec'', JString (js ''chara_card_v2'')),
                    (js ''spec_version'', JString (js ''2.0'')),
                    (js ''data'', JObject [(js ''name'', JString [])])])"
  by code_simp

lemma JSON_parse_nested_name:
  "JSON_parse nested_name =
     Some (JObject [(js ''name'', JString []),
                    (js ''data'', JObject [(js ''name'', JString (js ''X''))])])"
  by code_simp

subsection \<open>C10: an empty name\<close>

text \<open>
  Claim C10 says that \<open>parseCharacterCard\<close> accepts an input without a spec tag whose name
  is the empty string and returns a card with \<open>data.name = ''\<close>, whereas a generation-2
  card whose \<open>data.name\<close> is the empty string is rejected. As stated for every input
  without a spec tag it fails: when the input is not of the generation-1 shape and has a
  nested \<open>data\<close> object with a name of its own, the parser reads the card from the nested
  object, by design, and the name returned is the nested one. On
  \<open>nested_name\<close> (an empty name at the top, the name X in the nested data) the card has
  \<open>data.name = 'X'\<close>.
\<close>

theorem parseCharacterCard_nested_name_counterexample:
  "JSON_parse nested_name =
     Some (JObject [(js ''name'', JString []),
                    (js ''data'', JObject [(js ''name'', JString (js ''X''))])]) \<and>
   parseCharacterCard nested_name =
     Inr \<lparr>spec = js ''chara_card_v2'', spec_version = js ''2.0'',
          data = \<lparr>cd_name = Some (JString (js ''X'')), cd_description = Some (JString []),
            cd_personality = Some (JString []), cd_scenario = Some (JString []),
            cd_first_mes = Some (JString []), cd_mes_example = Some (JString []),
            cd_creator_notes = None, cd_system_prompt = None,
            cd_post_history_instructions = None, cd_alternate_greetings = None,
            cd_tags = None, cd_creator = None, cd_character_version = None,
            cd_extensions = None\<rparr>\<rparr>"
  by (simp add: JSON_parse_nested_name parseCharacterCard_def isV2Card_def isV1Card_def
      in_operator_object get_property_object typeof_object_simps js_eq_iff extracted_card_def
      extractCharacterData_def or_else_def truthy_def String_of_def string_if_truthy_def
      strings_if_array_def)

text \<open>
  Claim C10 as amended: \<open>parseCharacterCard\<close> accepts an input without a spec tag whose name
  is the empty string and returns a generation-2 card with \<open>data.name = ''\<close>, when the input
  is of the generation-1 shape (\<open>name\<close>, \<open>description\<close> and \<open>first_mes\<close> present) or has no
  \<open>data\<close> property that passes \<open>typeof data.data === 'object'\<close> and holds a \<open>name\<close>
  (nothing is said of a \<open>data\<close> that is \<open>null\<close>); whereas a generation-2 card
  (spec \<open>chara_card_v2\<close>) whose \<open>data.name\<close> is the empty string is rejected with the error
  \<open>Character name is required\<close>: emptiness of the name counts as absence on the
  generation-2 validation path only.
\<close>

theorem parseCharacterCard_empty_name:
  "(JSON_parse t = Some (JObject kvs) \<and> map_of kvs (js ''spec'') = None \<and>
    map_of kvs (js ''name'') = Some (JString []) \<and>
    ((map_of kvs (js ''description'') \<noteq> None \<and> map_of kvs (js ''first_mes'') \<noteq> None) \<or>
     (case map_of kvs (js ''data'') of
        None \<Rightarrow> True
      | Some nd \<Rightarrow> \<not> typeof_object (Some nd) \<or> in_operator (js ''name'') nd = Inr False))
    \<longrightarrow> (\<exists>c. parseCharacterCard t = Inr c \<and> spec c = js ''chara_card_v2'' \<and>
             cd_name (data c) = Some (JString []))) \<and>
   (JSON_parse t = Some (JObject kvs) \<and>
    map_of kvs (js ''spec'') = Some (JString (js ''chara_card_v2'')) \<and>
    map_of kvs (js ''data'') = Some (JObject dkvs) \<and>
    map_of dkvs (js ''name'') = Some (JString [])
    \<longrightarrow> parseCharacterCard t = Inl (Error (js ''Character name is required'')))"
proof (intro conjI impI)
  assume a: "JSON_parse t = Some (JObject kvs) \<and> map_of kvs (js ''spec'') = None \<and>
    map_of kvs (js ''name'') = Some (JString []) \<and>
    ((map_of kvs (js ''description'') \<noteq> None \<and> map_of kvs (js ''first_mes'') \<noteq> None) \<or>
     (case map_of kvs (js ''data'') of
        None \<Rightarrow> True
      | Some nd \<Rightarrow> \<not> typeof_object (Some nd) \<or> in_operator (js ''name'') nd = Inr False))"
  show "\<exists>c. parseCharacterCard t = Inr c \<and> spec c = js ''chara_card_v2'' \<and>
             cd_name (data c) = Some (JString [])"
  proof (cases "map_of kvs (js ''description'') \<noteq> None \<and> map_of kvs (js ''first_mes'') \<noteq> None")
    case True
    with a have "parseCharacterCard t = Inr (convertV1ToV2 (JObject kvs))"
      by (simp add: parse_v1_shaped)
    moreover from a have "cd_name (data (convertV1ToV2 (JObject kvs))) = Some (JString [])"
      by (simp add: convertV1ToV2_def get_property_object or_else_string)
    ultimately show ?thesis by (simp add: convertV1ToV2_def)
  next
    case False
    with a have "parseCharacterCard t = Inr (extracted_card (JObject kvs))"
      by (intro parse_from_root) auto
    moreover from a have "get_property (JObject kvs) (js ''name'') = Some (JString [])"
      by (simp add: get_property_object)
    ultimately show ?thesis using cd_name_extracted by simp
  qed
next
  assume "JSON_parse t = Some (JObject kvs) \<and>
    map_of kvs (js ''spec'') = Some (JString (js ''chara_card_v2'')) \<and>
    map_of kvs (js ''data'') = Some (JObject dkvs) \<and>
    map_of dkvs (js ''name'') = Some (JString [])"
  then show "parseCharacterCard t = Inl (Error (js ''Character name is required''))"
    by (simp add: parseCharacterCard_def isV2Card_def in_operator_object get_property_object
        typeof_object_simps validateV2Card_def truthy_def)
qed

text \<open>
  The generation-1 card and the object with a name only are accepted with the empty name;
  the generation-2 card is rejected.
\<close>

theorem parseCharacterCard_empty_name_witness:
  "(\<exists>c. parseCharacterCard v1_empty_name = Inr c \<and> spec c = js ''chara_card_v2'' \<and>
        cd_name (data c) = Some (JString [])) \<and>
   (\<exists>c. parseCharacterCard bare_empty_name = Inr c \<and> spec c = js ''chara_card_v2'' \<and>
        cd_name (data c) = Some (JString [])) \<and>
   parseCharacterCard v2_empty_name = Inl (Error (js ''Character name is required''))"
proof -
  note main = parseCharacterCard_empty_name
  have "\<exists>c. parseCharacterCard v1_empty_name = Inr c \<and> spec c = js ''chara_card_v2'' \<and>
        cd_name (data c) = Some (JString [])"
    using main [of v1_empty_name "[(js ''name'', JString []), (js ''description'', JString (js ''d'')),
                    (js ''first_mes'', JString (js ''hi''))]"]
    by (simp add: JSON_parse_v1_empty_name js_eq_iff)
  moreover have "\<exists>c. parseCharacterCard bare_empty_name = Inr c \<and> spec c = js ''chara_card_v2'' \<and>
        cd_name (data c) = Some (JString [])"
    using main [of bare_empty_name "[(js ''name'', JString [])]"]
    by (simp add: JSON_parse_bare_empty_name js_eq_iff)
  moreover have "parseCharacterCard v2_empty_name = Inl (Error (js ''Character name is required''))"
    using main [of v2_empty_name "[(js ''spec'', JString (js ''chara_card_v2'')),
                    (js ''spec_version'', JString (js ''2.0'')),
                    (js ''data'', JObject [(js ''name'', JString [])])]"
                  "[(js ''name'', JString [])]"]
    by (simp add: JSON_parse_v2_empty_name js_eq_iff)
  ultimately show ?thesis by simp
qed

lemma own_property_order_filter:
  "own_property_order (filter P kvs) = filter P (own_property_order kvs)"
  by (simp add: own_property_order_def filter_sort [symmetric] conj_commute cong: filter_cong)

lemma wf_json_filter:
  assumes "wf_json (JObject kvs)"
  shows "wf_json (JObject (filter P kvs))"
proof -
  from assms have "distinct (map fst (filter P kvs))"
    by (simp add: distinct_map_filter)
  moreover from assms have "own_property_order (filter P kvs) = filter P kvs"
    by (simp add: own_property_order_filter)
  moreover from assms have "list_all (\<lambda>kv. wf_json (snd kv)) (filter P kvs)"
    by (simp add: list_all_iff)
  ultimately show ?thesis by simp
qed

lemma map_of_filter_other:
  "k \<notin> S \<Longrightarrow> map_of (filter (\<lambda>kv. fst kv \<notin> S) kvs) k = map_of kvs k"
  by (induction kvs) auto

lemma not_array_index: "k \<noteq> [] \<Longrightarrow> \<not> is_digit (hd k) \<Longrightarrow> array_index k = None"
  by (cases k) (simp_all add: array_index_def)

lemma card_keys_order:
  "own_property_order [(js ''spec'', a), (js ''spec_version'', b), (js ''data'', c)] =
     [(js ''spec'', a), (js ''spec_version'', b), (js ''data'', c)]"
proof -
  have "array_index (js ''spec'') = None" "array_index (js ''spec_version'') = None"
    "array_index (js ''data'') = None"
    by (rule not_array_index; simp add: js_def is_digit_def)+
  then show ?thesis by (simp add: own_property_order_def)
qed

lemma wf_json_exportToV2Card:
  assumes "wf_json (JObject chara)"
  shows "wf_json (exportToV2Card chara)"
  using wf_json_filter [OF assms]
  by (simp add: exportToV2Card_def card_keys_order js_eq_iff Let_def)

lemma JSON_parse_exportCharacterToJson:
  assumes "wf_json (JObject chara)"
  shows "JSON_parse (exportCharacterToJson chara pretty) = Some (exportToV2Card chara)"
  using JSON_parse_stringify [OF wf_json_exportToV2Card [OF assms]]
  by (simp add: exportCharacterToJson_def Let_def)

lemma wf_json_eva_character: "wf_json (JObject eva_character)"
  by code_simp

lemma exportCharacterToJson_eva_character:
  "exportCharacterToJson eva_character False =
     json_text ''{`spec`:`chara_card_v2`,`spec_version`:`2.0`,`data`:{`name`:`'' @
     [0x65E5, 0x672C] @
     json_text ''`,`description`:`She says '' @ [0x5C, 0x22] @ js ''hi'' @ [0x5C, 0x22] @
     json_text ''`,`personality`:`p`,`scenario`:``,`first_mes`:`hi`,`mes_example`:``,'' @
     json_text ''`tags`:[`a`,`b`],`extensions`:{`depth`:4,`world`:null}}}''"
  by code_simp

subsection \<open>C2: export and parse\<close>

text \<open>
  Claim C2: for every valid character (the six required fields present and strings, the
  name not empty), parsing the exported JSON text, pretty-printed or compact, gives a
  generation-2 card whose data fields are the character's: the required fields as they
  are, each optional field with the value the character has for it, or undefined when it
  has none; \<open>id\<close>, \<open>avatar\<close>, the timestamps, \<open>isFavorite\<close> and \<open>chatCount\<close> are not part of
  the card. The character is any JavaScript object of JSON values (\<open>wf_json\<close>: the keys
  of an object are distinct and in the order of enumeration, which holds of every object).
\<close>

theorem parseCharacterCard_exportCharacterToJson:
  assumes "wf_json (JObject chara)"
    and "map_of chara (js ''name'') = Some (JString n)" and "n \<noteq> []"
    and "map_of chara (js ''description'') = Some (JString d)"
    and "map_of chara (js ''personality'') = Some (JString p)"
    and "map_of chara (js ''scenario'') = Some (JString s)"
    and "map_of chara (js ''first_mes'') = Some (JString f)"
    and "map_of chara (js ''mes_example'') = Some (JString m)"
  shows "parseCharacterCard (exportCharacterToJson chara pretty) =
     Inr \<lparr>spec = js ''chara_card_v2'', spec_version = js ''2.0'',
          data = \<lparr>cd_name = Some (JString n), cd_description = Some (JString d),
            cd_personality = Some (JString p), cd_scenario = Some (JString s),
            cd_first_mes = Some (JString f), cd_mes_example = Some (JString m),
            cd_creator_notes = map_of chara (js ''creator_notes''),
            cd_system_prompt = map_of chara (js ''system_prompt''),
            cd_post_history_instructions = map_of chara (js ''post_history_instructions''),
            cd_alternate_greetings = map_of chara (js ''alternate_greetings''),
            cd_tags = map_of chara (js ''tags''),
            cd_creator = map_of chara (js ''creator''),
            cd_character_version = map_of chara (js ''character_version''),
            cd_extensions = map_of chara (js ''extensions'')\<rparr>\<rparr>"
proof -
  define rest where "rest = filter (\<lambda>kv. fst kv \<notin> set [js ''id'', js ''avatar'',
      js ''createdAt'', js ''updatedAt'', js ''isFavorite'', js ''chatCount'']) chara"
  have keep: "map_of rest (js k) = map_of chara (js k)"
    if "k \<notin> set [''id'', ''avatar'', ''createdAt'', ''updatedAt'', ''isFavorite'', ''chatCount'']"
    for k
    unfolding rest_def using that by (intro map_of_filter_other) (simp add: js_eq_iff)
  have v2card: "exportToV2Card chara =
      JObject [(js ''spec'', JString (js ''chara_card_v2'')),
               (js ''spec_version'', JString (js ''2.0'')), (js ''data'', JObject rest)]"
    by (simp add: exportToV2Card_def Let_def rest_def)
  have v2: "isV2Card (exportToV2Card chara)"
    unfolding v2card
    by (simp add: isV2Card_def typeof_object_simps in_operator_object get_property_object)
  have "validateV2Card (exportToV2Card chara) = Inr
         \<lparr>spec = js ''chara_card_v2'', spec_version = js ''2.0'',
          data = \<lparr>cd_name = Some (JString n), cd_description = Some (JString d),
            cd_personality = Some (JString p), cd_scenario = Some (JString s),
            cd_first_mes = Some (JString f), cd_mes_example = Some (JString m),
            cd_creator_notes = map_of chara (js ''creator_notes''),
            cd_system_prompt = map_of chara (js ''system_prompt''),
            cd_post_history_instructions = map_of chara (js ''post_history_instructions''),
            cd_alternate_greetings = map_of chara (js ''alternate_greetings''),
            cd_tags = map_of chara (js ''tags''),
            cd_creator = map_of chara (js ''creator''),
            cd_character_version = map_of chara (js ''character_version''),
            cd_extensions = map_of chara (js ''extensions'')\<rparr>\<rparr>"
    unfolding v2card using assms(2-)
    by (simp add: validateV2Card_def get_property_object js_eq_iff keep truthy_def
        or_else_string)
  with v2 show ?thesis
    unfolding parseCharacterCard_def JSON_parse_exportCharacterToJson [OF assms(1)]
    by simp
qed

text \<open>
  The example character, in both forms of the text.
\<close>

theorem parseCharacterCard_exportCharacterToJson_witness:
  "wf_json (JObject eva_character) \<and>
   parseCharacterCard (exportCharacterToJson eva_character True) = Inr eva_card \<and>
   parseCharacterCard (exportCharacterToJson eva_character False) = Inr eva_card"
proof -
  have "[0x65E5, 0x672C] \<noteq> ([] :: jsstring)" by simp
  from parseCharacterCard_exportCharacterToJson [OF wf_json_eva_character _ this,
      of "json_text ''She says `hi`''" "js ''p''" "[]" "js ''hi''" "[]"]
  have "parseCharacterCard (exportCharacterToJson eva_character pretty) = Inr eva_card"
    for pretty
    by (simp add: eva_character_def eva_card_def js_eq_iff)
  then show ?thesis using wf_json_eva_character by simp
qed

section \<open>Properties of the PNG embedding\<close>

text \<open>
  \<open>embedCharacterIntoPng\<close> hands the JSON text of the card to \<open>btoa\<close>, and \<open>JSON.stringify\<close>
  leaves the characters above 0xFF as they are: whenever the text has one, the call throws,
  whatever the image.
\<close>

lemma embedCharacterIntoPng_throws:
  assumes "atob base64PngData = Inr binaryString"
    and "signature_ok (bytes_of_binary binaryString)"
    and "list_ex (\<lambda>c. 0xFF < c) (JSON_stringify False (exportToV2Card chara))"
  shows "embedCharacterIntoPng base64PngData chara = Some (Inl InvalidCharacterError)"
  using assms by (simp add: embedCharacterIntoPng_def btoa_def Let_def)

lemma atob_MINIMAL_PNG_BASE64:
  "atob MINIMAL_PNG_BASE64 =
     Inr (fromCharCodes (PNG_SIGNATURE @
       [0, 0, 0, 13, 73, 72, 68, 82, 0, 0, 0, 1, 0, 0, 0, 1, 8, 6, 0, 0, 0, 31, 21, 196, 137,
        0, 0, 0, 13, 73, 68, 65, 84, 120, 218, 99, 100, 248, 207, 80, 15, 0, 3, 134, 1, 128,
        90, 52, 125, 107, 0, 0, 0, 0, 73, 69, 78, 68, 174, 66, 96, 130]))"
  by code_simp

subsection \<open>C1: embedding into a PNG and extracting\<close>

text \<open>
  Claim C1 says that for every valid character data (name not empty) and every
  well-formed base PNG, extracting from the image that \<open>embedCharacterIntoPng\<close> produces
  returns a card with the same data, and that an image embedded into twice carries one
  \<open>chara\<close> chunk, with the newest data. The repository's tests say the same of any valid
  character data. For a character whose name is not Latin-1 there is no image to extract
  from: on the one-pixel image of the tests and \<open>eva_character\<close>, whose name has the code
  units 0x65E5 and 0x672C, \<open>embedCharacterIntoPng\<close> throws the InvalidCharacterError of
  \<open>btoa\<close>. (The same character goes through \<open>exportCharacterToJson\<close> and
  \<open>parseCharacterCard\<close> unchanged.)
\<close>

theorem embedCharacterIntoPng_non_latin1:
  "embedCharacterIntoPng MINIMAL_PNG_BASE64 eva_character = Some (Inl InvalidCharacterError)"
  by code_simp

end
